theory Spec2Isabelle
  imports Main
begin

section \<open>Data model\<close>

text \<open>
  A chat message of the conversation history (\<^verbatim>\<open>Message{Role, Content}\<close>) and the
  part of a contract definition the harness generator reads (\<^verbatim>\<open>Name()\<close>,
  \<^verbatim>\<open>SourcePath()\<close>). Go strings are byte sequences, hence \<open>string\<close>.
\<close>

record Message =
  Role :: string
  Content :: string

record Contract =
  Name :: string
  SourcePath :: string

section \<open>Go standard library: strings and path/filepath (Unix)\<close>

text \<open>\<^verbatim>\<open>os.IsPathSeparator\<close> on Unix: the separator is the slash.\<close>

definition IsPathSeparator :: "char \<Rightarrow> bool" where
  "IsPathSeparator c = (c = CHR ''/'')"

text \<open>\<^verbatim>\<open>strings.HasSuffix\<close> and \<^verbatim>\<open>strings.TrimSuffix\<close>.\<close>

definition strings_HasSuffix :: "string \<Rightarrow> string \<Rightarrow> bool" where
  "strings_HasSuffix s suffix =
     (length suffix \<le> length s \<and> drop (length s - length suffix) s = suffix)"

definition strings_TrimSuffix :: "string \<Rightarrow> string \<Rightarrow> string" where
  "strings_TrimSuffix s suffix =
     (if strings_HasSuffix s suffix then take (length s - length suffix) s else s)"

text \<open>\<^verbatim>\<open>strings.Join(elems, sep)\<close>.\<close>

fun strings_Join :: "string list \<Rightarrow> string \<Rightarrow> string" where
  "strings_Join [] sep = []"
| "strings_Join [e] sep = e"
| "strings_Join (e # es) sep = e @ sep @ strings_Join es sep"

text \<open>
  \<^verbatim>\<open>filepath.Split\<close>: the index runs down from the end while the byte is not a
  separator; the path is cut right after the last separator (there is no volume name
  on Unix).
\<close>

fun split_index :: "string \<Rightarrow> nat \<Rightarrow> nat" where
  "split_index path 0 = 0"
| "split_index path (Suc i) =
     (if IsPathSeparator (path ! i) then Suc i else split_index path i)"

definition filepath_Split :: "string \<Rightarrow> string \<times> string" where
  "filepath_Split path =
     (let i = split_index path (length path) in (take i path, drop i path))"

text \<open>
  \<^verbatim>\<open>filepath.Ext\<close>: the index runs down from the end until a separator; at the first
  dot met the suffix from there is returned, otherwise the empty string.
\<close>

fun ext_index :: "string \<Rightarrow> nat \<Rightarrow> nat option" where
  "ext_index path 0 = None"
| "ext_index path (Suc i) =
     (if IsPathSeparator (path ! i) then None
      else if path ! i = CHR ''.'' then Some i
      else ext_index path i)"

definition filepath_Ext :: "string \<Rightarrow> string" where
  "filepath_Ext path =
     (case ext_index path (length path) of None \<Rightarrow> [] | Some i \<Rightarrow> drop i path)"

text \<open>
  \<^verbatim>\<open>filepath.Clean\<close>. The state of its loop is the output written so far and the
  index \<open>dotdot\<close> below which a \<^verbatim>\<open>..\<close> element must not remove anything; the
  argument list is the unread rest of the path.
\<close>

fun back_loop :: "string \<Rightarrow> nat \<Rightarrow> nat \<Rightarrow> nat" where
  "back_loop out w dotdot =
     (if w > dotdot \<and> \<not> IsPathSeparator (out ! w) then back_loop out (w - 1) dotdot else w)"

declare back_loop.simps [simp del]

definition dotdot_elem :: "bool \<Rightarrow> string \<times> nat \<Rightarrow> string \<times> nat" where
  "dotdot_elem rooted st =
     (case st of (out, dotdot) \<Rightarrow>
        if length out > dotdot then (take (back_loop out (length out - 1) dotdot) out, dotdot)
        else if \<not> rooted then
          (let out' = (if length out > 0 then out @ ''/'' else out) @ ''..''
           in (out', length out'))
        else (out, dotdot))"

definition copy_elem :: "bool \<Rightarrow> string \<Rightarrow> string \<Rightarrow> string" where
  "copy_elem rooted out elem =
     (if (rooted \<and> length out \<noteq> 1) \<or> (\<not> rooted \<and> length out \<noteq> 0)
      then out @ ''/'' @ elem else out @ elem)"

text \<open>
  The tests of the loop: the element that starts with the byte \<open>c\<close>, followed by \<open>cs\<close>,
  is \<^verbatim>\<open>.\<close> or \<^verbatim>\<open>..\<close> when the dots are followed by the end of the path or by a
  separator.
\<close>

fun at_elem_end :: "string \<Rightarrow> bool" where
  "at_elem_end [] = True"
| "at_elem_end (c # cs) = IsPathSeparator c"

definition is_dot :: "char \<Rightarrow> string \<Rightarrow> bool" where
  "is_dot c cs = (c = CHR ''.'' \<and> at_elem_end cs)"

definition is_dotdot :: "char \<Rightarrow> string \<Rightarrow> bool" where
  "is_dotdot c cs =
     (c = CHR ''.'' \<and> (case cs of [] \<Rightarrow> False | d # ds \<Rightarrow> d = CHR ''.'' \<and> at_elem_end ds))"

function clean_loop :: "bool \<Rightarrow> string \<Rightarrow> string \<times> nat \<Rightarrow> string \<times> nat" where
  "clean_loop rooted [] st = st"
| "clean_loop rooted (c # cs) st =
     (if IsPathSeparator c then clean_loop rooted cs st
      else if is_dot c cs then clean_loop rooted cs st
      else if is_dotdot c cs then clean_loop rooted (tl cs) (dotdot_elem rooted st)
      else clean_loop rooted (dropWhile (\<lambda>x. \<not> IsPathSeparator x) cs)
             (copy_elem rooted (fst st) (c # takeWhile (\<lambda>x. \<not> IsPathSeparator x) cs), snd st))"
  by pat_completeness auto
termination
  by (relation "measure (\<lambda>(rooted, path, st). length path)")
     (auto intro: le_imp_less_Suc length_dropWhile_le)

definition filepath_Clean :: "string \<Rightarrow> string" where
  "filepath_Clean path =
     (if path = [] then ''.''
      else
        let rooted = IsPathSeparator (hd path);
            st0 = (if rooted then (''/'', 1) else ([], 0));
            out = fst (clean_loop rooted (if rooted then tl path else path) st0)
        in if out = [] then ''.'' else out)"

text \<open>
  \<^verbatim>\<open>filepath.Join\<close>: the elements from the first non-empty one on are joined with the
  separator, and the result is cleaned; with no non-empty element the result is empty.
\<close>

fun filepath_Join :: "string list \<Rightarrow> string" where
  "filepath_Join [] = []"
| "filepath_Join (e # es) =
     (if e \<noteq> [] then filepath_Clean (strings_Join (e # es) ''/'') else filepath_Join es)"

section \<open>utils.go\<close>

text \<open>\<^verbatim>\<open>fmt.Sprintf("%sTest", contractName)\<close>.\<close>

definition generateTestContractName :: "string \<Rightarrow> string" where
  "generateTestContractName contractName = contractName @ ''Test''"

definition generateTestFilePath :: "string \<Rightarrow> string" where
  "generateTestFilePath filePath =
     (case filepath_Split filePath of (dir, file) \<Rightarrow>
        let ext = filepath_Ext file;
            filename = strings_TrimSuffix file ext;
            testFilename = filename @ ''_fuzz'' @ ext
        in filepath_Join [dir, testFilename])"

section \<open>prompts.go\<close>

text \<open>
  Both prompts are \<^verbatim>\<open>fmt.Sprintf\<close> with \<^verbatim>\<open>%s\<close> verbs only: the arguments are
  spliced into the template unchanged, in the order of the call. Quote and newline
  bytes of the template are written by their codes.
\<close>

definition GenerateFuzzHarnessPrompt ::
  "string \<Rightarrow> string \<Rightarrow> string \<Rightarrow> string \<Rightarrow> string \<Rightarrow> string \<Rightarrow> string" where
  "GenerateFuzzHarnessPrompt contractPath testContractPath contractContents
       testContractContents contractName testContractName =
     ''The following text in triple quotes is my Solidity file that resides at '' @ contractPath @ '' containing my main contracts: '' @ [CHR 0x27, CHR 0x27, CHR 0x27] @ contractContents @ [CHR 0x27, CHR 0x27, CHR 0x27, CHR 0x0A, CHR 0x0A] @
     ''I want to fuzz test the contract in this Solidity file. The following text in triple quotes denotes the fuzz harness that resides at '' @ testContractPath @ '': '' @ [CHR 0x27, CHR 0x27, CHR 0x27] @ testContractContents @ [CHR 0x27, CHR 0x27, CHR 0x27, CHR 0x0A, CHR 0x0A] @
     ''Step 1 - If a contract named '' @ [CHR 0x27] @ testContractName @ [CHR 0x27] @ '' does not exist in the Solidity file, create it. This contract contains the tests for '' @ [CHR 0x27] @ contractName @ [CHR 0x27] @ ''.'' @ [CHR 0x0A] @
     ''Step 2 - Go through the tests present in '' @ [CHR 0x27] @ testContractName @ [CHR 0x27] @ '', if any. If there are no tests present, create a test case for '' @ [CHR 0x27] @ contractName @ [CHR 0x27] @ ''.If there are tests present, add another test case for '' @ [CHR 0x27] @ contractName @ [CHR 0x27] @ '' to '' @ [CHR 0x27] @ testContractName @ [CHR 0x27] @ ''.'' @ [CHR 0x0A] @
     ''Note: The test case created should be a system invariant for '' @ [CHR 0x27] @ contractName @ [CHR 0x27] @ '' and should be in the following form in triple quotes:'' @
     [CHR 0x27, CHR 0x27, CHR 0x27] @ ''function testDeposit(uint256 _amount) public {'' @ [CHR 0x0A] @
     ''    // Let'' @ [CHR 0x27] @ ''s bound the input to be _at most_ the ETH balance of this contract'' @ [CHR 0x0A] @
     ''    // The amount value will now in between [0, address(this).balance]'' @ [CHR 0x0A] @
     ''    uint256 amount = clampLte(_amount, address(this).balance);'' @ [CHR 0x0A, CHR 0x0A] @
     ''    // Retrieve balance of user before deposit'' @ [CHR 0x0A] @
     ''    uint256 preBalance = depositContract.balances(address(this));'' @ [CHR 0x0A, CHR 0x0A] @
     ''    // Call the deposit contract with a variable amount'' @ [CHR 0x0A] @
     ''    depositContract.deposit{value: _amount}();'' @ [CHR 0x0A, CHR 0x0A] @
     ''    // Assert post-conditions'' @ [CHR 0x0A] @
     ''    assert(depositContract.balances(address(this)) == preBalance + amount);'' @ [CHR 0x0A] @
     ''}'' @ [CHR 0x27, CHR 0x27, CHR 0x27, CHR 0x0A] @
     ''Note: Return only the contents of the test file after the test case has been added to '' @ [CHR 0x27] @ testContractName @ [CHR 0x27] @ ''. If no solidity license specifier or version specifier was present in the test file, add it in based on the license and version in the main contract file.'' @ [CHR 0x0A] @
     ''Note: Make sure to properly document the code for better understanding.'' @ [CHR 0x0A] @
     ''Note: Make sure to include an import of the main contract in the test file. The imported path should be relative to the test file.'' @ [CHR 0x0A] @
     ''Note: You should not include any text in your response other than the generated test file, neither should your response be in markdown format as this response will be written directly to a solidity file.'' @ [CHR 0x0A]"

definition RegenerateFuzzHarnessPrompt :: "string \<Rightarrow> string" where
  "RegenerateFuzzHarnessPrompt errEncountered =
     ''There is an error in the generated fuzzing harness. Here is the error in triple quotes: '' @ [CHR 0x27, CHR 0x27, CHR 0x27] @ errEncountered @ [CHR 0x27, CHR 0x27, CHR 0x27] @ ''.'' @ [CHR 0x0A] @
     ''Please fix the error and re-generate the test file.'' @ [CHR 0x0A] @ ''.'' @
     ''Note: Do not add any new invariants to the test file nor remove any invariants from the test file.'' @ [CHR 0x0A] @
     ''Note: Return only the contents of the re-generated test file.'' @ [CHR 0x0A] @
     ''Note: Make sure to properly document the code for better understanding, but do not add comments regarding the changes you have j made to the test file.'' @ [CHR 0x0A] @
     ''Note: You should not include any text in your response other than the generated test file, neither should your response be in markdown format as this response will be written directly to a solidity file.'' @ [CHR 0x0A]"

text \<open>
  \<^verbatim>\<open>TrainingPrompts\<close>: the five messages the history starts with. Their contents are
  the string literals of the source, byte for byte.
\<close>

definition training_content_0 :: string where
  "training_content_0 =
     ''# Medusa'' @ [CHR 0x0A] @
     [CHR 0x0A] @
     [CHR 0x60] @ ''medusa'' @ [CHR 0x60] @ '' is a cross-platform go-ethereum-based smart contract fuzzer inspired by Echidna'' @
     ''. It provides parallelized fuzz'' @ [CHR 0x0A] @
     ''testing of smart contracts through CLI, or its Go API that allows custom user-extended t'' @
     ''esting methodology.'' @ [CHR 0x0A] @
     [CHR 0x0A] @
     ''Traditional fuzz testing (e.g. with ['' @ [CHR 0x60] @ ''AFL'' @ [CHR 0x60] @ ''](https://lcamtuf.coredump.cx/afl/)) aims to g'' @
     ''enerally explore a binary by providing'' @ [CHR 0x0A] @
     ''random inputs in an effort to identify new system states or crash the program (please no'' @
     ''te that this is a pretty crude generalization).'' @ [CHR 0x0A] @
     ''This model, however, does not translate to the smart contract ecosystem since you cannot'' @
     '' cause a smart contract to '' @ [CHR 0x22] @ ''crash'' @ [CHR 0x22] @ ''.'' @ [CHR 0x0A] @
     ''A transaction that reverts, for example, is not equivalent to a binary crashing or panic'' @
     ''king.'' @ [CHR 0x0A] @
     [CHR 0x0A] @
     ''Thus, with smart contracts, we have to change the fuzzing paradigm. When you hear of '' @ [CHR 0x22] @ ''fu'' @
     ''zzing smart contracts'' @ [CHR 0x22] @ '', you are'' @ [CHR 0x0A] @
     ''not trying to crash the program but, instead, you are trying to validate the **invariant'' @
     ''s** of the program.'' @ [CHR 0x0A] @
     [CHR 0x0A] @
     ''> **Definition**: An invariant is a property that remains unchanged after one or more op'' @
     ''erations are applied to it.'' @ [CHR 0x0A] @
     [CHR 0x0A] @
     ''More generally, an invariant is a '' @ [CHR 0x22] @ ''truth'' @ [CHR 0x22] @ '' about some system. For smart contracts, this c'' @
     ''an take many faces.'' @ [CHR 0x0A] @
     [CHR 0x0A] @
     ''1. **Mathematical invariants**: '' @ [CHR 0x60] @ ''a + b = b + a'' @ [CHR 0x60] @ ''. The commutative property is an invarian'' @
     ''t and any Solidity math library'' @ [CHR 0x0A] @
     ''   should uphold this property.'' @ [CHR 0x0A] @
     ''2. **ERC20 tokens**: The sum of all user balances should never exceed the total supply o'' @
     ''f the token.'' @ [CHR 0x0A] @
     ''3. **Automated market maker (e.g. Uniswap)**: '' @ [CHR 0x60] @ ''xy = k'' @ [CHR 0x60] @ ''. The constant-product formula is '' @
     ''an invariant that maintains the'' @ [CHR 0x0A] @
     ''   economic guarantees of AMMs such as Uniswap.'' @ [CHR 0x0A] @
     [CHR 0x0A] @
     ''> **Definition**: Smart contract fuzzing uses random sequences of transactions to test t'' @
     ''he invariants of the smart contract system.'' @ [CHR 0x0A] @
     [CHR 0x0A] @
     ''Before we explore how to identify, write, and test invariants, it is beneficial to under'' @
     ''stand how smart contract fuzzing'' @ [CHR 0x0A] @
     ''works under-the-hood.'' @ [CHR 0x0A] @
     [CHR 0x0A] @
     ''## Types of Invariants'' @ [CHR 0x0A] @
     [CHR 0x0A] @
     ''> **Note**: In this context, property and invariant mean the same thing and are intercha'' @
     ''ngeable'' @ [CHR 0x0A] @
     [CHR 0x0A] @
     ''Defining and testing your invariants is critical to assessing the **expected system beha'' @
     ''vior**.'' @ [CHR 0x0A] @
     [CHR 0x0A] @
     ''We like to break down invariants into two general categories: function-level invariants '' @
     ''and system-level invariants.'' @ [CHR 0x0A] @
     ''Note that there are other ways of defining and scoping invariants, but this distinction '' @
     ''is generally sufficient to'' @ [CHR 0x0A] @
     ''start fuzz testing even the most complex systems.'' @ [CHR 0x0A] @
     [CHR 0x0A] @
     ''### Function-level invariants'' @ [CHR 0x0A] @
     [CHR 0x0A] @
     ''A function-level invariant can be defined as follows:'' @ [CHR 0x0A] @
     [CHR 0x0A] @
     ''> **Definition**: A function-level invariant is a property that arises from the executio'' @
     ''n of a specific function.'' @ [CHR 0x0A] @
     [CHR 0x0A] @
     ''Let'' @ [CHR 0x27] @ ''s take the following function from a smart contract:'' @ [CHR 0x0A] @
     [CHR 0x0A] @
     [CHR 0x60, CHR 0x60, CHR 0x60] @ ''solidity'' @ [CHR 0x0A] @
     ''function deposit() public payable {'' @ [CHR 0x0A] @
     ''    // Make sure that the total deposited amount does not exceed the limit'' @ [CHR 0x0A] @
     ''    uint256 amount = msg.value;'' @ [CHR 0x0A] @
     ''    require(totalDeposited + amount <= MAX_DEPOSIT_AMOUNT);'' @ [CHR 0x0A] @
     [CHR 0x0A] @
     ''    // Update the user balance and total deposited'' @ [CHR 0x0A] @
     ''    balances[msg.sender] += amount;'' @ [CHR 0x0A] @
     ''    totalDeposited += amount;'' @ [CHR 0x0A] @
     [CHR 0x0A] @
     ''    emit Deposit(msg.sender, amount, totalDeposited);'' @ [CHR 0x0A] @
     ''}'' @ [CHR 0x0A] @
     [CHR 0x60, CHR 0x60, CHR 0x60, CHR 0x0A] @
     [CHR 0x0A] @
     ''The '' @ [CHR 0x60] @ ''deposit'' @ [CHR 0x60] @ '' function has the following function-level invariants:'' @ [CHR 0x0A] @
     [CHR 0x0A] @
     ''1. The ETH balance of '' @ [CHR 0x60] @ ''msg.sender'' @ [CHR 0x60] @ '' must decrease by '' @ [CHR 0x60] @ ''amount'' @ [CHR 0x60] @ ''.'' @ [CHR 0x0A] @
     ''2. The ETH of '' @ [CHR 0x60] @ ''address(this)'' @ [CHR 0x60] @ '' must increase by '' @ [CHR 0x60] @ ''amount'' @ [CHR 0x60] @ ''.'' @ [CHR 0x0A] @
     ''3. '' @ [CHR 0x60] @ ''balances[msg.sender]'' @ [CHR 0x60] @ '' should increase by '' @ [CHR 0x60] @ ''amount'' @ [CHR 0x60] @ ''.'' @ [CHR 0x0A] @
     ''4. The '' @ [CHR 0x60] @ ''totalDeposited'' @ [CHR 0x60] @ '' value should increase by '' @ [CHR 0x60] @ ''amount'' @ [CHR 0x60] @ ''.'' @ [CHR 0x0A] @
     [CHR 0x0A] @
     ''Note that there other properties that can also be tested for but the above should highli'' @
     ''ght what a function-level'' @ [CHR 0x0A] @
     ''invariant is. In general, function-level invariants can be identified by assessing what '' @
     ''must be true _before_ the execution'' @ [CHR 0x0A] @
     ''of a function and what must be true _after_ the execution of that same function.'' @ [CHR 0x0A] @
     [CHR 0x0A] @
     ''Let'' @ [CHR 0x27] @ ''s now look at system-level invariants.'' @ [CHR 0x0A] @
     [CHR 0x0A] @
     ''### System-level invariants'' @ [CHR 0x0A] @
     [CHR 0x0A] @
     ''A system-level invariant can be defined as follows:'' @ [CHR 0x0A] @
     [CHR 0x0A] @
     ''> **Definition**: A system-level invariant is a property that holds true across the _ent'' @
     ''ire_ execution of a system'' @ [CHR 0x0A] @
     [CHR 0x0A] @
     ''Thus, a system-level invariant is a lot more generalized than a function-level invariant'' @
     ''. Here are two common examples'' @ [CHR 0x0A] @
     ''of a function-level invariant:'' @ [CHR 0x0A] @
     [CHR 0x0A] @
     ''1. The '' @ [CHR 0x60] @ ''xy=k'' @ [CHR 0x60] @ '' constant product formula should always hold for Uniswap pools'' @ [CHR 0x0A] @
     ''2. No user'' @ [CHR 0x27] @ ''s balance should ever exceed the total supply for an ERC20 token.'' @ [CHR 0x0A] @
     [CHR 0x0A] @
     ''In the '' @ [CHR 0x60] @ ''deposit'' @ [CHR 0x60] @ '' function above, we also see the presence of a system-level invariant:'' @ [CHR 0x0A] @
     [CHR 0x0A] @
     ''**The '' @ [CHR 0x60] @ ''totalDeposited'' @ [CHR 0x60] @ '' amount should always be less than or equal to the '' @ [CHR 0x60] @ ''MAX_DEPOSIT_AM'' @
     ''OUNT'' @ [CHR 0x60] @ ''**.'' @ [CHR 0x0A] @
     [CHR 0x0A] @
     ''Since the '' @ [CHR 0x60] @ ''totalDeposited'' @ [CHR 0x60] @ '' value can be affected by the presence of other functions in t'' @
     ''he system'' @ [CHR 0x0A] @
     ''(e.g. '' @ [CHR 0x60] @ ''withdraw'' @ [CHR 0x60] @ '' or '' @ [CHR 0x60] @ ''stake'' @ [CHR 0x60] @ ''), it is best tested at the system level instead of the funct'' @
     ''ion level.'' @ [CHR 0x0A] @
     [CHR 0x0A] @
     ''### Writing Function-Level Invariants'' @ [CHR 0x0A] @
     [CHR 0x0A] @
     ''Before we write the fuzz tests, let'' @ [CHR 0x27] @ ''s look into how we would write a unit test for the '' @ [CHR 0x60] @
     ''deposit'' @ [CHR 0x60] @ '' function:'' @ [CHR 0x0A] @
     [CHR 0x0A] @
     [CHR 0x60, CHR 0x60, CHR 0x60] @ ''solidity'' @ [CHR 0x0A] @
     ''function testDeposit() public {'' @ [CHR 0x0A] @
     ''    // The amount of tokens to deposit'' @ [CHR 0x0A] @
     ''    uint256 amount = 10 ether;'' @ [CHR 0x0A] @
     [CHR 0x0A] @
     ''    // Retrieve balance of user before deposit'' @ [CHR 0x0A] @
     ''    preBalance = depositContract.balances(address(this));'' @ [CHR 0x0A] @
     [CHR 0x0A] @
     ''    // Call the deposit contract (let'' @ [CHR 0x27] @ ''s assume this contract has 10 ether)'' @ [CHR 0x0A] @
     ''    depositContract.deposit{value: amount}();'' @ [CHR 0x0A] @
     [CHR 0x0A] @
     ''    // Assert post-conditions'' @ [CHR 0x0A] @
     ''    assert(depositContract.balances(msg.sender) == preBalance + amount);'' @ [CHR 0x0A] @
     ''    // Add other assertions here'' @ [CHR 0x0A] @
     ''}'' @ [CHR 0x0A] @
     [CHR 0x60, CHR 0x60, CHR 0x60, CHR 0x0A] @
     [CHR 0x0A] @
     ''What we will notice about the test above is that it _fixes_ the value that is being sent'' @
     ''. It is unable to test how the'' @ [CHR 0x0A] @
     [CHR 0x60] @ ''deposit'' @ [CHR 0x60] @ '' function behaves across a variety of input spaces. Thus, a function-level fuzz'' @
     '' test can be thought of as a'' @ [CHR 0x0A] @
     [CHR 0x22] @ ''unit test on steroids'' @ [CHR 0x22] @ ''. Instead of fixing the '' @ [CHR 0x60] @ ''amount'' @ [CHR 0x60] @ '', we let the fuzzer control the '' @ [CHR 0x60] @
     ''amount'' @ [CHR 0x60] @ '' value to any number between'' @ [CHR 0x0A] @
     [CHR 0x60] @ ''[0, type(uint256).max]'' @ [CHR 0x60] @ '' and see how the system behaves to that.'' @ [CHR 0x0A] @
     [CHR 0x0A] @
     ''> **Note**: One of the core differences between a traditional unit test versus a fuzz te'' @
     ''st is that a fuzz test accepts input arguments that the fuzzer can control.'' @ [CHR 0x0A] @
     [CHR 0x0A] @
     ''#### Writing a Fuzz Test for the '' @ [CHR 0x60] @ ''deposit'' @ [CHR 0x60] @ '' Function'' @ [CHR 0x0A] @
     [CHR 0x0A] @
     ''Here is what a fuzz test for the '' @ [CHR 0x60] @ ''deposit'' @ [CHR 0x60] @ '' function would look like:'' @ [CHR 0x0A] @
     [CHR 0x0A] @
     [CHR 0x60, CHR 0x60, CHR 0x60] @ ''solidity'' @ [CHR 0x0A] @
     ''function testDeposit(uint256 _amount) public {'' @ [CHR 0x0A] @
     ''    // Let'' @ [CHR 0x27] @ ''s bound the input to be _at most_ the ETH balance of this contract'' @ [CHR 0x0A] @
     ''    // The amount value will now in between [0, address(this).balance]'' @ [CHR 0x0A] @
     ''    uint256 amount = clampLte(_amount, address(this).balance);'' @ [CHR 0x0A] @
     [CHR 0x0A] @
     ''    // Retrieve balance of user before deposit'' @ [CHR 0x0A] @
     ''    uint256 preBalance = depositContract.balances(address(this));'' @ [CHR 0x0A] @
     [CHR 0x0A] @
     ''    // Call the deposit contract with a variable amount'' @ [CHR 0x0A] @
     ''    depositContract.deposit{value: _amount}();'' @ [CHR 0x0A] @
     [CHR 0x0A] @
     ''    // Assert post-conditions'' @ [CHR 0x0A] @
     ''    assert(depositContract.balances(address(this)) == preBalance + amount);'' @ [CHR 0x0A] @
     ''    // Add other assertions here'' @ [CHR 0x0A] @
     ''}'' @ [CHR 0x0A] @
     [CHR 0x60, CHR 0x60, CHR 0x60, CHR 0x0A] @
     [CHR 0x0A] @
     ''Notice that we bounded the '' @ [CHR 0x60] @ ''_amount'' @ [CHR 0x60] @ '' variable to be less than or equal to the test contr'' @
     ''act'' @ [CHR 0x27] @ ''s ETH balance.'' @ [CHR 0x0A] @
     ''This type of bounding is very common when writing fuzz tests. Bounding allows you to onl'' @
     ''y test values that are reasonable.'' @ [CHR 0x0A] @
     ''If '' @ [CHR 0x60] @ ''address(this)'' @ [CHR 0x60] @ '' doesn'' @ [CHR 0x27] @ ''t have enough ETH, it does not make sense to try and call the '' @ [CHR 0x60] @
     ''deposit'' @ [CHR 0x60] @ '' function. Additionally,'' @ [CHR 0x0A] @
     ''although we only tested one of the function-level invariants mentioned previously, writi'' @
     ''ng the remaining'' @ [CHR 0x0A] @
     ''would follow a similar pattern as the one written above.'' @ [CHR 0x0A] @
     [CHR 0x0A] @
     ''#### The contract to be tested and its corresponding test contract'' @ [CHR 0x0A] @
     [CHR 0x0A] @
     [CHR 0x60, CHR 0x60, CHR 0x60] @ ''solidity'' @ [CHR 0x0A] @
     ''contract DepositContract {'' @ [CHR 0x0A] @
     ''    // @notice MAX_DEPOSIT_AMOUNT is the maximum amount that can be deposited into this '' @
     ''contract'' @ [CHR 0x0A] @
     ''    uint256 public constant MAX_DEPOSIT_AMOUNT = 1_000_000e18;'' @ [CHR 0x0A] @
     [CHR 0x0A] @
     ''    // @notice balances holds user balances'' @ [CHR 0x0A] @
     ''    mapping(address => uint256) public balances;'' @ [CHR 0x0A] @
     [CHR 0x0A] @
     ''    // @notice totalDeposited represents the current deposited amount across all users'' @ [CHR 0x0A] @
     ''    uint256 public totalDeposited;'' @ [CHR 0x0A] @
     [CHR 0x0A] @
     ''    // @notice Deposit event is emitted after a deposit occurs'' @ [CHR 0x0A] @
     ''    event Deposit(address depositor, uint256 amount, uint256 totalDeposited);'' @ [CHR 0x0A] @
     [CHR 0x0A] @
     ''    // @notice deposit allows user to deposit into the system'' @ [CHR 0x0A] @
     ''    function deposit() public payable {'' @ [CHR 0x0A] @
     ''        // Make sure that the total deposited amount does not exceed the limit'' @ [CHR 0x0A] @
     ''        uint256 amount = msg.value;'' @ [CHR 0x0A] @
     ''        require(totalDeposited + amount <= MAX_DEPOSIT_AMOUNT);'' @ [CHR 0x0A] @
     [CHR 0x0A] @
     ''        // Update the user balance and total deposited'' @ [CHR 0x0A] @
     ''        balances[msg.sender] += amount;'' @ [CHR 0x0A] @
     ''        totalDeposited += amount;'' @ [CHR 0x0A] @
     [CHR 0x0A] @
     ''        emit Deposit(msg.sender, amount, totalDeposited);'' @ [CHR 0x0A] @
     ''    }'' @ [CHR 0x0A] @
     ''}'' @ [CHR 0x0A] @
     [CHR 0x0A] @
     ''contract TestDepositContract {'' @ [CHR 0x0A] @
     [CHR 0x0A] @
     ''    // @notice depositContract is an instance of DepositContract'' @ [CHR 0x0A] @
     ''    DepositContract depositContract;'' @ [CHR 0x0A] @
     [CHR 0x0A] @
     ''    constructor() payable {'' @ [CHR 0x0A] @
     ''        // Deploy the deposit contract'' @ [CHR 0x0A] @
     ''        depositContract = new DepositContract();'' @ [CHR 0x0A] @
     ''    }'' @ [CHR 0x0A] @
     [CHR 0x0A] @
     ''    // @notice testDeposit tests the DepositContract.deposit function'' @ [CHR 0x0A] @
     ''    function testDeposit(uint256 _amount) public {'' @ [CHR 0x0A] @
     ''        // Let'' @ [CHR 0x27] @ ''s bound the input to be _at most_ the ETH balance of this contract'' @ [CHR 0x0A] @
     ''        // The amount value will now in between [0, address(this).balance]'' @ [CHR 0x0A] @
     ''        uint256 amount = clampLte(_amount, address(this).balance);'' @ [CHR 0x0A] @
     [CHR 0x0A] @
     ''        // Retrieve balance of user before deposit'' @ [CHR 0x0A] @
     ''        uint256 preBalance = depositContract.balances(address(this));'' @ [CHR 0x0A] @
     [CHR 0x0A] @
     ''        // Call the deposit contract with a variable amount'' @ [CHR 0x0A] @
     ''        depositContract.deposit{value: _amount}();'' @ [CHR 0x0A] @
     [CHR 0x0A] @
     ''        // Assert post-conditions'' @ [CHR 0x0A] @
     ''        assert(depositContract.balances(address(this)) == preBalance + amount);'' @ [CHR 0x0A] @
     ''        // Add other assertions here'' @ [CHR 0x0A] @
     ''    }'' @ [CHR 0x0A] @
     [CHR 0x0A] @
     ''    // @notice clampLte returns a value between [a, b]'' @ [CHR 0x0A] @
     ''    function clampLte(uint256 a, uint256 b) internal returns (uint256) {'' @ [CHR 0x0A] @
     ''        if (!(a <= b)) {'' @ [CHR 0x0A] @
     ''            uint256 value = a % (b + 1);'' @ [CHR 0x0A] @
     ''            return value;'' @ [CHR 0x0A] @
     ''        }'' @ [CHR 0x0A] @
     ''        return a;'' @ [CHR 0x0A] @
     ''    }'' @ [CHR 0x0A] @
     [CHR 0x0A] @
     ''}'' @ [CHR 0x0A] @
     [CHR 0x60, CHR 0x60, CHR 0x60, CHR 0x0A] @
     [CHR 0x0A] @
     ''## Testing with '' @ [CHR 0x60] @ ''medusa'' @ [CHR 0x60, CHR 0x0A] @
     [CHR 0x0A] @
     [CHR 0x60] @ ''medusa'' @ [CHR 0x60] @ '' supports the following testing modes:'' @ [CHR 0x0A] @
     [CHR 0x0A] @
     ''1. [Property Mode](https://secure-contracts.com/program-analysis/echidna/introduction/ho'' @
     ''w-to-test-a-property.html)'' @ [CHR 0x0A] @
     ''2. [Assertion Mode](https://secure-contracts.com/program-analysis/echidna/basic/assertio'' @
     ''n-checking.html)'' @ [CHR 0x0A] @
     [CHR 0x0A] @
     ''For more advanced information and documentation on how the various modes work and their '' @
     ''pros/cons, check out [secure-contracts.com](https://secure-contracts.com/program-analysi'' @
     ''s/echidna/index.html)'' @ [CHR 0x0A] @
     [CHR 0x0A] @
     ''### Writing property tests'' @ [CHR 0x0A] @
     [CHR 0x0A] @
     ''Property tests are represented as functions within a Solidity contract whose names are p'' @
     ''refixed with a prefix specified by the '' @ [CHR 0x60] @ ''testPrefixes'' @ [CHR 0x60] @ '' configuration option ('' @ [CHR 0x60] @ ''fuzz_'' @ [CHR 0x60] @ '' is t'' @
     ''he default test prefix). Additionally, they must take no arguments and return a '' @ [CHR 0x60] @ ''bool'' @ [CHR 0x60] @ '' i'' @
     ''ndicating if the test succeeded.'' @ [CHR 0x0A] @
     [CHR 0x0A] @
     [CHR 0x60, CHR 0x60, CHR 0x60] @ ''solidity'' @ [CHR 0x0A] @
     ''contract TestXY {'' @ [CHR 0x0A] @
     ''    uint x;'' @ [CHR 0x0A] @
     ''    uint y;'' @ [CHR 0x0A] @
     [CHR 0x0A] @
     ''    function setX(uint value) public {'' @ [CHR 0x0A] @
     ''        x = value + 3;'' @ [CHR 0x0A] @
     ''    }'' @ [CHR 0x0A] @
     [CHR 0x0A] @
     ''    function setY(uint value) public {'' @ [CHR 0x0A] @
     ''        y = value + 9;'' @ [CHR 0x0A] @
     ''    }'' @ [CHR 0x0A] @
     [CHR 0x0A] @
     ''    function fuzz_never_specific_values() public returns (bool) {'' @ [CHR 0x0A] @
     ''        // ASSERTION: x should never be 10 at the same time y is 80'' @ [CHR 0x0A] @
     ''        return !(x == 10 && y == 80);'' @ [CHR 0x0A] @
     ''    }'' @ [CHR 0x0A] @
     ''}'' @ [CHR 0x0A] @
     [CHR 0x60, CHR 0x60, CHR 0x60, CHR 0x0A] @
     [CHR 0x0A] @
     [CHR 0x60] @ ''medusa'' @ [CHR 0x60] @ '' deploys your contract containing property tests and generates a sequence of cal'' @
     ''ls to execute against all publicly accessible methods. After each function call, it call'' @
     ''s upon your property tests to ensure they return a '' @ [CHR 0x60] @ ''true'' @ [CHR 0x60] @ '' (success) status.'' @ [CHR 0x0A] @
     [CHR 0x0A] @
     ''#### Testing in property-mode'' @ [CHR 0x0A] @
     [CHR 0x0A] @
     ''Invoking this fuzzing campaign, '' @ [CHR 0x60] @ ''medusa'' @ [CHR 0x60] @ '' will:'' @ [CHR 0x0A] @
     [CHR 0x0A] @
     ''- Compile the given targets'' @ [CHR 0x0A] @
     ''- Start the configured number of worker threads, each with their own local Ethereum test'' @
     '' chain.'' @ [CHR 0x0A] @
     ''- Deploy all contracts to each worker'' @ [CHR 0x27] @ ''s test chain.'' @ [CHR 0x0A] @
     ''- Begin to generate and send call sequences to update contract state.'' @ [CHR 0x0A] @
     ''- Check property tests all succeed after each call executed.'' @ [CHR 0x0A] @
     [CHR 0x0A] @
     ''Upon discovery of a failed property test, '' @ [CHR 0x60] @ ''medusa'' @ [CHR 0x60] @ '' will halt, reporting the call sequenc'' @
     ''e used to violate any property test(s).'' @ [CHR 0x0A] @
     ''### Writing assertion tests'' @ [CHR 0x0A] @
     [CHR 0x0A] @
     ''Although both property-mode and assertion-mode try to validate / invalidate invariants o'' @
     ''f the system, they do so in different ways. In property-mode, '' @ [CHR 0x60] @ ''medusa'' @ [CHR 0x60] @ '' will look for fun'' @
     ''ctions with a specific test prefix (e.g. '' @ [CHR 0x60] @ ''fuzz_'' @ [CHR 0x60] @ '') and test those. In assertion-mode, '' @ [CHR 0x60] @ ''me'' @
     ''dusa'' @ [CHR 0x60] @ '' will test to see if a given call sequence can cause the Ethereum Virtual Machine ('' @
     ''EVM) to '' @ [CHR 0x22] @ ''panic'' @ [CHR 0x22] @ ''. The EVM has a variety of panic codes for different scenarios. For examp'' @
     ''le, there is a unique panic code when an '' @ [CHR 0x60] @ ''assert(x)'' @ [CHR 0x60] @ '' statement returns '' @ [CHR 0x60] @ ''false'' @ [CHR 0x60] @ '' or when a'' @
     '' division by zero is encountered. In assertion mode, which panics should or should not b'' @
     ''e treated as '' @ [CHR 0x22] @ ''failing test cases'' @ [CHR 0x22] @ '' can be toggled by updating the [Project Configuration]'' @
     ''(./Project-Configuration.md#fuzzing-configuration). By default, only '' @ [CHR 0x60] @ ''FailOnAssertion'' @ [CHR 0x60] @ '' i'' @
     ''s enabled. Check out the [Example Project Configuration File](https://github.com/crytic/'' @
     ''medusa/wiki/Example-Project-Configuration-File) for a visualization of the various panic'' @
     '' codes that can be enabled. An explanation of the various panic codes can be found in th'' @
     ''e [Solidity documentation](https://docs.soliditylang.org/en/latest/control-structures.ht'' @
     ''ml#panic-via-assert-and-error-via-require).'' @ [CHR 0x0A] @
     [CHR 0x0A] @
     ''Please note that the behavior of assertion mode is different between '' @ [CHR 0x60] @ ''medusa'' @ [CHR 0x60] @ '' and Echidn'' @
     ''a. Echidna will only test for '' @ [CHR 0x60] @ ''assert(x)'' @ [CHR 0x60] @ '' statements while '' @ [CHR 0x60] @ ''medusa'' @ [CHR 0x60] @ '' provides additional '' @
     ''flexibility.'' @ [CHR 0x0A] @
     [CHR 0x0A] @
     [CHR 0x60, CHR 0x60, CHR 0x60] @ ''solidity'' @ [CHR 0x0A] @
     ''contract TestContract {'' @ [CHR 0x0A] @
     ''    uint x;'' @ [CHR 0x0A] @
     ''    uint y;'' @ [CHR 0x0A] @
     [CHR 0x0A] @
     ''    function setX(uint value) public {'' @ [CHR 0x0A] @
     ''        x = value;'' @ [CHR 0x0A] @
     [CHR 0x0A] @
     ''        // ASSERTION: x should be an even number'' @ [CHR 0x0A] @
     ''        assert(x % 2 == 0);'' @ [CHR 0x0A] @
     ''    }'' @ [CHR 0x0A] @
     ''}'' @ [CHR 0x0A] @
     [CHR 0x60, CHR 0x60, CHR 0x60, CHR 0x0A] @
     [CHR 0x0A] @
     ''During a call sequence, if '' @ [CHR 0x60] @ ''setX'' @ [CHR 0x60] @ '' is called with a '' @ [CHR 0x60] @ ''value'' @ [CHR 0x60] @ '' that breaks the assertion (e.'' @
     ''g. '' @ [CHR 0x60] @ ''value = 3'' @ [CHR 0x60] @ ''), '' @ [CHR 0x60] @ ''medusa'' @ [CHR 0x60] @ '' will treat this as a failing property and report it back to th'' @
     ''e user.'' @ [CHR 0x0A] @
     [CHR 0x0A] @
     ''#### Testing in assertion-mode'' @ [CHR 0x0A] @
     [CHR 0x0A] @
     ''Invoking this fuzzing campaign, '' @ [CHR 0x60] @ ''medusa'' @ [CHR 0x60] @ '' will:'' @ [CHR 0x0A] @
     [CHR 0x0A] @
     ''- Compile the given targets'' @ [CHR 0x0A] @
     ''- Start the configured number of worker threads, each with their own local Ethereum test'' @
     '' chain.'' @ [CHR 0x0A] @
     ''- Deploy all contracts to each worker'' @ [CHR 0x27] @ ''s test chain.'' @ [CHR 0x0A] @
     ''- Begin to generate and send call sequences to update contract state.'' @ [CHR 0x0A] @
     ''- Check to see if there any failing assertions after each call executed.'' @ [CHR 0x0A] @
     [CHR 0x0A] @
     ''Upon discovery of a failed assertion, '' @ [CHR 0x60] @ ''medusa'' @ [CHR 0x60] @ '' will halt, reporting the call sequence us'' @
     ''ed to violate any assertions.'' @ [CHR 0x0A] @
     [CHR 0x0A] @
     ''### Testing with multiple modes'' @ [CHR 0x0A] @
     [CHR 0x0A] @
     ''Note that we can run '' @ [CHR 0x60] @ ''medusa'' @ [CHR 0x60] @ '' with one, many, or no modes enabled.'' @ [CHR 0x0A] @
     [CHR 0x0A] @
     [CHR 0x60, CHR 0x60, CHR 0x60] @ ''solidity'' @ [CHR 0x0A] @
     ''contract TestContract {'' @ [CHR 0x0A] @
     ''    int256 input;'' @ [CHR 0x0A] @
     [CHR 0x0A] @
     ''    function set(int256 _input) public {'' @ [CHR 0x0A] @
     ''        input = _input;'' @ [CHR 0x0A] @
     ''    }'' @ [CHR 0x0A] @
     [CHR 0x0A] @
     ''    function failing_assert_method(uint value) public {'' @ [CHR 0x0A] @
     ''        // ASSERTION: We always fail when you call this function.'' @ [CHR 0x0A] @
     ''        assert(false);'' @ [CHR 0x0A] @
     ''    }'' @ [CHR 0x0A] @
     [CHR 0x0A] @
     ''    function fuzz_failing_property() public view returns (bool) {'' @ [CHR 0x0A] @
     ''        // ASSERTION: fail immediately.'' @ [CHR 0x0A] @
     ''        return false;'' @ [CHR 0x0A] @
     ''    }'' @ [CHR 0x0A] @
     ''}'' @ [CHR 0x0A] @
     [CHR 0x60, CHR 0x60, CHR 0x60, CHR 0x0A] @
     [CHR 0x0A] @
     ''## Cheatcodes Overview'' @ [CHR 0x0A] @
     [CHR 0x0A] @
     ''Cheatcodes allow users to manipulate EVM state, blockchain behavior, provide easy ways t'' @
     ''o manipulate data, and much more.'' @ [CHR 0x0A] @
     ''The cheatcode contract is deployed at '' @ [CHR 0x60] @ ''0x7109709ECfa91a80626fF3989D68f67F5b1DD12D'' @ [CHR 0x60] @ ''.'' @ [CHR 0x0A] @
     [CHR 0x0A] @
     ''### Cheatcode Interface'' @ [CHR 0x0A] @
     [CHR 0x0A] @
     ''The following interface must be added to your Solidity project if you wish to use cheatc'' @
     ''odes. Note that if you use Foundry'' @ [CHR 0x0A] @
     ''as your compilation platform that the cheatcode interface is already provided [here](htt'' @
     ''ps://book.getfoundry.sh/reference/forge-std/#forge-stds-test).'' @ [CHR 0x0A] @
     ''However, it is important to note that medusa does not support all the cheatcodes provide'' @
     ''d out-of-box'' @ [CHR 0x0A] @
     ''by Foundry (see below for supported cheatcodes).'' @ [CHR 0x0A] @
     [CHR 0x0A] @
     [CHR 0x60, CHR 0x60, CHR 0x60] @ ''solidity'' @ [CHR 0x0A] @
     ''interface StdCheats {'' @ [CHR 0x0A] @
     ''    // Set block.timestamp'' @ [CHR 0x0A] @
     ''    function warp(uint256) external;'' @ [CHR 0x0A] @
     [CHR 0x0A] @
     ''    // Set block.number'' @ [CHR 0x0A] @
     ''    function roll(uint256) external;'' @ [CHR 0x0A] @
     [CHR 0x0A] @
     ''    // Set block.basefee'' @ [CHR 0x0A] @
     ''    function fee(uint256) external;'' @ [CHR 0x0A] @
     [CHR 0x0A] @
     ''    // Set block.difficulty and block.prevrandao'' @ [CHR 0x0A] @
     ''    function difficulty(uint256) external;'' @ [CHR 0x0A] @
     [CHR 0x0A] @
     ''    // Set block.chainid'' @ [CHR 0x0A] @
     ''    function chainId(uint256) external;'' @ [CHR 0x0A] @
     [CHR 0x0A] @
     ''    // Sets the block.coinbase'' @ [CHR 0x0A] @
     ''    function coinbase(address) external;'' @ [CHR 0x0A] @
     [CHR 0x0A] @
     ''    // Loads a storage slot from an address'' @ [CHR 0x0A] @
     ''    function load(address account, bytes32 slot) external returns (bytes32);'' @ [CHR 0x0A] @
     [CHR 0x0A] @
     ''    // Stores a value to an address'' @ [CHR 0x27] @ '' storage slot'' @ [CHR 0x0A] @
     ''    function store(address account, bytes32 slot, bytes32 value) external;'' @ [CHR 0x0A] @
     [CHR 0x0A] @
     ''    // Sets the *next* call'' @ [CHR 0x27] @ ''s msg.sender to be the input address'' @ [CHR 0x0A] @
     ''    function prank(address) external;'' @ [CHR 0x0A] @
     [CHR 0x0A] @
     ''    // Set msg.sender to the input address until the current call exits'' @ [CHR 0x0A] @
     ''    function prankHere(address) external;'' @ [CHR 0x0A] @
     [CHR 0x0A] @
     ''    // Sets an address'' @ [CHR 0x27] @ '' balance'' @ [CHR 0x0A] @
     ''    function deal(address who, uint256 newBalance) external;'' @ [CHR 0x0A] @
     [CHR 0x0A] @
     ''    // Sets an address'' @ [CHR 0x27] @ '' code'' @ [CHR 0x0A] @
     ''    function etch(address who, bytes calldata code) external;'' @ [CHR 0x0A] @
     [CHR 0x0A] @
     ''    // Signs data'' @ [CHR 0x0A] @
     ''    function sign(uint256 privateKey, bytes32 digest)'' @ [CHR 0x0A] @
     ''        external'' @ [CHR 0x0A] @
     ''        returns (uint8 v, bytes32 r, bytes32 s);'' @ [CHR 0x0A] @
     [CHR 0x0A] @
     ''    // Computes address for a given private key'' @ [CHR 0x0A] @
     ''    function addr(uint256 privateKey) external returns (address);'' @ [CHR 0x0A] @
     [CHR 0x0A] @
     ''    // Gets the nonce of an account'' @ [CHR 0x0A] @
     ''    function getNonce(address account) external returns (uint64);'' @ [CHR 0x0A] @
     [CHR 0x0A] @
     ''    // Sets the nonce of an account'' @ [CHR 0x0A] @
     ''    // The new nonce must be higher than the current nonce of the account'' @ [CHR 0x0A] @
     ''    function setNonce(address account, uint64 nonce) external;'' @ [CHR 0x0A] @
     [CHR 0x0A] @
     ''    // Performs a foreign function call via terminal'' @ [CHR 0x0A] @
     ''    function ffi(string[] calldata) external returns (bytes memory);'' @ [CHR 0x0A] @
     [CHR 0x0A] @
     ''    // Take a snapshot of the current state of the EVM'' @ [CHR 0x0A] @
     ''    function snapshot() external returns (uint256);'' @ [CHR 0x0A] @
     [CHR 0x0A] @
     ''    // Revert state back to a snapshot'' @ [CHR 0x0A] @
     ''    function revertTo(uint256) external returns (bool);'' @ [CHR 0x0A] @
     [CHR 0x0A] @
     ''    // Convert Solidity types to strings'' @ [CHR 0x0A] @
     ''    function toString(address) external returns(string memory);'' @ [CHR 0x0A] @
     ''    function toString(bytes calldata) external returns(string memory);'' @ [CHR 0x0A] @
     ''    function toString(bytes32) external returns(string memory);'' @ [CHR 0x0A] @
     ''    function toString(bool) external returns(string memory);'' @ [CHR 0x0A] @
     ''    function toString(uint256) external returns(string memory);'' @ [CHR 0x0A] @
     ''    function toString(int256) external returns(string memory);'' @ [CHR 0x0A] @
     [CHR 0x0A] @
     ''    // Convert strings into Solidity types'' @ [CHR 0x0A] @
     ''    function parseBytes(string memory) external returns(bytes memory);'' @ [CHR 0x0A] @
     ''    function parseBytes32(string memory) external returns(bytes32);'' @ [CHR 0x0A] @
     ''    function parseAddress(string memory) external returns(address);'' @ [CHR 0x0A] @
     ''    function parseUint(string memory)external returns(uint256);'' @ [CHR 0x0A] @
     ''    function parseInt(string memory) external returns(int256);'' @ [CHR 0x0A] @
     ''    function parseBool(string memory) external returns(bool);'' @ [CHR 0x0A] @
     ''}'' @ [CHR 0x0A] @
     [CHR 0x60, CHR 0x60, CHR 0x60, CHR 0x0A] @
     [CHR 0x0A] @
     ''## Using cheatcodes'' @ [CHR 0x0A] @
     [CHR 0x0A] @
     ''Below is an example snippet of how you would import the cheatcode interface into your pr'' @
     ''oject and use it.'' @ [CHR 0x0A] @
     [CHR 0x0A] @
     [CHR 0x60, CHR 0x60, CHR 0x60] @ ''solidity'' @ [CHR 0x0A] @
     ''// Assuming cheatcode interface is in the same directory'' @ [CHR 0x0A] @
     ''import '' @ [CHR 0x22] @ ''./IStdCheats.sol'' @ [CHR 0x22] @ '';'' @ [CHR 0x0A] @
     [CHR 0x0A] @
     ''// MyContract will utilize the cheatcode interface'' @ [CHR 0x0A] @
     ''contract MyContract {'' @ [CHR 0x0A] @
     ''    // Set up reference to cheatcode contract'' @ [CHR 0x0A] @
     ''    IStdCheats cheats = IStdCheats(0x7109709ECfa91a80626fF3989D68f67F5b1DD12D);'' @ [CHR 0x0A] @
     [CHR 0x0A] @
     ''    // This is a test function that will set the msg.sender'' @ [CHR 0x27] @ ''s nonce to the provided inpu'' @
     ''t argument'' @ [CHR 0x0A] @
     ''    function testFunc(uint256 _x) public {'' @ [CHR 0x0A] @
     ''        // Ensure that the input argument is greater than msg.sender'' @ [CHR 0x27] @ ''s current nonce'' @ [CHR 0x0A] @
     ''        require(_x > cheats.getNonce(msg.sender));'' @ [CHR 0x0A] @
     [CHR 0x0A] @
     ''        // Set sender'' @ [CHR 0x27] @ ''s nonce'' @ [CHR 0x0A] @
     ''        cheats.setNonce(msg.sender, x);'' @ [CHR 0x0A] @
     [CHR 0x0A] @
     ''        // Assert that the nonce has been correctly updated'' @ [CHR 0x0A] @
     ''        assert(cheats.getNonce(msg.sender) == x);'' @ [CHR 0x0A] @
     ''    }'' @ [CHR 0x0A] @
     ''}'' @ [CHR 0x0A] @
     [CHR 0x60, CHR 0x60, CHR 0x60, CHR 0x0A] @
     [CHR 0x0A] @
     ''### Tips for Testing with Medusa'' @ [CHR 0x0A] @
     [CHR 0x0A] @
     ''#### General'' @ [CHR 0x0A] @
     [CHR 0x0A] @
     ''- **Use multiple testing modes:** Medusa supports property testing, assertion testing, a'' @
     ''nd optimization testing. Use a combination of modes to thoroughly test your contracts.'' @ [CHR 0x0A] @
     ''- **Write clear and concise tests:** Your tests should be easy to read and understand. A'' @
     ''void complex logic or unnecessary code.'' @ [CHR 0x0A] @
     ''- **Test edge cases:** Consider testing extreme values and unusual inputs to ensure your'' @
     '' contracts handle them correctly.'' @ [CHR 0x0A] @
     ''- **Use a variety of test inputs:** Generate a diverse set of test inputs to cover a wid'' @
     ''e range of scenarios.'' @ [CHR 0x0A] @
     ''- **Monitor gas consumption:** Medusa can track gas consumption during testing. Use this'' @
     '' information to identify areas where your contracts can be optimized.'' @ [CHR 0x0A] @
     [CHR 0x0A] @
     ''#### Property Testing'' @ [CHR 0x0A] @
     [CHR 0x0A] @
     ''- **Choose meaningful properties:** The properties you test should be important invarian'' @
     ''ts of your contract.'' @ [CHR 0x0A] @
     [CHR 0x0A] @
     ''#### Assertion Testing'' @ [CHR 0x0A] @
     [CHR 0x0A] @
     ''- **Use assertions judiciously:** Assertions can be useful for catching errors, but they'' @
     '' can also slow down testing. Use them only when necessary.'' @ [CHR 0x0A] @
     ''- **Test for both valid and invalid inputs:** Ensure your assertions check for both vali'' @
     ''d and invalid inputs to thoroughly test your contract'' @ [CHR 0x27] @ ''s behavior.'' @ [CHR 0x0A] @
     ''- **Use pre-conditions and post-conditions to verify the state of the contract before an'' @
     ''d after a function call.:** Pre-conditions and post-conditions are assertions that can b'' @
     ''e used to verify the state of the contract before and after a function call. This can he'' @
     ''lp to ensure that the function is called with the correct inputs, that it produces the e'' @
     ''xpected outputs, and that the state of the contract is valid.''"

definition training_content_1 :: string where
  "training_content_1 =
     ''## More about medusa cheatcodes'' @ [CHR 0x0A] @
     ''### '' @ [CHR 0x60] @ ''addr'' @ [CHR 0x60, CHR 0x0A] @
     [CHR 0x0A] @
     ''#### Description'' @ [CHR 0x0A] @
     [CHR 0x0A] @
     ''The '' @ [CHR 0x60] @ ''addr'' @ [CHR 0x60] @ '' cheatcode will compute the address for a given private key.'' @ [CHR 0x0A] @
     [CHR 0x0A] @
     ''#### Example'' @ [CHR 0x0A] @
     [CHR 0x0A] @
     [CHR 0x60, CHR 0x60, CHR 0x60] @ ''solidity'' @ [CHR 0x0A] @
     ''// Obtain our cheat code contract reference.'' @ [CHR 0x0A] @
     ''IStdCheats cheats = CheatCodes(0x7109709ECfa91a80626fF3989D68f67F5b1DD12D);'' @ [CHR 0x0A] @
     [CHR 0x0A] @
     ''// Test with random private key'' @ [CHR 0x0A] @
     ''uint256 pkOne = 0x6df21769a2082e03f7e21f6395561279e9a7feb846b2bf740798c794ad196e00;'' @ [CHR 0x0A] @
     ''address addrOne = 0xdf8Ef652AdE0FA4790843a726164df8cf8649339;'' @ [CHR 0x0A] @
     ''address result = cheats.addr(pkOne);'' @ [CHR 0x0A] @
     ''assert(result == addrOne);'' @ [CHR 0x0A] @
     [CHR 0x60, CHR 0x60, CHR 0x60, CHR 0x0A] @
     [CHR 0x0A] @
     ''#### Function Signature'' @ [CHR 0x0A] @
     [CHR 0x0A] @
     [CHR 0x60, CHR 0x60, CHR 0x60] @ ''solidity'' @ [CHR 0x0A] @
     ''function addr(uint256 privateKey) external returns (address);'' @ [CHR 0x0A] @
     [CHR 0x60, CHR 0x60, CHR 0x60, CHR 0x0A] @
     ''### '' @ [CHR 0x60] @ ''chainId'' @ [CHR 0x60, CHR 0x0A] @
     [CHR 0x0A] @
     ''#### Description'' @ [CHR 0x0A] @
     [CHR 0x0A] @
     ''The '' @ [CHR 0x60] @ ''chainId'' @ [CHR 0x60] @ '' cheatcode will set the '' @ [CHR 0x60] @ ''block.chainid'' @ [CHR 0x60, CHR 0x0A] @
     [CHR 0x0A] @
     ''#### Example'' @ [CHR 0x0A] @
     [CHR 0x0A] @
     [CHR 0x60, CHR 0x60, CHR 0x60] @ ''solidity'' @ [CHR 0x0A] @
     ''// Obtain our cheat code contract reference.'' @ [CHR 0x0A] @
     ''IStdCheats cheats = CheatCodes(0x7109709ECfa91a80626fF3989D68f67F5b1DD12D);'' @ [CHR 0x0A] @
     [CHR 0x0A] @
     ''// Change value and verify.'' @ [CHR 0x0A] @
     ''cheats.chainId(777123);'' @ [CHR 0x0A] @
     ''assert(block.chainid == 777123);'' @ [CHR 0x0A] @
     [CHR 0x60, CHR 0x60, CHR 0x60, CHR 0x0A] @
     [CHR 0x0A] @
     ''#### Function Signature'' @ [CHR 0x0A] @
     [CHR 0x0A] @
     [CHR 0x60, CHR 0x60, CHR 0x60] @ ''solidity'' @ [CHR 0x0A] @
     ''function chainId(uint256) external;'' @ [CHR 0x0A] @
     [CHR 0x60, CHR 0x60, CHR 0x60, CHR 0x0A] @
     [CHR 0x0A] @
     ''### '' @ [CHR 0x60] @ ''coinbase'' @ [CHR 0x60, CHR 0x0A] @
     [CHR 0x0A] @
     ''#### Description'' @ [CHR 0x0A] @
     [CHR 0x0A] @
     ''The '' @ [CHR 0x60] @ ''coinbase'' @ [CHR 0x60] @ '' cheatcode will set the '' @ [CHR 0x60] @ ''block.coinbase'' @ [CHR 0x60, CHR 0x0A] @
     [CHR 0x0A] @
     ''#### Example'' @ [CHR 0x0A] @
     [CHR 0x0A] @
     [CHR 0x60, CHR 0x60, CHR 0x60] @ ''solidity'' @ [CHR 0x0A] @
     ''// Obtain our cheat code contract reference.'' @ [CHR 0x0A] @
     ''IStdCheats cheats = CheatCodes(0x7109709ECfa91a80626fF3989D68f67F5b1DD12D);'' @ [CHR 0x0A] @
     [CHR 0x0A] @
     ''// Change value and verify.'' @ [CHR 0x0A] @
     ''cheats.coinbase(address(7));'' @ [CHR 0x0A] @
     ''assert(block.coinbase == address(7));'' @ [CHR 0x0A] @
     [CHR 0x60, CHR 0x60, CHR 0x60, CHR 0x0A] @
     [CHR 0x0A] @
     ''#### Function Signature'' @ [CHR 0x0A] @
     [CHR 0x0A] @
     [CHR 0x60, CHR 0x60, CHR 0x60] @ ''solidity'' @ [CHR 0x0A] @
     ''function coinbase(address) external;'' @ [CHR 0x0A] @
     [CHR 0x60, CHR 0x60, CHR 0x60, CHR 0x0A] @
     [CHR 0x0A] @
     ''### '' @ [CHR 0x60] @ ''deal'' @ [CHR 0x60, CHR 0x0A] @
     [CHR 0x0A] @
     ''#### Description'' @ [CHR 0x0A] @
     [CHR 0x0A] @
     ''The '' @ [CHR 0x60] @ ''deal'' @ [CHR 0x60] @ '' cheatcode will set the ETH balance of address '' @ [CHR 0x60] @ ''who'' @ [CHR 0x60] @ '' to '' @ [CHR 0x60] @ ''newBalance'' @ [CHR 0x60, CHR 0x0A] @
     [CHR 0x0A] @
     ''#### Example'' @ [CHR 0x0A] @
     [CHR 0x0A] @
     [CHR 0x60, CHR 0x60, CHR 0x60] @ ''solidity'' @ [CHR 0x0A] @
     ''// Obtain our cheat code contract reference.'' @ [CHR 0x0A] @
     ''IStdCheats cheats = CheatCodes(0x7109709ECfa91a80626fF3989D68f67F5b1DD12D);'' @ [CHR 0x0A] @
     [CHR 0x0A] @
     ''// Change value and verify.'' @ [CHR 0x0A] @
     ''address acc = address(777);'' @ [CHR 0x0A] @
     ''cheats.deal(acc, x);'' @ [CHR 0x0A] @
     ''assert(acc.balance == x);'' @ [CHR 0x0A] @
     [CHR 0x60, CHR 0x60, CHR 0x60, CHR 0x0A] @
     [CHR 0x0A] @
     ''#### Function Signature'' @ [CHR 0x0A] @
     [CHR 0x0A] @
     [CHR 0x60, CHR 0x60, CHR 0x60] @ ''solidity'' @ [CHR 0x0A] @
     ''function deal(address who, uint256 newBalance) external;'' @ [CHR 0x0A] @
     [CHR 0x60, CHR 0x60, CHR 0x60, CHR 0x0A] @
     [CHR 0x0A] @
     ''### '' @ [CHR 0x60] @ ''difficulty'' @ [CHR 0x60, CHR 0x0A] @
     [CHR 0x0A] @
     ''#### Description'' @ [CHR 0x0A] @
     [CHR 0x0A] @
     ''The '' @ [CHR 0x60] @ ''difficulty'' @ [CHR 0x60] @ '' cheatcode will set the '' @ [CHR 0x60] @ ''block.difficulty'' @ [CHR 0x60] @ '' and the '' @ [CHR 0x60] @ ''block.prevrandao'' @ [CHR 0x60] @ '' va'' @
     ''lue. At the moment, both values'' @ [CHR 0x0A] @
     ''are changed since the cheatcode does not check what EVM version is running.'' @ [CHR 0x0A] @
     [CHR 0x0A] @
     ''Note that this behavior will change in the future.'' @ [CHR 0x0A] @
     [CHR 0x0A] @
     ''#### Example'' @ [CHR 0x0A] @
     [CHR 0x0A] @
     [CHR 0x60, CHR 0x60, CHR 0x60] @ ''solidity'' @ [CHR 0x0A] @
     ''// Obtain our cheat code contract reference.'' @ [CHR 0x0A] @
     ''IStdCheats cheats = CheatCodes(0x7109709ECfa91a80626fF3989D68f67F5b1DD12D);'' @ [CHR 0x0A] @
     [CHR 0x0A] @
     ''// Change value and verify.'' @ [CHR 0x0A] @
     ''cheats.difficulty(x);'' @ [CHR 0x0A] @
     ''assert(block.difficulty == x);'' @ [CHR 0x0A] @
     [CHR 0x60, CHR 0x60, CHR 0x60, CHR 0x0A] @
     [CHR 0x0A] @
     ''#### Function Signature'' @ [CHR 0x0A] @
     [CHR 0x0A] @
     [CHR 0x60, CHR 0x60, CHR 0x60] @ ''solidity'' @ [CHR 0x0A] @
     ''function difficulty(uint256) external;'' @ [CHR 0x0A] @
     [CHR 0x60, CHR 0x60, CHR 0x60, CHR 0x0A] @
     [CHR 0x0A] @
     ''### '' @ [CHR 0x60] @ ''etch'' @ [CHR 0x60, CHR 0x0A] @
     [CHR 0x0A] @
     ''#### Description'' @ [CHR 0x0A] @
     [CHR 0x0A] @
     ''The '' @ [CHR 0x60] @ ''etch'' @ [CHR 0x60] @ '' cheatcode will set the '' @ [CHR 0x60] @ ''who'' @ [CHR 0x60] @ '' address'' @ [CHR 0x27] @ ''s bytecode to '' @ [CHR 0x60] @ ''code'' @ [CHR 0x60] @ ''.'' @ [CHR 0x0A] @
     [CHR 0x0A] @
     ''#### Example'' @ [CHR 0x0A] @
     [CHR 0x0A] @
     [CHR 0x60, CHR 0x60, CHR 0x60] @ ''solidity'' @ [CHR 0x0A] @
     ''// Obtain our cheat code contract reference.'' @ [CHR 0x0A] @
     ''IStdCheats cheats = CheatCodes(0x7109709ECfa91a80626fF3989D68f67F5b1DD12D);'' @ [CHR 0x0A] @
     [CHR 0x0A] @
     ''// Obtain our original code hash for an account.'' @ [CHR 0x0A] @
     ''address acc = address(777);'' @ [CHR 0x0A] @
     ''bytes32 originalCodeHash;'' @ [CHR 0x0A] @
     ''assembly { originalCodeHash := extcodehash(acc) }'' @ [CHR 0x0A] @
     [CHR 0x0A] @
     ''// Change value and verify.'' @ [CHR 0x0A] @
     ''cheats.etch(acc, address(someContract).code);'' @ [CHR 0x0A] @
     ''bytes32 updatedCodeHash;'' @ [CHR 0x0A] @
     ''assembly { updatedCodeHash := extcodehash(acc) }'' @ [CHR 0x0A] @
     ''assert(originalCodeHash != updatedCodeHash);'' @ [CHR 0x0A] @
     [CHR 0x60, CHR 0x60, CHR 0x60, CHR 0x0A] @
     [CHR 0x0A] @
     ''#### Function Signature'' @ [CHR 0x0A] @
     [CHR 0x0A] @
     [CHR 0x60, CHR 0x60, CHR 0x60] @ ''solidity'' @ [CHR 0x0A] @
     ''function etch(address who, bytes calldata code) external;'' @ [CHR 0x0A] @
     [CHR 0x60, CHR 0x60, CHR 0x60, CHR 0x0A] @
     [CHR 0x0A] @
     ''### '' @ [CHR 0x60] @ ''fee'' @ [CHR 0x60, CHR 0x0A] @
     [CHR 0x0A] @
     ''#### Description'' @ [CHR 0x0A] @
     [CHR 0x0A] @
     ''The '' @ [CHR 0x60] @ ''fee'' @ [CHR 0x60] @ '' cheatcode will set the '' @ [CHR 0x60] @ ''block.basefee'' @ [CHR 0x60] @ ''.'' @ [CHR 0x0A] @
     [CHR 0x0A] @
     ''#### Example'' @ [CHR 0x0A] @
     [CHR 0x0A] @
     [CHR 0x60, CHR 0x60, CHR 0x60] @ ''solidity'' @ [CHR 0x0A] @
     ''// Obtain our cheat code contract reference.'' @ [CHR 0x0A] @
     ''IStdCheats cheats = CheatCodes(0x7109709ECfa91a80626fF3989D68f67F5b1DD12D);'' @ [CHR 0x0A] @
     [CHR 0x0A] @
     ''// Change value and verify.'' @ [CHR 0x0A] @
     ''cheats.fee(7);'' @ [CHR 0x0A] @
     ''assert(block.basefee == 7);'' @ [CHR 0x0A] @
     [CHR 0x60, CHR 0x60, CHR 0x60, CHR 0x0A] @
     [CHR 0x0A] @
     ''#### Function Signature'' @ [CHR 0x0A] @
     [CHR 0x0A] @
     [CHR 0x60, CHR 0x60, CHR 0x60] @ ''solidity'' @ [CHR 0x0A] @
     ''function fee(uint256) external;'' @ [CHR 0x0A] @
     [CHR 0x60, CHR 0x60, CHR 0x60, CHR 0x0A] @
     [CHR 0x0A] @
     ''### '' @ [CHR 0x60] @ ''ffi'' @ [CHR 0x60, CHR 0x0A] @
     [CHR 0x0A] @
     ''#### Description'' @ [CHR 0x0A] @
     [CHR 0x0A] @
     ''The '' @ [CHR 0x60] @ ''ffi'' @ [CHR 0x60] @ '' cheatcode is used to call an arbitrary command on your host OS. Note that '' @ [CHR 0x60] @ ''ffi'' @
     [CHR 0x60] @ '' must be enabled via the project'' @ [CHR 0x0A] @
     ''configuration file by setting '' @ [CHR 0x60] @ ''fuzzing.chainConfig.cheatCodes.enableFFI'' @ [CHR 0x60] @ '' to '' @ [CHR 0x60] @ ''true'' @ [CHR 0x60] @ ''.'' @ [CHR 0x0A] @
     [CHR 0x0A] @
     ''Note that enabling '' @ [CHR 0x60] @ ''ffi'' @ [CHR 0x60] @ '' allows anyone to execute arbitrary commands on devices that run'' @
     '' the fuzz tests which may'' @ [CHR 0x0A] @
     ''become a security risk.'' @ [CHR 0x0A] @
     [CHR 0x0A] @
     ''#### Example with ABI-encoded hex'' @ [CHR 0x0A] @
     [CHR 0x0A] @
     [CHR 0x60, CHR 0x60, CHR 0x60] @ ''solidity'' @ [CHR 0x0A] @
     ''// Obtain our cheat code contract reference.'' @ [CHR 0x0A] @
     ''IStdCheats cheats = CheatCodes(0x7109709ECfa91a80626fF3989D68f67F5b1DD12D);'' @ [CHR 0x0A] @
     [CHR 0x0A] @
     ''// Create command'' @ [CHR 0x0A] @
     ''string[] memory inputs = new string[](3);'' @ [CHR 0x0A] @
     ''inputs[0] = '' @ [CHR 0x22] @ ''echo'' @ [CHR 0x22] @ '';'' @ [CHR 0x0A] @
     ''inputs[1] = '' @ [CHR 0x22] @ ''-n'' @ [CHR 0x22] @ '';'' @ [CHR 0x0A] @
     ''// Encoded '' @ [CHR 0x22] @ ''hello'' @ [CHR 0x22, CHR 0x0A] @
     ''inputs[2] = '' @ [CHR 0x22] @ ''0x0000000000000000000000000000000000000000000000000000000000000020000000000'' @
     ''000000000000000000000000000000000000000000000000000000568656C6C6F00000000000000000000000'' @
     ''0000000000000000000000000000000'' @ [CHR 0x22] @ '';'' @ [CHR 0x0A] @
     [CHR 0x0A] @
     ''// Call cheats.ffi'' @ [CHR 0x0A] @
     ''bytes memory res = cheats.ffi(inputs);'' @ [CHR 0x0A] @
     [CHR 0x0A] @
     ''// ABI decode'' @ [CHR 0x0A] @
     ''string memory output = abi.decode(res, (string));'' @ [CHR 0x0A] @
     ''assert(keccak256(abi.encodePacked(output)) == keccak256(abi.encodePacked('' @ [CHR 0x22] @ ''hello'' @ [CHR 0x22] @ '')));'' @ [CHR 0x0A] @
     [CHR 0x60, CHR 0x60, CHR 0x60, CHR 0x0A] @
     [CHR 0x0A] @
     ''#### Example with UTF8 encoding'' @ [CHR 0x0A] @
     [CHR 0x0A] @
     [CHR 0x60, CHR 0x60, CHR 0x60] @ ''solidity'' @ [CHR 0x0A] @
     ''// Obtain our cheat code contract reference.'' @ [CHR 0x0A] @
     ''IStdCheats cheats = CheatCodes(0x7109709ECfa91a80626fF3989D68f67F5b1DD12D);'' @ [CHR 0x0A] @
     [CHR 0x0A] @
     ''// Create command'' @ [CHR 0x0A] @
     ''string[] memory inputs = new string[](3);'' @ [CHR 0x0A] @
     ''inputs[0] = '' @ [CHR 0x22] @ ''echo'' @ [CHR 0x22] @ '';'' @ [CHR 0x0A] @
     ''inputs[1] = '' @ [CHR 0x22] @ ''-n'' @ [CHR 0x22] @ '';'' @ [CHR 0x0A] @
     ''inputs[2] = '' @ [CHR 0x22] @ ''hello'' @ [CHR 0x22] @ '';'' @ [CHR 0x0A] @
     [CHR 0x0A] @
     ''// Call cheats.ffi'' @ [CHR 0x0A] @
     ''bytes memory res = cheats.ffi(inputs);'' @ [CHR 0x0A] @
     [CHR 0x0A] @
     ''// Convert to UTF-8 string'' @ [CHR 0x0A] @
     ''string memory output = string(res);'' @ [CHR 0x0A] @
     ''assert(keccak256(abi.encodePacked(output)) == keccak256(abi.encodePacked('' @ [CHR 0x22] @ ''hello'' @ [CHR 0x22] @ '')));'' @ [CHR 0x0A] @
     [CHR 0x60, CHR 0x60, CHR 0x60, CHR 0x0A] @
     [CHR 0x0A] @
     ''#### Function Signature'' @ [CHR 0x0A] @
     [CHR 0x0A] @
     [CHR 0x60, CHR 0x60, CHR 0x60] @ ''solidity'' @ [CHR 0x0A] @
     ''function ffi(string[] calldata) external returns (bytes memory);'' @ [CHR 0x0A] @
     [CHR 0x60, CHR 0x60, CHR 0x60, CHR 0x0A] @
     [CHR 0x0A] @
     ''### '' @ [CHR 0x60] @ ''getNonce'' @ [CHR 0x60, CHR 0x0A] @
     [CHR 0x0A] @
     ''#### Description'' @ [CHR 0x0A] @
     [CHR 0x0A] @
     ''The '' @ [CHR 0x60] @ ''getNonce'' @ [CHR 0x60] @ '' cheatcode will get the current nonce of '' @ [CHR 0x60] @ ''account'' @ [CHR 0x60] @ ''.'' @ [CHR 0x0A] @
     [CHR 0x0A] @
     ''#### Example'' @ [CHR 0x0A] @
     [CHR 0x0A] @
     [CHR 0x60, CHR 0x60, CHR 0x60] @ ''solidity'' @ [CHR 0x0A] @
     ''// Obtain our cheat code contract reference.'' @ [CHR 0x0A] @
     ''IStdCheats cheats = CheatCodes(0x7109709ECfa91a80626fF3989D68f67F5b1DD12D);'' @ [CHR 0x0A] @
     [CHR 0x0A] @
     ''// Get nonce and verify that the sender has sent at least one transaction'' @ [CHR 0x0A] @
     ''address acc = address(msg.sender);'' @ [CHR 0x0A] @
     ''assert(cheats.getNonce(acc) > 0);'' @ [CHR 0x0A] @
     [CHR 0x60, CHR 0x60, CHR 0x60, CHR 0x0A] @
     [CHR 0x0A] @
     ''#### Function Signature'' @ [CHR 0x0A] @
     [CHR 0x0A] @
     [CHR 0x60, CHR 0x60, CHR 0x60] @ ''solidity'' @ [CHR 0x0A] @
     ''function getNonce(address account) external returns (uint64);'' @ [CHR 0x0A] @
     [CHR 0x60, CHR 0x60, CHR 0x60, CHR 0x0A] @
     [CHR 0x0A] @
     ''### '' @ [CHR 0x60] @ ''load'' @ [CHR 0x60, CHR 0x0A] @
     [CHR 0x0A] @
     ''#### Description'' @ [CHR 0x0A] @
     [CHR 0x0A] @
     ''The '' @ [CHR 0x60] @ ''load'' @ [CHR 0x60] @ '' cheatcode will load storage slot '' @ [CHR 0x60] @ ''slot'' @ [CHR 0x60] @ '' for '' @ [CHR 0x60] @ ''account'' @ [CHR 0x60, CHR 0x0A] @
     [CHR 0x0A] @
     ''#### Example'' @ [CHR 0x0A] @
     [CHR 0x0A] @
     [CHR 0x60, CHR 0x60, CHR 0x60] @ ''solidity'' @ [CHR 0x0A] @
     ''contract TestContract {'' @ [CHR 0x0A] @
     ''    uint x = 123;'' @ [CHR 0x0A] @
     ''    function test() public {'' @ [CHR 0x0A] @
     ''        // Obtain our cheat code contract reference.'' @ [CHR 0x0A] @
     ''        IStdCheats cheats = CheatCodes(0x7109709ECfa91a80626fF3989D68f67F5b1DD12D);'' @ [CHR 0x0A] @
     [CHR 0x0A] @
     ''        // Load and verify x'' @ [CHR 0x0A] @
     ''        bytes32 value = cheats.load(address(this), bytes32(uint(0)));'' @ [CHR 0x0A] @
     ''        assert(value == bytes32(uint(123)));'' @ [CHR 0x0A] @
     ''    }'' @ [CHR 0x0A] @
     ''}'' @ [CHR 0x0A] @
     [CHR 0x60, CHR 0x60, CHR 0x60, CHR 0x0A] @
     [CHR 0x0A] @
     ''#### Function Signature'' @ [CHR 0x0A] @
     [CHR 0x0A] @
     [CHR 0x60, CHR 0x60, CHR 0x60] @ ''solidity'' @ [CHR 0x0A] @
     ''function load(address account, bytes32 slot) external returns (bytes32);'' @ [CHR 0x0A] @
     [CHR 0x60, CHR 0x60, CHR 0x60, CHR 0x0A] @
     [CHR 0x0A] @
     ''### '' @ [CHR 0x60] @ ''prank'' @ [CHR 0x60, CHR 0x0A] @
     [CHR 0x0A] @
     ''#### Description'' @ [CHR 0x0A] @
     [CHR 0x0A] @
     ''The '' @ [CHR 0x60] @ ''prank'' @ [CHR 0x60] @ '' cheatcode will set the '' @ [CHR 0x60] @ ''msg.sender'' @ [CHR 0x60] @ '' for _only the next call_ to the specifie'' @
     ''d input address. Note that,'' @ [CHR 0x0A] @
     ''contrary to ['' @ [CHR 0x60] @ ''prank'' @ [CHR 0x60] @ '' in Foundry](https://book.getfoundry.sh/cheatcodes/prank#description'' @
     ''), calling the cheatcode contract will count as a'' @ [CHR 0x0A] @
     ''valid '' @ [CHR 0x22] @ ''next call'' @ [CHR 0x22, CHR 0x0A] @
     [CHR 0x0A] @
     ''#### Example'' @ [CHR 0x0A] @
     [CHR 0x0A] @
     [CHR 0x60, CHR 0x60, CHR 0x60] @ ''solidity'' @ [CHR 0x0A] @
     ''contract TestContract {'' @ [CHR 0x0A] @
     ''    address owner = address(123);'' @ [CHR 0x0A] @
     ''    function transferOwnership(address _newOwner) public {'' @ [CHR 0x0A] @
     ''        require(msg.sender == owner);'' @ [CHR 0x0A] @
     [CHR 0x0A] @
     ''        // Change ownership'' @ [CHR 0x0A] @
     ''        owner = _newOwner;'' @ [CHR 0x0A] @
     ''    }'' @ [CHR 0x0A] @
     [CHR 0x0A] @
     ''    function test() public {'' @ [CHR 0x0A] @
     ''        // Obtain our cheat code contract reference.'' @ [CHR 0x0A] @
     ''        IStdCheats cheats = CheatCodes(0x7109709ECfa91a80626fF3989D68f67F5b1DD12D);'' @ [CHR 0x0A] @
     [CHR 0x0A] @
     ''        // Prank, change ownership, and verify'' @ [CHR 0x0A] @
     ''        address newOwner = address(456);'' @ [CHR 0x0A] @
     ''        cheats.prank(owner);'' @ [CHR 0x0A] @
     ''        transferOwnership(newOwner);'' @ [CHR 0x0A] @
     ''        assert(owner == newOwner);'' @ [CHR 0x0A] @
     ''    }'' @ [CHR 0x0A] @
     ''    }'' @ [CHR 0x0A] @
     [CHR 0x60, CHR 0x60, CHR 0x60, CHR 0x0A] @
     [CHR 0x0A] @
     ''#### Function Signature'' @ [CHR 0x0A] @
     [CHR 0x0A] @
     [CHR 0x60, CHR 0x60, CHR 0x60] @ ''solidity'' @ [CHR 0x0A] @
     ''function prank(address) external;'' @ [CHR 0x0A] @
     [CHR 0x60, CHR 0x60, CHR 0x60, CHR 0x0A] @
     [CHR 0x0A] @
     ''### '' @ [CHR 0x60] @ ''prankHere'' @ [CHR 0x60, CHR 0x0A] @
     [CHR 0x0A] @
     ''#### Description'' @ [CHR 0x0A] @
     [CHR 0x0A] @
     ''The '' @ [CHR 0x60] @ ''prankHere'' @ [CHR 0x60] @ '' cheatcode will set the '' @ [CHR 0x60] @ ''msg.sender'' @ [CHR 0x60] @ '' to the specified input address until'' @
     '' the current call exits. Compared'' @ [CHR 0x0A] @
     ''to '' @ [CHR 0x60] @ ''prank'' @ [CHR 0x60] @ '', '' @ [CHR 0x60] @ ''prankHere'' @ [CHR 0x60] @ '' can persist for multiple calls.'' @ [CHR 0x0A] @
     [CHR 0x0A] @
     ''#### Example'' @ [CHR 0x0A] @
     [CHR 0x0A] @
     [CHR 0x60, CHR 0x60, CHR 0x60] @ ''solidity'' @ [CHR 0x0A] @
     ''contract TestContract {'' @ [CHR 0x0A] @
     ''    address owner = address(123);'' @ [CHR 0x0A] @
     ''    uint256 x = 0;'' @ [CHR 0x0A] @
     ''    uint256 y = 0;'' @ [CHR 0x0A] @
     [CHR 0x0A] @
     ''    function updateX() public {'' @ [CHR 0x0A] @
     ''        require(msg.sender == owner);'' @ [CHR 0x0A] @
     [CHR 0x0A] @
     ''        // Update x'' @ [CHR 0x0A] @
     ''        x = 1;'' @ [CHR 0x0A] @
     ''    }'' @ [CHR 0x0A] @
     [CHR 0x0A] @
     ''    function updateY() public {'' @ [CHR 0x0A] @
     ''        require(msg.sender == owner);'' @ [CHR 0x0A] @
     [CHR 0x0A] @
     ''        // Update y'' @ [CHR 0x0A] @
     ''        y = 1;'' @ [CHR 0x0A] @
     ''    }'' @ [CHR 0x0A] @
     [CHR 0x0A] @
     ''    function test() public {'' @ [CHR 0x0A] @
     ''        // Obtain our cheat code contract reference.'' @ [CHR 0x0A] @
     ''        IStdCheats cheats = CheatCodes(0x7109709ECfa91a80626fF3989D68f67F5b1DD12D);'' @ [CHR 0x0A] @
     [CHR 0x0A] @
     ''        // Prank, update variables, and verify'' @ [CHR 0x0A] @
     ''        cheats.prank(owner);'' @ [CHR 0x0A] @
     ''        updateX();'' @ [CHR 0x0A] @
     ''        updateY();'' @ [CHR 0x0A] @
     ''        assert((x == 1) && (y == 1));'' @ [CHR 0x0A] @
     [CHR 0x0A] @
     ''        // Once this function returns, the '' @ [CHR 0x60] @ ''msg.sender'' @ [CHR 0x60] @ '' is reset'' @ [CHR 0x0A] @
     ''    }'' @ [CHR 0x0A] @
     ''}'' @ [CHR 0x0A] @
     [CHR 0x60, CHR 0x60, CHR 0x60, CHR 0x0A] @
     [CHR 0x0A] @
     ''#### Function Signature'' @ [CHR 0x0A] @
     [CHR 0x0A] @
     [CHR 0x60, CHR 0x60, CHR 0x60] @ ''solidity'' @ [CHR 0x0A] @
     ''function prankHere(address) external;'' @ [CHR 0x0A] @
     [CHR 0x60, CHR 0x60, CHR 0x60, CHR 0x0A] @
     [CHR 0x0A] @
     ''### '' @ [CHR 0x60] @ ''roll'' @ [CHR 0x60, CHR 0x0A] @
     [CHR 0x0A] @
     ''#### Description'' @ [CHR 0x0A] @
     [CHR 0x0A] @
     ''The '' @ [CHR 0x60] @ ''roll'' @ [CHR 0x60] @ '' cheatcode sets the '' @ [CHR 0x60] @ ''block.number'' @ [CHR 0x60, CHR 0x0A] @
     [CHR 0x0A] @
     ''#### Example'' @ [CHR 0x0A] @
     [CHR 0x0A] @
     [CHR 0x60, CHR 0x60, CHR 0x60] @ ''solidity'' @ [CHR 0x0A] @
     ''// Obtain our cheat code contract reference.'' @ [CHR 0x0A] @
     ''IStdCheats cheats = CheatCodes(0x7109709ECfa91a80626fF3989D68f67F5b1DD12D);'' @ [CHR 0x0A] @
     [CHR 0x0A] @
     ''// Change value and verify.'' @ [CHR 0x0A] @
     ''cheats.roll(7);'' @ [CHR 0x0A] @
     ''assert(block.number == 7);'' @ [CHR 0x0A] @
     ''cheats.roll(9);'' @ [CHR 0x0A] @
     ''assert(block.number == 9);'' @ [CHR 0x0A] @
     [CHR 0x60, CHR 0x60, CHR 0x60, CHR 0x0A] @
     [CHR 0x0A] @
     ''#### Function Signature'' @ [CHR 0x0A] @
     [CHR 0x0A] @
     [CHR 0x60, CHR 0x60, CHR 0x60] @ ''solidity'' @ [CHR 0x0A] @
     ''function roll(uint256) external;'' @ [CHR 0x0A] @
     [CHR 0x60, CHR 0x60, CHR 0x60, CHR 0x0A] @
     [CHR 0x0A] @
     ''### setNonce'' @ [CHR 0x0A] @
     [CHR 0x0A] @
     ''#### Description'' @ [CHR 0x0A] @
     [CHR 0x0A] @
     ''The '' @ [CHR 0x60] @ ''setNonce'' @ [CHR 0x60] @ '' cheatcode will set the nonce of '' @ [CHR 0x60] @ ''account'' @ [CHR 0x60] @ '' to '' @ [CHR 0x60] @ ''nonce'' @ [CHR 0x60] @ ''. Note that the '' @ [CHR 0x60] @ ''nonc'' @
     ''e'' @ [CHR 0x60] @ '' must be strictly greater than'' @ [CHR 0x0A] @
     ''the current nonce'' @ [CHR 0x0A] @
     [CHR 0x0A] @
     ''#### Example'' @ [CHR 0x0A] @
     [CHR 0x0A] @
     [CHR 0x60, CHR 0x60, CHR 0x60] @ ''solidity'' @ [CHR 0x0A] @
     ''// Obtain our cheat code contract reference.'' @ [CHR 0x0A] @
     ''IStdCheats cheats = CheatCodes(0x7109709ECfa91a80626fF3989D68f67F5b1DD12D);'' @ [CHR 0x0A] @
     [CHR 0x0A] @
     ''// Set nonce and verify (assume nonce before '' @ [CHR 0x60] @ ''setNonce'' @ [CHR 0x60] @ '' was less than 7)'' @ [CHR 0x0A] @
     ''address acc = address(msg.sender);'' @ [CHR 0x0A] @
     ''cheats.setNonce(acc, 7);'' @ [CHR 0x0A] @
     ''assert(cheats.getNonce(acc) == 7);'' @ [CHR 0x0A] @
     [CHR 0x60, CHR 0x60, CHR 0x60, CHR 0x0A] @
     [CHR 0x0A] @
     ''#### Function Signature'' @ [CHR 0x0A] @
     [CHR 0x0A] @
     [CHR 0x60, CHR 0x60, CHR 0x60] @ ''solidity'' @ [CHR 0x0A] @
     ''function setNonce(address account, uint64 nonce) external;'' @ [CHR 0x0A] @
     [CHR 0x60, CHR 0x60, CHR 0x60, CHR 0x0A] @
     [CHR 0x0A] @
     ''### '' @ [CHR 0x60] @ ''sign'' @ [CHR 0x60, CHR 0x0A] @
     [CHR 0x0A] @
     ''#### Description'' @ [CHR 0x0A] @
     [CHR 0x0A] @
     ''The '' @ [CHR 0x60] @ ''sign'' @ [CHR 0x60] @ '' cheatcode will take in a private key '' @ [CHR 0x60] @ ''privateKey'' @ [CHR 0x60] @ '' and a hash digest '' @ [CHR 0x60] @ ''digest'' @ [CHR 0x60] @ '' '' @
     ''to generate a '' @ [CHR 0x60] @ ''(v, r, s)'' @ [CHR 0x60, CHR 0x0A] @
     ''signature'' @ [CHR 0x0A] @
     [CHR 0x0A] @
     ''#### Example'' @ [CHR 0x0A] @
     [CHR 0x0A] @
     [CHR 0x60, CHR 0x60, CHR 0x60] @ ''solidity'' @ [CHR 0x0A] @
     ''// Obtain our cheat code contract reference.'' @ [CHR 0x0A] @
     ''IStdCheats cheats = CheatCodes(0x7109709ECfa91a80626fF3989D68f67F5b1DD12D);'' @ [CHR 0x0A] @
     [CHR 0x0A] @
     ''bytes32 digest = keccak256('' @ [CHR 0x22] @ ''Data To Sign'' @ [CHR 0x22] @ '');'' @ [CHR 0x0A] @
     [CHR 0x0A] @
     ''// Call cheats.sign'' @ [CHR 0x0A] @
     ''(uint8 v, bytes32 r, bytes32 s) = cheats.sign(0x6df21769a2082e03f7e21f6395561279e9a7feb8'' @
     ''46b2bf740798c794ad196e00, digest);'' @ [CHR 0x0A] @
     ''address signer = ecrecover(digest, v, r, s);'' @ [CHR 0x0A] @
     ''assert(signer == 0xdf8Ef652AdE0FA4790843a726164df8cf8649339);'' @ [CHR 0x0A] @
     [CHR 0x60, CHR 0x60, CHR 0x60, CHR 0x0A] @
     [CHR 0x0A] @
     ''#### Function Signature'' @ [CHR 0x0A] @
     [CHR 0x0A] @
     [CHR 0x60, CHR 0x60, CHR 0x60] @ ''solidity'' @ [CHR 0x0A] @
     ''function sign(uint256 privateKey, bytes32 digest)'' @ [CHR 0x0A] @
     ''external'' @ [CHR 0x0A] @
     ''returns (uint8 v, bytes32 r, bytes32 s);'' @ [CHR 0x0A] @
     [CHR 0x60, CHR 0x60, CHR 0x60, CHR 0x0A] @
     [CHR 0x0A] @
     ''### '' @ [CHR 0x60] @ ''snapshot'' @ [CHR 0x60] @ '' and '' @ [CHR 0x60] @ ''revertTo'' @ [CHR 0x60, CHR 0x0A] @
     [CHR 0x0A] @
     ''#### Description'' @ [CHR 0x0A] @
     [CHR 0x0A] @
     ''The '' @ [CHR 0x60] @ ''snapshot'' @ [CHR 0x60] @ '' cheatcode will take a snapshot of the current state of the blockchain and'' @
     '' return an identifier for the'' @ [CHR 0x0A] @
     ''snapshot.'' @ [CHR 0x0A] @
     [CHR 0x0A] @
     ''On the flipside, the '' @ [CHR 0x60] @ ''revertTo'' @ [CHR 0x60] @ '' cheatcode will revert the EVM state back based on the pr'' @
     ''ovided identifier.'' @ [CHR 0x0A] @
     [CHR 0x0A] @
     ''#### Example'' @ [CHR 0x0A] @
     [CHR 0x0A] @
     [CHR 0x60, CHR 0x60, CHR 0x60] @ ''solidity'' @ [CHR 0x0A] @
     ''interface CheatCodes {'' @ [CHR 0x0A] @
     ''    function warp(uint256) external;'' @ [CHR 0x0A] @
     [CHR 0x0A] @
     ''    function deal(address, uint256) external;'' @ [CHR 0x0A] @
     [CHR 0x0A] @
     ''    function snapshot() external returns (uint256);'' @ [CHR 0x0A] @
     [CHR 0x0A] @
     ''    function revertTo(uint256) external returns (bool);'' @ [CHR 0x0A] @
     ''}'' @ [CHR 0x0A] @
     [CHR 0x0A] @
     ''struct Storage {'' @ [CHR 0x0A] @
     ''    uint slot0;'' @ [CHR 0x0A] @
     ''    uint slot1;'' @ [CHR 0x0A] @
     ''}'' @ [CHR 0x0A] @
     [CHR 0x0A] @
     ''contract TestContract {'' @ [CHR 0x0A] @
     ''    Storage store;'' @ [CHR 0x0A] @
     ''    uint256 timestamp;'' @ [CHR 0x0A] @
     [CHR 0x0A] @
     ''    function test() public {'' @ [CHR 0x0A] @
     ''        // Obtain our cheat code contract reference.'' @ [CHR 0x0A] @
     ''        CheatCodes cheats = CheatCodes('' @ [CHR 0x0A] @
     ''            0x7109709ECfa91a80626fF3989D68f67F5b1DD12D'' @ [CHR 0x0A] @
     ''        );'' @ [CHR 0x0A] @
     [CHR 0x0A] @
     ''        store.slot0 = 10;'' @ [CHR 0x0A] @
     ''        store.slot1 = 20;'' @ [CHR 0x0A] @
     ''        timestamp = block.timestamp;'' @ [CHR 0x0A] @
     ''        cheats.deal(address(this), 5 ether);'' @ [CHR 0x0A] @
     [CHR 0x0A] @
     ''        // Save state'' @ [CHR 0x0A] @
     ''        uint256 snapshot = cheats.snapshot();'' @ [CHR 0x0A] @
     [CHR 0x0A] @
     ''        // Change state'' @ [CHR 0x0A] @
     ''        store.slot0 = 300;'' @ [CHR 0x0A] @
     ''        store.slot1 = 400;'' @ [CHR 0x0A] @
     ''        cheats.deal(address(this), 500 ether);'' @ [CHR 0x0A] @
     ''        cheats.warp(12345);'' @ [CHR 0x0A] @
     [CHR 0x0A] @
     ''        // Assert that state has been changed'' @ [CHR 0x0A] @
     ''        assert(store.slot0 == 300);'' @ [CHR 0x0A] @
     ''        assert(store.slot1 == 400);'' @ [CHR 0x0A] @
     ''        assert(address(this).balance == 500 ether);'' @ [CHR 0x0A] @
     ''        assert(block.timestamp == 12345);'' @ [CHR 0x0A] @
     [CHR 0x0A] @
     ''        // Revert to snapshot'' @ [CHR 0x0A] @
     ''        cheats.revertTo(snapshot);'' @ [CHR 0x0A] @
     [CHR 0x0A] @
     ''        // Ensure state has been reset'' @ [CHR 0x0A] @
     ''        assert(store.slot0 == 10);'' @ [CHR 0x0A] @
     ''        assert(store.slot1 == 20);'' @ [CHR 0x0A] @
     ''        assert(address(this).balance == 5 ether);'' @ [CHR 0x0A] @
     ''        assert(block.timestamp == timestamp);'' @ [CHR 0x0A] @
     ''    }'' @ [CHR 0x0A] @
     ''}'' @ [CHR 0x0A] @
     [CHR 0x60, CHR 0x60, CHR 0x60, CHR 0x0A] @
     [CHR 0x0A] @
     ''### '' @ [CHR 0x60] @ ''store'' @ [CHR 0x60, CHR 0x0A] @
     [CHR 0x0A] @
     ''#### Description'' @ [CHR 0x0A] @
     [CHR 0x0A] @
     ''The '' @ [CHR 0x60] @ ''store'' @ [CHR 0x60] @ '' cheatcode will store '' @ [CHR 0x60] @ ''value'' @ [CHR 0x60] @ '' in storage slot '' @ [CHR 0x60] @ ''slot'' @ [CHR 0x60] @ '' for '' @ [CHR 0x60] @ ''account'' @ [CHR 0x60, CHR 0x0A] @
     [CHR 0x0A] @
     ''#### Example'' @ [CHR 0x0A] @
     [CHR 0x0A] @
     [CHR 0x60, CHR 0x60, CHR 0x60] @ ''solidity'' @ [CHR 0x0A] @
     ''contract TestContract {'' @ [CHR 0x0A] @
     ''    uint x = 123;'' @ [CHR 0x0A] @
     ''    function test() public {'' @ [CHR 0x0A] @
     ''        // Obtain our cheat code contract reference.'' @ [CHR 0x0A] @
     ''        IStdCheats cheats = CheatCodes(0x7109709ECfa91a80626fF3989D68f67F5b1DD12D);'' @ [CHR 0x0A] @
     [CHR 0x0A] @
     ''        // Store into x, verify it.'' @ [CHR 0x0A] @
     ''        cheats.store(address(this), bytes32(uint(0)), bytes32(uint(456)));'' @ [CHR 0x0A] @
     ''        assert(y == 456);'' @ [CHR 0x0A] @
     ''    }'' @ [CHR 0x0A] @
     ''}'' @ [CHR 0x0A] @
     [CHR 0x60, CHR 0x60, CHR 0x60, CHR 0x0A] @
     [CHR 0x0A] @
     ''#### Function Signature'' @ [CHR 0x0A] @
     [CHR 0x0A] @
     [CHR 0x60, CHR 0x60, CHR 0x60] @ ''solidity'' @ [CHR 0x0A] @
     ''function store(address account, bytes32 slot, bytes32 value) external;'' @ [CHR 0x0A] @
     [CHR 0x60, CHR 0x60, CHR 0x60, CHR 0x0A] @
     [CHR 0x0A] @
     ''### warp'' @ [CHR 0x0A] @
     [CHR 0x0A] @
     ''#### Description'' @ [CHR 0x0A] @
     [CHR 0x0A] @
     ''The '' @ [CHR 0x60] @ ''warp'' @ [CHR 0x60] @ '' cheatcode sets the '' @ [CHR 0x60] @ ''block.timestamp'' @ [CHR 0x60, CHR 0x0A] @
     [CHR 0x0A] @
     ''#### Example'' @ [CHR 0x0A] @
     [CHR 0x0A] @
     [CHR 0x60, CHR 0x60, CHR 0x60] @ ''solidity'' @ [CHR 0x0A] @
     ''// Obtain our cheat code contract reference.'' @ [CHR 0x0A] @
     ''IStdCheats cheats = CheatCodes(0x7109709ECfa91a80626fF3989D68f67F5b1DD12D);'' @ [CHR 0x0A] @
     [CHR 0x0A] @
     ''// Change value and verify.'' @ [CHR 0x0A] @
     ''cheats.warp(7);'' @ [CHR 0x0A] @
     ''assert(block.timestamp == 7);'' @ [CHR 0x0A] @
     ''cheats.warp(9);'' @ [CHR 0x0A] @
     ''assert(block.timestamp == 9);'' @ [CHR 0x0A] @
     [CHR 0x60, CHR 0x60, CHR 0x60, CHR 0x0A] @
     [CHR 0x0A] @
     ''#### Function Signature'' @ [CHR 0x0A] @
     [CHR 0x0A] @
     [CHR 0x60, CHR 0x60, CHR 0x60] @ ''solidity'' @ [CHR 0x0A] @
     ''function warp(uint256) external;'' @ [CHR 0x0A] @
     [CHR 0x60, CHR 0x60, CHR 0x60]"

definition training_content_2 :: string where
  "training_content_2 =
     ''You are a smart contract auditing assistant. You'' @ [CHR 0x27] @ ''ll generate fuzz tests to be run by '' @ [CHR 0x60] @ ''me'' @
     ''dusa'' @ [CHR 0x60] @ ''. Do not generate tests for '' @ [CHR 0x60] @ ''Foundry'' @ [CHR 0x60] @ '', only generate tests to be run by '' @ [CHR 0x60] @ ''medusa'' @ [CHR 0x60] @ ''. M'' @
     ''ake use of medusa'' @ [CHR 0x27] @ ''s cheatcodes where necessary''"

definition training_content_3 :: string where
  "training_content_3 =
     ''You will be provided with main contracts which you should carefully examine to find poss'' @
     ''ible vulnerabilities/invariants that should be tested for.''"

definition training_content_4 :: string where
  "training_content_4 =
     ''Instructions given to you following preceded by '' @ [CHR 0x27] @ ''Note:'' @ [CHR 0x27] @ '' should be taken into utmost impo'' @
     ''rtance.''"

definition TrainingPrompts :: "Message list" where
  "TrainingPrompts =
     [\<lparr>Role = ''system'', Content = training_content_0\<rparr>,
      \<lparr>Role = ''system'', Content = training_content_1\<rparr>,
      \<lparr>Role = ''system'', Content = training_content_2\<rparr>,
      \<lparr>Role = ''system'', Content = training_content_3\<rparr>,
      \<lparr>Role = ''system'', Content = training_content_4\<rparr>]"

section \<open>Errors, the file system and the external collaborators\<close>

text \<open>
  Go \<^verbatim>\<open>error\<close> values, by the kind of failure they stand for. \<open>ErrSpawn\<close> is the error
  of a command that could not be started or waited for, \<open>ErrExit\<close> the
  \<^verbatim>\<open>exec.ExitError\<close> of a command that ran and ended with a non-zero status.
\<close>

datatype error = ErrNotExist | ErrIO | ErrService | ErrSpawn | ErrExit

definition os_IsNotExist :: "error option \<Rightarrow> bool" where
  "os_IsNotExist err = (err = Some ErrNotExist)"

text \<open>
  Every call that leaves the process is logged, with its arguments and its outcome, in
  the order in which it happens.
\<close>

datatype event =
    EvStat string "error option"
  | EvCreate string "error option"
  | EvReadFile string "error + string"
  | EvWriteFile string string "error option"
  | EvAskGPT4Turbo "Message list" "error + string"
  | EvRunCommand "string list" string "error option"

text \<open>
  The state the package works on: the files on disk (path to content), the
  package-level variable \<^verbatim>\<open>messages\<close>, and the log of external calls.
\<close>

record world =
  files :: "string \<rightharpoonup> string"
  messages :: "Message list"
  trace :: "event list"

text \<open>
  The collaborators whose code is outside the package are parameters. Each one sees the
  log of the calls made so far, so that it may answer differently from call to call:
  \<^item> \<open>AskGPT4Turbo\<close>, the chat client: the history sent, to an error or the response;
  \<^item> \<open>RunCommandWithOutputAndError\<close> of package \<^verbatim>\<open>utils\<close>: the command line (and the
    files it can read), to standard output, standard error, combined output and error;
  \<^item> \<open>io_fault\<close>: whether the file-system call on the given path fails for a reason other
    than a missing file.
\<close>

record env =
  AskGPT4Turbo :: "event list \<Rightarrow> Message list \<Rightarrow> error + string"
  RunCommandWithOutputAndError ::
    "event list \<Rightarrow> (string \<rightharpoonup> string) \<Rightarrow> string list \<Rightarrow> string \<times> string \<times> string \<times> error option"
  io_fault :: "event list \<Rightarrow> string \<Rightarrow> bool"

definition log :: "event \<Rightarrow> world \<Rightarrow> world" where
  "log ev w = w\<lparr>trace := trace w @ [ev]\<rparr>"

text \<open>\<^verbatim>\<open>os.Stat\<close>, reduced to its error result.\<close>

definition os_Stat :: "env \<Rightarrow> string \<Rightarrow> world \<Rightarrow> error option \<times> world" where
  "os_Stat E name w =
     (let err = (if io_fault E (trace w) name then Some ErrIO
                 else if files w name = None then Some ErrNotExist
                 else None)
      in (err, log (EvStat name err) w))"

text \<open>\<^verbatim>\<open>os.Create\<close>: creates the file, or truncates it when it exists.\<close>

definition os_Create :: "env \<Rightarrow> string \<Rightarrow> world \<Rightarrow> error option \<times> world" where
  "os_Create E name w =
     (if io_fault E (trace w) name then (Some ErrIO, log (EvCreate name (Some ErrIO)) w)
      else (None, log (EvCreate name None) (w\<lparr>files := (files w)(name \<mapsto> [])\<rparr>)))"

text \<open>\<^verbatim>\<open>os.ReadFile\<close>.\<close>

definition os_ReadFile :: "env \<Rightarrow> string \<Rightarrow> world \<Rightarrow> (error + string) \<times> world" where
  "os_ReadFile E name w =
     (let r = (if io_fault E (trace w) name then Inl ErrIO
               else case files w name of None \<Rightarrow> Inl ErrNotExist | Some data \<Rightarrow> Inr data)
      in (r, log (EvReadFile name r) w))"

text \<open>
  \<^verbatim>\<open>os.WriteFile\<close>: creates the file when it is missing and replaces its whole
  content.
\<close>

definition os_WriteFile :: "env \<Rightarrow> string \<Rightarrow> string \<Rightarrow> world \<Rightarrow> error option \<times> world" where
  "os_WriteFile E name data w =
     (if io_fault E (trace w) name then (Some ErrIO, log (EvWriteFile name data (Some ErrIO)) w)
      else (None, log (EvWriteFile name data None) (w\<lparr>files := (files w)(name \<mapsto> data)\<rparr>)))"

text \<open>A call of the chat client with the history \<open>msgs\<close>.\<close>

definition call_AskGPT4Turbo :: "env \<Rightarrow> Message list \<Rightarrow> world \<Rightarrow> (error + string) \<times> world" where
  "call_AskGPT4Turbo E msgs w =
     (let r = AskGPT4Turbo E (trace w) msgs in (r, log (EvAskGPT4Turbo msgs r) w))"

section \<open>The harness generator\<close>

text \<open>\<^verbatim>\<open>validateTestFile\<close>: runs the compiler on the test file; returns standard error and the error.\<close>

definition validateTestFile :: "env \<Rightarrow> string \<Rightarrow> world \<Rightarrow> (string \<times> error option) \<times> world" where
  "validateTestFile E testFilePath w =
     (let command = [''crytic-compile'', testFilePath, ''--ignore-compile''] in
      case RunCommandWithOutputAndError E (trace w) (files w) command of
        (stdOut, stdErr, combined, err) \<Rightarrow>
          ((stdErr, err), log (EvRunCommand command stdErr err) w))"

text \<open>
  \<^verbatim>\<open>processMessageWithGPT4Turbo\<close>: the message is appended to the history before the
  call; the response is appended only when the call succeeds.
\<close>

definition processMessageWithGPT4Turbo ::
  "env \<Rightarrow> Message \<Rightarrow> world \<Rightarrow> (error + string) \<times> world" where
  "processMessageWithGPT4Turbo E message w =
     (let w1 = w\<lparr>messages := messages w @ [message]\<rparr> in
      case call_AskGPT4Turbo E (messages w1) w1 of
        (Inl err, w2) \<Rightarrow> (Inl err, w2)
      | (Inr response, w2) \<Rightarrow>
          (Inr response,
           w2\<lparr>messages := messages w2 @ [\<lparr>Role = ''system'', Content = response\<rparr>]\<rparr>))"

text \<open>
  \<^verbatim>\<open>createTestFiles\<close>: for each contract definition, the test file is created when
  \<^verbatim>\<open>os.Stat\<close> reports that it does not exist.
\<close>

fun createTestFiles :: "env \<Rightarrow> Contract list \<Rightarrow> world \<Rightarrow> error option \<times> world" where
  "createTestFiles E [] w = (None, w)"
| "createTestFiles E (contractDefinition # rest) w =
     (let testFilePath = generateTestFilePath (SourcePath contractDefinition) in
      case os_Stat E testFilePath w of
        (err, w1) \<Rightarrow>
          if os_IsNotExist err then
            (case os_Create E testFilePath w1 of
               (Some err', w2) \<Rightarrow> (Some err', w2)
             | (None, w2) \<Rightarrow> createTestFiles E rest w2)
          else createTestFiles E rest w1)"

text \<open>
  The \<^verbatim>\<open>for { ... }\<close> loop of \<^verbatim>\<open>generateFuzzingHarness\<close>: validate; leave the loop when
  the error is nil; otherwise ask for a corrected file and write it. The loop has no
  bound, so its model is a partial function: \<open>None\<close> stands for a run that never leaves
  the loop.
\<close>

partial_function (option) validate_loop ::
  "env \<Rightarrow> Contract \<Rightarrow> string \<Rightarrow> world \<Rightarrow> (error option \<times> world) option" where
  "validate_loop E contractDefinition testFilePath w =
     (case validateTestFile E testFilePath w of
        ((stdErr, None), w1) \<Rightarrow> Some (None, w1)
      | ((stdErr, Some verr), w1) \<Rightarrow>
          (let message = \<lparr>Role = ''user'', Content = RegenerateFuzzHarnessPrompt stdErr\<rparr> in
           case processMessageWithGPT4Turbo E message w1 of
             (Inl err, w2) \<Rightarrow> Some (Some err, w2)
           | (Inr response, w2) \<Rightarrow>
               (case os_WriteFile E (generateTestFilePath (SourcePath contractDefinition))
                       response w2 of
                  (Some err, w3) \<Rightarrow> Some (Some err, w3)
                | (None, w3) \<Rightarrow> validate_loop E contractDefinition testFilePath w3)))"

text \<open>
  The body of the \<^verbatim>\<open>range\<close> loop of \<^verbatim>\<open>generateFuzzingHarness\<close> for one contract
  definition: read both files, build and store the prompt, ask, store the response,
  write it to the test file, then loop on validation. (The \<^verbatim>\<open>fmt.Println\<close> calls are
  left out.)
\<close>

declare validate_loop.simps [code]

definition harness_for_contract :: "env \<Rightarrow> Contract \<Rightarrow> world \<Rightarrow> (error option \<times> world) option" where
  "harness_for_contract E contractDefinition w =
     (let testFilePath = generateTestFilePath (SourcePath contractDefinition) in
      case os_ReadFile E (SourcePath contractDefinition) w of
        (Inl err, w1) \<Rightarrow> Some (Some err, w1)
      | (Inr contractSourceCode, w1) \<Rightarrow>
      case os_ReadFile E testFilePath w1 of
        (Inl err, w2) \<Rightarrow> Some (Some err, w2)
      | (Inr testContractSourceCode, w2) \<Rightarrow>
      let message = \<lparr>Role = ''user'',
                     Content = GenerateFuzzHarnessPrompt (SourcePath contractDefinition) testFilePath
                       contractSourceCode testContractSourceCode (Name contractDefinition)
                       (generateTestContractName (Name contractDefinition))\<rparr>;
          w3 = w2\<lparr>messages := messages w2 @ [message]\<rparr> in
      case call_AskGPT4Turbo E (messages w3) w3 of
        (Inl err, w4) \<Rightarrow> Some (Some err, w4)
      | (Inr response, w4) \<Rightarrow>
      let w5 = w4\<lparr>messages := messages w4 @ [\<lparr>Role = ''system'', Content = response\<rparr>]\<rparr> in
      case os_WriteFile E testFilePath response w5 of
        (Some err, w6) \<Rightarrow> Some (Some err, w6)
      | (None, w6) \<Rightarrow> validate_loop E contractDefinition testFilePath w6)"

text \<open>\<^verbatim>\<open>generateFuzzingHarness\<close>: the contract definitions in order; the first error ends the run.\<close>

fun generateFuzzingHarness :: "env \<Rightarrow> Contract list \<Rightarrow> world \<Rightarrow> (error option \<times> world) option" where
  "generateFuzzingHarness E [] w = Some (None, w)"
| "generateFuzzingHarness E (contractDefinition # rest) w =
     (case harness_for_contract E contractDefinition w of
        None \<Rightarrow> None
      | Some (Some err, w') \<Rightarrow> Some (Some err, w')
      | Some (None, w') \<Rightarrow> generateFuzzingHarness E rest w')"

text \<open>\<^verbatim>\<open>GenerateFuzzingHarness\<close>, the entry point: all test files first, then the harnesses.\<close>

definition GenerateFuzzingHarness :: "env \<Rightarrow> Contract list \<Rightarrow> world \<Rightarrow> (error option \<times> world) option" where
  "GenerateFuzzingHarness E contractDefinitions w =
     (case createTestFiles E contractDefinitions w of
        (Some err, w1) \<Rightarrow> Some (Some err, w1)
      | (None, w1) \<Rightarrow> generateFuzzingHarness E contractDefinitions w1)"

section \<open>Reading the log\<close>

text \<open>The kind of an event and the error it ended with, if any.\<close>

datatype kind = KStat | KCreate | KReadFile | KWriteFile | KAsk | KValidate

fun kind_of :: "event \<Rightarrow> kind" where
  "kind_of (EvStat name err) = KStat"
| "kind_of (EvCreate name err) = KCreate"
| "kind_of (EvReadFile name r) = KReadFile"
| "kind_of (EvWriteFile name data err) = KWriteFile"
| "kind_of (EvAskGPT4Turbo msgs r) = KAsk"
| "kind_of (EvRunCommand command stdErr err) = KValidate"

fun error_of :: "event \<Rightarrow> error option" where
  "error_of (EvStat name err) = err"
| "error_of (EvCreate name err) = err"
| "error_of (EvReadFile name r) = (case r of Inl err \<Rightarrow> Some err | Inr data \<Rightarrow> None)"
| "error_of (EvWriteFile name data err) = err"
| "error_of (EvAskGPT4Turbo msgs r) = (case r of Inl err \<Rightarrow> Some err | Inr response \<Rightarrow> None)"
| "error_of (EvRunCommand command stdErr err) = err"


definition count_kind :: "kind \<Rightarrow> event list \<Rightarrow> nat" where
  "count_kind k evs = length (filter (\<lambda>ev. kind_of ev = k) evs)"

text \<open>A repair cycle starts at each validation that ends with an error.\<close>

definition repair_cycles :: "event list \<Rightarrow> nat" where
  "repair_cycles evs = length (filter (\<lambda>ev. kind_of ev = KValidate \<and> error_of ev \<noteq> None) evs)"

text \<open>The events logged between the world \<open>w\<close> and a later world \<open>w'\<close>.\<close>

definition new_events :: "world \<Rightarrow> world \<Rightarrow> event list" where
  "new_events w w' = drop (length (trace w)) (trace w')"

section \<open>Vocabulary of the statements\<close>

text \<open>
  The messages and the command line that \<^verbatim>\<open>generateFuzzingHarness\<close> builds, named for
  use in the statements below.
\<close>

definition generation_request :: "Contract \<Rightarrow> string \<Rightarrow> string \<Rightarrow> Message" where
  "generation_request c contractSourceCode testContractSourceCode =
     \<lparr>Role = ''user'',
      Content = GenerateFuzzHarnessPrompt (SourcePath c) (generateTestFilePath (SourcePath c))
        contractSourceCode testContractSourceCode (Name c) (generateTestContractName (Name c))\<rparr>"

definition repair_request :: "string \<Rightarrow> Message" where
  "repair_request stdErr = \<lparr>Role = ''user'', Content = RegenerateFuzzHarnessPrompt stdErr\<rparr>"

definition response_message :: "string \<Rightarrow> Message" where
  "response_message response = \<lparr>Role = ''system'', Content = response\<rparr>"

definition validate_command :: "string \<Rightarrow> string list" where
  "validate_command testFilePath = [''crytic-compile'', testFilePath, ''--ignore-compile'']"

text \<open>
  An error \<open>e\<close> returned to the caller comes from the event \<open>ev\<close> when \<open>ev\<close> is a
  file-system call or a call of the chat client that ended with \<open>e\<close>. A run of the
  validation loop ends at a successful validation or at such an event.
\<close>

definition fatal_origin :: "error \<Rightarrow> event \<Rightarrow> bool" where
  "fatal_origin e ev =
     (error_of ev = Some e \<and> kind_of ev \<in> {KCreate, KReadFile, KWriteFile, KAsk})"

definition exit_event :: "error option \<Rightarrow> event \<Rightarrow> bool" where
  "exit_event r ev =
     (case r of None \<Rightarrow> kind_of ev = KValidate \<and> error_of ev = None
      | Some e \<Rightarrow> fatal_origin e ev)"

text \<open>
  \<open>repairs_follow\<close>: every validation that ended with an error, whatever the error, is
  directly followed by a call of the chat client whose last message is the repair
  request built from that validation's standard error.
\<close>

fun is_repair_for :: "event \<Rightarrow> event \<Rightarrow> bool" where
  "is_repair_for (EvRunCommand command stdErr err) (EvAskGPT4Turbo msgs r) =
     (msgs \<noteq> [] \<and> last msgs = repair_request stdErr)"
| "is_repair_for ev ev' = False"

fun repairs_follow :: "event list \<Rightarrow> bool" where
  "repairs_follow [] = True"
| "repairs_follow [ev] = (\<not> (kind_of ev = KValidate \<and> error_of ev \<noteq> None))"
| "repairs_follow (ev # ev' # evs) =
     ((kind_of ev = KValidate \<and> error_of ev \<noteq> None \<longrightarrow> is_repair_for ev ev') \<and>
      repairs_follow (ev' # evs))"

text \<open>
  \<open>writes_verbatim prev evs\<close>: every write in \<open>evs\<close> comes directly after a successful call
  of the chat client and writes exactly the response of that call (\<open>prev\<close> is the
  response of the call just before \<open>evs\<close>, if the event before \<open>evs\<close> is such a call).
\<close>

fun writes_verbatim :: "string option \<Rightarrow> event list \<Rightarrow> bool" where
  "writes_verbatim prev [] = True"
| "writes_verbatim prev (EvWriteFile name data err # evs) =
     (prev = Some data \<and> writes_verbatim None evs)"
| "writes_verbatim prev (EvAskGPT4Turbo msgs r # evs) =
     writes_verbatim (case r of Inl err \<Rightarrow> None | Inr response \<Rightarrow> Some response) evs"
| "writes_verbatim prev (ev # evs) = writes_verbatim None evs"

text \<open>The paths written to in a list of events.\<close>

fun written_paths :: "event list \<Rightarrow> string list" where
  "written_paths [] = []"
| "written_paths (EvWriteFile name data err # evs) = name # written_paths evs"
| "written_paths (ev # evs) = written_paths evs"

text \<open>
  The file at \<open>path\<close> holds exactly the text of the last message of the history, and that
  message is a response.
\<close>

definition holds_last_response :: "string \<Rightarrow> world \<Rightarrow> bool" where
  "holds_last_response path w =
     (messages w \<noteq> [] \<and> Role (last (messages w)) = ''system'' \<and>
      files w path = Some (Content (last (messages w))))"

text \<open>The error that the validator returns for the test file at \<open>path\<close>, given the log and the files.\<close>

definition validation_error :: "env \<Rightarrow> event list \<Rightarrow> (string \<rightharpoonup> string) \<Rightarrow> string \<Rightarrow> error option" where
  "validation_error E tr fs path =
     snd (snd (snd (RunCommandWithOutputAndError E tr fs (validate_command path))))"

text \<open>The kinds of the events of \<open>k\<close> repair cycles followed by a last validation.\<close>

fun repair_outline :: "nat \<Rightarrow> kind list" where
  "repair_outline 0 = [KValidate]"
| "repair_outline (Suc k) = [KValidate, KAsk, KWriteFile] @ repair_outline k"




section \<open>Example runs\<close>

text \<open>
  One contract \<^verbatim>\<open>Foo\<close> in \<^verbatim>\<open>contracts/Foo.sol\<close>; the test file does not exist yet and the
  history holds the training prompts. \<open>ex_created\<close> is the world after
  \<^verbatim>\<open>createTestFiles\<close>, \<open>ex_generated\<close> the world after the first response has been written.
\<close>

definition ex_contract :: Contract where
  "ex_contract = \<lparr>Name = ''Foo'', SourcePath = ''contracts/Foo.sol''\<rparr>"

definition ex_world :: world where
  "ex_world =
     \<lparr>files = [''contracts/Foo.sol'' \<mapsto> ''contract Foo {}''],
      messages = TrainingPrompts,
      trace = []\<rparr>"

definition ex_created :: world where
  "ex_created =
     \<lparr>files = [''contracts/Foo.sol'' \<mapsto> ''contract Foo {}'', ''contracts/Foo_fuzz.sol'' \<mapsto> []],
      messages = TrainingPrompts,
      trace = [EvStat ''contracts/Foo_fuzz.sol'' (Some ErrNotExist),
               EvCreate ''contracts/Foo_fuzz.sol'' None]\<rparr>"

definition ex_history_1 :: "Message list" where
  "ex_history_1 = TrainingPrompts @ [generation_request ex_contract ''contract Foo {}'' []]"

definition ex_history_2 :: "Message list" where
  "ex_history_2 = ex_history_1 @ [response_message ''v1'', repair_request ''boom'']"

definition ex_history_3 :: "Message list" where
  "ex_history_3 = ex_history_2 @ [response_message ''v2'', repair_request ''boom'']"

definition ex_generated :: world where
  "ex_generated =
     \<lparr>files = [''contracts/Foo.sol'' \<mapsto> ''contract Foo {}'', ''contracts/Foo_fuzz.sol'' \<mapsto> ''v1''],
      messages = ex_history_1 @ [response_message ''v1''],
      trace = trace ex_created @
        [EvReadFile ''contracts/Foo.sol'' (Inr ''contract Foo {}''),
         EvReadFile ''contracts/Foo_fuzz.sol'' (Inr []),
         EvAskGPT4Turbo ex_history_1 (Inr ''v1''),
         EvWriteFile ''contracts/Foo_fuzz.sol'' ''v1'' None]\<rparr>"

text \<open>The chat client of the examples answers \<^verbatim>\<open>v1\<close>, \<^verbatim>\<open>v2\<close>, \<^verbatim>\<open>v3\<close>, one after the other.\<close>

definition nth_response :: "nat \<Rightarrow> string" where
  "nth_response n = (case n of 0 \<Rightarrow> ''v1'' | Suc 0 \<Rightarrow> ''v2'' | _ \<Rightarrow> ''v3'')"

text \<open>
  \<open>ex_repair_env\<close>: the compiler reports an error on its first two runs and accepts the
  file afterwards.
\<close>

definition ex_repair_env :: env where
  "ex_repair_env =
     \<lparr>AskGPT4Turbo = (\<lambda>tr msgs. Inr (nth_response (count_kind KAsk tr))),
      RunCommandWithOutputAndError = (\<lambda>tr fs command.
        if count_kind KValidate tr < 2 then ([], ''boom'', ''boom'', Some ErrExit)
        else ([], [], [], None)),
      io_fault = (\<lambda>tr name. False)\<rparr>"

definition ex_repair_final :: world where
  "ex_repair_final =
     \<lparr>files = [''contracts/Foo.sol'' \<mapsto> ''contract Foo {}'', ''contracts/Foo_fuzz.sol'' \<mapsto> ''v3''],
      messages = ex_history_3 @ [response_message ''v3''],
      trace = trace ex_generated @
        [EvRunCommand (validate_command ''contracts/Foo_fuzz.sol'') ''boom'' (Some ErrExit),
         EvAskGPT4Turbo ex_history_2 (Inr ''v2''),
         EvWriteFile ''contracts/Foo_fuzz.sol'' ''v2'' None,
         EvRunCommand (validate_command ''contracts/Foo_fuzz.sol'') ''boom'' (Some ErrExit),
         EvAskGPT4Turbo ex_history_3 (Inr ''v3''),
         EvWriteFile ''contracts/Foo_fuzz.sol'' ''v3'' None,
         EvRunCommand (validate_command ''contracts/Foo_fuzz.sol'') [] None]\<rparr>"

text \<open>\<open>ex_ok_env\<close>: the compiler accepts every file.\<close>

definition ex_ok_env :: env where
  "ex_ok_env =
     \<lparr>AskGPT4Turbo = (\<lambda>tr msgs. Inr (nth_response (count_kind KAsk tr))),
      RunCommandWithOutputAndError = (\<lambda>tr fs command. ([], [], [], None)),
      io_fault = (\<lambda>tr name. False)\<rparr>"

definition ex_ok_final :: world where
  "ex_ok_final =
     \<lparr>files = files ex_generated,
      messages = messages ex_generated,
      trace = trace ex_generated @
        [EvRunCommand (validate_command ''contracts/Foo_fuzz.sol'') [] None]\<rparr>"



text \<open>
  \<open>ex_repair_abort_env\<close>: the compiler always reports an error and the chat client fails
  from its second call on.
\<close>

definition ex_repair_abort_env :: env where
  "ex_repair_abort_env =
     \<lparr>AskGPT4Turbo = (\<lambda>tr msgs. if count_kind KAsk tr = 0 then Inr ''v1'' else Inl ErrService),
      RunCommandWithOutputAndError = (\<lambda>tr fs command. ([], ''boom'', ''boom'', Some ErrExit)),
      io_fault = (\<lambda>tr name. False)\<rparr>"

definition ex_repair_abort_final :: world where
  "ex_repair_abort_final =
     \<lparr>files = files ex_generated,
      messages = ex_history_2,
      trace = trace ex_generated @
        [EvRunCommand (validate_command ''contracts/Foo_fuzz.sol'') ''boom'' (Some ErrExit),
         EvAskGPT4Turbo ex_history_2 (Inl ErrService)]\<rparr>"

text \<open>
  Three contracts \<^verbatim>\<open>A\<close>, \<^verbatim>\<open>B\<close>, \<^verbatim>\<open>C\<close>, each in its own file. In \<open>ex_abort_env\<close> the
  compiler accepts every file and the chat client fails from its second call on, that
  is, at the second contract.
\<close>

definition unit_A :: Contract where
  "unit_A = \<lparr>Name = ''A'', SourcePath = ''A.sol''\<rparr>"

definition unit_B :: Contract where
  "unit_B = \<lparr>Name = ''B'', SourcePath = ''B.sol''\<rparr>"

definition unit_C :: Contract where
  "unit_C = \<lparr>Name = ''C'', SourcePath = ''C.sol''\<rparr>"

definition ex_units_world :: world where
  "ex_units_world =
     \<lparr>files = [''A.sol'' \<mapsto> ''contract A {}'', ''B.sol'' \<mapsto> ''contract B {}'',
               ''C.sol'' \<mapsto> ''contract C {}''],
      messages = TrainingPrompts,
      trace = []\<rparr>"

definition ex_abort_env :: env where
  "ex_abort_env =
     \<lparr>AskGPT4Turbo = (\<lambda>tr msgs. if count_kind KAsk tr = 0 then Inr ''v1'' else Inl ErrService),
      RunCommandWithOutputAndError = (\<lambda>tr fs command. ([], [], [], None)),
      io_fault = (\<lambda>tr name. False)\<rparr>"

definition ex_units_created :: world where
  "ex_units_created =
     \<lparr>files = [''A.sol'' \<mapsto> ''contract A {}'', ''B.sol'' \<mapsto> ''contract B {}'',
               ''C.sol'' \<mapsto> ''contract C {}'', ''A_fuzz.sol'' \<mapsto> [], ''B_fuzz.sol'' \<mapsto> [],
               ''C_fuzz.sol'' \<mapsto> []],
      messages = TrainingPrompts,
      trace = [EvStat ''A_fuzz.sol'' (Some ErrNotExist), EvCreate ''A_fuzz.sol'' None,
               EvStat ''B_fuzz.sol'' (Some ErrNotExist), EvCreate ''B_fuzz.sol'' None,
               EvStat ''C_fuzz.sol'' (Some ErrNotExist), EvCreate ''C_fuzz.sol'' None]\<rparr>"

definition ex_units_history_A :: "Message list" where
  "ex_units_history_A = TrainingPrompts @ [generation_request unit_A ''contract A {}'' []]"

definition ex_units_history_B :: "Message list" where
  "ex_units_history_B =
     ex_units_history_A @ [response_message ''v1'', generation_request unit_B ''contract B {}'' []]"

definition ex_units_done_A :: world where
  "ex_units_done_A =
     \<lparr>files = (files ex_units_created)(''A_fuzz.sol'' \<mapsto> ''v1''),
      messages = ex_units_history_A @ [response_message ''v1''],
      trace = trace ex_units_created @
        [EvReadFile ''A.sol'' (Inr ''contract A {}''),
         EvReadFile ''A_fuzz.sol'' (Inr []),
         EvAskGPT4Turbo ex_units_history_A (Inr ''v1''),
         EvWriteFile ''A_fuzz.sol'' ''v1'' None,
         EvRunCommand (validate_command ''A_fuzz.sol'') [] None]\<rparr>"

definition ex_abort_final :: world where
  "ex_abort_final =
     \<lparr>files = files ex_units_done_A,
      messages = ex_units_history_B,
      trace = trace ex_units_done_A @
        [EvReadFile ''B.sol'' (Inr ''contract B {}''),
         EvReadFile ''B_fuzz.sol'' (Inr []),
         EvAskGPT4Turbo ex_units_history_B (Inl ErrService)]\<rparr>"

text \<open>The contracts \<^verbatim>\<open>A\<close> and \<^verbatim>\<open>B\<close> alone, both generated and accepted at once.\<close>

definition ex_two_world :: world where
  "ex_two_world =
     \<lparr>files = [''A.sol'' \<mapsto> ''contract A {}'', ''B.sol'' \<mapsto> ''contract B {}''],
      messages = TrainingPrompts,
      trace = []\<rparr>"

definition ex_two_final :: world where
  "ex_two_final =
     \<lparr>files = [''A.sol'' \<mapsto> ''contract A {}'', ''B.sol'' \<mapsto> ''contract B {}'',
               ''A_fuzz.sol'' \<mapsto> ''v1'', ''B_fuzz.sol'' \<mapsto> ''v2''],
      messages = ex_units_history_B @ [response_message ''v2''],
      trace = [EvStat ''A_fuzz.sol'' (Some ErrNotExist), EvCreate ''A_fuzz.sol'' None,
               EvStat ''B_fuzz.sol'' (Some ErrNotExist), EvCreate ''B_fuzz.sol'' None,
               EvReadFile ''A.sol'' (Inr ''contract A {}''),
               EvReadFile ''A_fuzz.sol'' (Inr []),
               EvAskGPT4Turbo ex_units_history_A (Inr ''v1''),
               EvWriteFile ''A_fuzz.sol'' ''v1'' None,
               EvRunCommand (validate_command ''A_fuzz.sol'') [] None,
               EvReadFile ''B.sol'' (Inr ''contract B {}''),
               EvReadFile ''B_fuzz.sol'' (Inr []),
               EvAskGPT4Turbo ex_units_history_B (Inr ''v2''),
               EvWriteFile ''B_fuzz.sol'' ''v2'' None,
               EvRunCommand (validate_command ''B_fuzz.sol'') [] None]\<rparr>"

text \<open>
  \<open>ex_stat_fault_env\<close>: the first file-system call of the run fails for a reason other
  than a missing file; nothing else fails. \<open>ex_stat_fault_final\<close> is the world after
  \<^verbatim>\<open>createTestFiles\<close> in that environment, \<open>ex_checked\<close> the world after
  \<^verbatim>\<open>createTestFiles\<close> has found the test file of \<open>ex_generated\<close> in place.
\<close>

definition ex_stat_fault_env :: env where
  "ex_stat_fault_env =
     \<lparr>AskGPT4Turbo = (\<lambda>tr msgs. Inr (nth_response (count_kind KAsk tr))),
      RunCommandWithOutputAndError = (\<lambda>tr fs command. ([], [], [], None)),
      io_fault = (\<lambda>tr name. tr = [])\<rparr>"

definition ex_stat_fault_final :: world where
  "ex_stat_fault_final =
     \<lparr>files = [''contracts/Foo.sol'' \<mapsto> ''contract Foo {}''],
      messages = TrainingPrompts,
      trace = [EvStat ''contracts/Foo_fuzz.sol'' (Some ErrIO)]\<rparr>"

definition ex_checked :: world where
  "ex_checked =
     \<lparr>files = files ex_generated,
      messages = messages ex_generated,
      trace = trace ex_generated @ [EvStat ''contracts/Foo_fuzz.sol'' None]\<rparr>"

section \<open>Effects of the single calls\<close>

lemma os_Stat_effect:
  assumes "os_Stat E name w = (err, w')"
  shows "files w' = files w" "messages w' = messages w" "trace w' = trace w @ [EvStat name err]"
  using assms by (auto simp: os_Stat_def log_def Let_def)

lemma os_Stat_result:
  assumes "os_Stat E name w = (err, w')"
  shows "err = (if io_fault E (trace w) name then Some ErrIO
                else if files w name = None then Some ErrNotExist else None)"
  using assms by (auto simp: os_Stat_def log_def Let_def)

lemma os_Create_effect:
  assumes "os_Create E name w = (err, w')"
  shows "messages w' = messages w" "trace w' = trace w @ [EvCreate name err]"
    "files w' = (if err = None then (files w)(name \<mapsto> []) else files w)"
  using assms by (auto simp: os_Create_def log_def split: if_splits)

lemma os_Create_result:
  assumes "os_Create E name w = (err, w')"
  shows "err = (if io_fault E (trace w) name then Some ErrIO else None)"
  using assms by (auto simp: os_Create_def log_def split: if_splits)

lemma os_ReadFile_effect:
  assumes "os_ReadFile E name w = (r, w')"
  shows "files w' = files w" "messages w' = messages w" "trace w' = trace w @ [EvReadFile name r]"
  using assms by (auto simp: os_ReadFile_def log_def Let_def)

lemma os_WriteFile_effect:
  assumes "os_WriteFile E name data w = (err, w')"
  shows "messages w' = messages w" "trace w' = trace w @ [EvWriteFile name data err]"
    "files w' = (if err = None then (files w)(name \<mapsto> data) else files w)"
  using assms by (auto simp: os_WriteFile_def log_def split: if_splits)

lemma call_AskGPT4Turbo_effect:
  assumes "call_AskGPT4Turbo E msgs w = (r, w')"
  shows "files w' = files w" "messages w' = messages w"
    "trace w' = trace w @ [EvAskGPT4Turbo msgs r]"
  using assms by (auto simp: call_AskGPT4Turbo_def log_def Let_def)

lemma validateTestFile_effect:
  assumes "validateTestFile E testFilePath w = ((stdErr, err), w')"
  shows "files w' = files w" "messages w' = messages w"
    "trace w' = trace w @ [EvRunCommand [''crytic-compile'', testFilePath, ''--ignore-compile''] stdErr err]"
  using assms by (auto simp: validateTestFile_def log_def Let_def split: prod.splits)

lemma processMessageWithGPT4Turbo_effect:
  assumes "processMessageWithGPT4Turbo E message w = (r, w')"
  shows "files w' = files w"
    "trace w' = trace w @ [EvAskGPT4Turbo (messages w @ [message]) r]"
    "messages w' = (case r of Inl err \<Rightarrow> messages w @ [message]
       | Inr response \<Rightarrow> messages w @ [message, \<lparr>Role = ''system'', Content = response\<rparr>])"
  using assms
  by (auto simp: processMessageWithGPT4Turbo_def call_AskGPT4Turbo_def log_def Let_def
      split: sum.splits)

section \<open>An induction rule for the validation loop\<close>

text \<open>
  A property of the runs of the loop that leave it holds once it holds for the three
  ways out (validation succeeds, the client fails, the write fails) and is carried
  back over one repair cycle.
\<close>

lemma validate_loop_induct [consumes 1, case_names valid ask_failed write_failed repaired]:
  assumes run: "validate_loop E c p w = Some (r, w')"
    and valid: "\<And>w stdErr w1. validateTestFile E p w = ((stdErr, None), w1) \<Longrightarrow> P w None w1"
    and ask_failed: "\<And>w stdErr verr w1 err w2.
        validateTestFile E p w = ((stdErr, Some verr), w1) \<Longrightarrow>
        processMessageWithGPT4Turbo E \<lparr>Role = ''user'', Content = RegenerateFuzzHarnessPrompt stdErr\<rparr> w1 = (Inl err, w2) \<Longrightarrow>
        P w (Some err) w2"
    and write_failed: "\<And>w stdErr verr w1 response w2 err w3.
        validateTestFile E p w = ((stdErr, Some verr), w1) \<Longrightarrow>
        processMessageWithGPT4Turbo E \<lparr>Role = ''user'', Content = RegenerateFuzzHarnessPrompt stdErr\<rparr> w1 = (Inr response, w2) \<Longrightarrow>
        os_WriteFile E (generateTestFilePath (SourcePath c)) response w2 = (Some err, w3) \<Longrightarrow>
        P w (Some err) w3"
    and repaired: "\<And>w stdErr verr w1 response w2 w3 r w'.
        validateTestFile E p w = ((stdErr, Some verr), w1) \<Longrightarrow>
        processMessageWithGPT4Turbo E \<lparr>Role = ''user'', Content = RegenerateFuzzHarnessPrompt stdErr\<rparr> w1 = (Inr response, w2) \<Longrightarrow>
        os_WriteFile E (generateTestFilePath (SourcePath c)) response w2 = (None, w3) \<Longrightarrow>
        P w3 r w' \<Longrightarrow> P w r w'"
  shows "P w r w'"
proof -
  have "E' = E \<and> c' = c \<and> p' = p \<longrightarrow> P v (fst y) (snd y)"
    if "validate_loop E' c' p' v = Some y" for E' c' p' v y
  proof (rule validate_loop.raw_induct
      [where P = "\<lambda>E' c' p' v y. E' = E \<and> c' = c \<and> p' = p \<longrightarrow> P v (fst y) (snd y)", OF _ that])
    fix f E0 c0 p0 w0 y0
    assume 1: "\<And>E' c' p' v y. f E' c' p' v = Some y \<Longrightarrow>
                 E' = E \<and> c' = c \<and> p' = p \<longrightarrow> P v (fst y) (snd y)"
      "(case validateTestFile E0 p0 w0 of
        ((stdErr, None), w1) \<Rightarrow> Some (None, w1)
      | ((stdErr, Some verr), w1) \<Rightarrow>
          (let message = \<lparr>Role = ''user'', Content = RegenerateFuzzHarnessPrompt stdErr\<rparr> in
           case processMessageWithGPT4Turbo E0 message w1 of
             (Inl err, w2) \<Rightarrow> Some (Some err, w2)
           | (Inr response, w2) \<Rightarrow>
               (case os_WriteFile E0 (generateTestFilePath (SourcePath c0))
                       response w2 of
                  (Some err, w3) \<Rightarrow> Some (Some err, w3)
                | (None, w3) \<Rightarrow> f E0 c0 p0 w3))) = Some y0"
    show "E0 = E \<and> c0 = c \<and> p0 = p \<longrightarrow> P w0 (fst y0) (snd y0)"
    proof (intro impI, elim conjE)
      assume eqs: "E0 = E" "c0 = c" "p0 = p"
      obtain stdErr verr w1 where v: "validateTestFile E p w0 = ((stdErr, verr), w1)"
        by (metis prod.exhaust)
      show "P w0 (fst y0) (snd y0)"
      proof (cases verr)
        case None
        with 1(2) v eqs have "y0 = (None, w1)" by simp
        with valid[of w0 stdErr w1] v None show ?thesis by simp
      next
        case (Some e)
        let ?m = "\<lparr>Role = ''user'', Content = RegenerateFuzzHarnessPrompt stdErr\<rparr>"
        obtain a w2 where pm: "processMessageWithGPT4Turbo E ?m w1 = (a, w2)"
          by (metis prod.exhaust)
        show ?thesis
        proof (cases a)
          case (Inl err)
          with 1(2) v eqs Some pm have "y0 = (Some err, w2)" by simp
          with ask_failed[of w0 stdErr e w1 err w2] v Some pm Inl show ?thesis by simp
        next
          case (Inr response)
          obtain werr w3 where wr: "os_WriteFile E (generateTestFilePath (SourcePath c)) response w2 = (werr, w3)"
            by (metis prod.exhaust)
          show ?thesis
          proof (cases werr)
            case None
            with 1(2) v eqs Some pm Inr wr have "f E c p w3 = Some y0" by simp
            from 1(1)[OF this] have "P w3 (fst y0) (snd y0)" by simp
            with repaired[of w0 stdErr e w1 response w2 w3 "fst y0" "snd y0"] v Some pm Inr wr None
            show ?thesis by simp
          next
            case (Some err)
            with 1(2) v eqs \<open>verr = Some e\<close> pm Inr wr have "y0 = (Some err, w3)" by simp
            with write_failed[of w0 stdErr e w1 response w2 err w3] v \<open>verr = Some e\<close> pm Inr wr Some
            show ?thesis by simp
          qed
        qed
      qed
    qed
  qed
  from this[OF run] show ?thesis by simp
qed

lemma validate_loop_effect_induct [consumes 1, case_names valid ask_failed write_failed repaired]:
  assumes run: "validate_loop E c p w = Some (r, w')"
    and valid: "\<And>w stdErr w1.
        files w1 = files w \<Longrightarrow> messages w1 = messages w \<Longrightarrow>
        trace w1 = trace w @ [EvRunCommand (validate_command p) stdErr None] \<Longrightarrow>
        P w None w1"
    and ask_failed: "\<And>w stdErr verr err w2.
        files w2 = files w \<Longrightarrow> messages w2 = messages w @ [repair_request stdErr] \<Longrightarrow>
        trace w2 = trace w @ [EvRunCommand (validate_command p) stdErr (Some verr),
          EvAskGPT4Turbo (messages w @ [repair_request stdErr]) (Inl err)] \<Longrightarrow>
        P w (Some err) w2"
    and write_failed: "\<And>w stdErr verr response err w3.
        files w3 = files w \<Longrightarrow>
        messages w3 = messages w @ [repair_request stdErr, response_message response] \<Longrightarrow>
        trace w3 = trace w @ [EvRunCommand (validate_command p) stdErr (Some verr),
          EvAskGPT4Turbo (messages w @ [repair_request stdErr]) (Inr response),
          EvWriteFile (generateTestFilePath (SourcePath c)) response (Some err)] \<Longrightarrow>
        P w (Some err) w3"
    and repaired: "\<And>w stdErr verr response w3 r w'.
        files w3 = (files w)(generateTestFilePath (SourcePath c) \<mapsto> response) \<Longrightarrow>
        messages w3 = messages w @ [repair_request stdErr, response_message response] \<Longrightarrow>
        trace w3 = trace w @ [EvRunCommand (validate_command p) stdErr (Some verr),
          EvAskGPT4Turbo (messages w @ [repair_request stdErr]) (Inr response),
          EvWriteFile (generateTestFilePath (SourcePath c)) response None] \<Longrightarrow>
        P w3 r w' \<Longrightarrow> P w r w'"
  shows "P w r w'"
  using run
proof (induction rule: validate_loop_induct)
  case (valid w stdErr w1)
  note v = validateTestFile_effect[OF valid]
  show ?case by (rule assms(2)[of w1 w stdErr]) (simp_all add: v validate_command_def)
next
  case (ask_failed w stdErr verr w1 err w2)
  note v = validateTestFile_effect[OF ask_failed(1)]
  note a = processMessageWithGPT4Turbo_effect[OF ask_failed(2)]
  show ?case
    by (rule assms(3)[of w2 w stdErr verr err])
       (simp_all add: v a validate_command_def repair_request_def)
next
  case (write_failed w stdErr verr w1 response w2 err w3)
  note v = validateTestFile_effect[OF write_failed(1)]
  note a = processMessageWithGPT4Turbo_effect[OF write_failed(2)]
  note x = os_WriteFile_effect[OF write_failed(3)]
  show ?case
    by (rule assms(4)[of w3 w stdErr response verr err])
       (simp_all add: v a x validate_command_def repair_request_def response_message_def)
next
  case (repaired w stdErr verr w1 response w2 w3 r w')
  note v = validateTestFile_effect[OF repaired(1)]
  note a = processMessageWithGPT4Turbo_effect[OF repaired(2)]
  note x = os_WriteFile_effect[OF repaired(3)]
  show ?case
    by (rule assms(5)[of w3 w response stdErr verr r w', OF _ _ _ repaired(4)])
       (simp_all add: v a x validate_command_def repair_request_def response_message_def)
qed

lemma harness_for_contract_cases [consumes 1, case_names src_failed test_failed ask_failed write_failed generated]:
  assumes run: "harness_for_contract E c w = Some (r, w')"
  obtains
    (src_failed) e where "r = Some e" "files w' = files w" "messages w' = messages w"
      "trace w' = trace w @ [EvReadFile (SourcePath c) (Inl e)]"
  | (test_failed) e s where "r = Some e" "files w' = files w" "messages w' = messages w"
      "trace w' = trace w @ [EvReadFile (SourcePath c) (Inr s),
         EvReadFile (generateTestFilePath (SourcePath c)) (Inl e)]"
  | (ask_failed) e s t where "r = Some e" "files w' = files w"
      "messages w' = messages w @ [generation_request c s t]"
      "trace w' = trace w @ [EvReadFile (SourcePath c) (Inr s),
         EvReadFile (generateTestFilePath (SourcePath c)) (Inr t),
         EvAskGPT4Turbo (messages w @ [generation_request c s t]) (Inl e)]"
  | (write_failed) e s t response where "r = Some e" "files w' = files w"
      "messages w' = messages w @ [generation_request c s t, response_message response]"
      "trace w' = trace w @ [EvReadFile (SourcePath c) (Inr s),
         EvReadFile (generateTestFilePath (SourcePath c)) (Inr t),
         EvAskGPT4Turbo (messages w @ [generation_request c s t]) (Inr response),
         EvWriteFile (generateTestFilePath (SourcePath c)) response (Some e)]"
  | (generated) s t response w6 where
      "files w6 = (files w)(generateTestFilePath (SourcePath c) \<mapsto> response)"
      "messages w6 = messages w @ [generation_request c s t, response_message response]"
      "trace w6 = trace w @ [EvReadFile (SourcePath c) (Inr s),
         EvReadFile (generateTestFilePath (SourcePath c)) (Inr t),
         EvAskGPT4Turbo (messages w @ [generation_request c s t]) (Inr response),
         EvWriteFile (generateTestFilePath (SourcePath c)) response None]"
      "validate_loop E c (generateTestFilePath (SourcePath c)) w6 = Some (r, w')"
proof -
  let ?p = "generateTestFilePath (SourcePath c)"
  obtain r1 w1 where r1: "os_ReadFile E (SourcePath c) w = (r1, w1)" by (metis prod.exhaust)
  obtain r2 w2 where r2: "os_ReadFile E ?p w1 = (r2, w2)" by (metis prod.exhaust)
  note e1 = os_ReadFile_effect[OF r1]
  note e2 = os_ReadFile_effect[OF r2]
  show ?thesis
  proof (cases r1)
    case (Inl e)
    with run r1 have "r = Some e" "w' = w1" by (simp_all add: harness_for_contract_def Let_def)
    with e1 Inl show ?thesis by (intro src_failed[of e]) simp_all
  next
    case src: (Inr s)
    show ?thesis
    proof (cases r2)
      case (Inl e)
      with run r1 r2 src have "r = Some e" "w' = w2" by (simp_all add: harness_for_contract_def Let_def)
      with e1 e2 src Inl show ?thesis by (intro test_failed[of e s]) simp_all
    next
      case tst: (Inr t)
      let ?m = "generation_request c s t"
      let ?w3 = "w2\<lparr>messages := messages w2 @ [?m]\<rparr>"
      obtain a w4 where ask: "call_AskGPT4Turbo E (messages ?w3) ?w3 = (a, w4)" by (metis prod.exhaust)
      note e4 = call_AskGPT4Turbo_effect[OF ask]
      show ?thesis
      proof (cases a)
        case (Inl e)
        with run r1 r2 src tst ask have "r = Some e" "w' = w4"
          by (simp_all add: harness_for_contract_def Let_def generation_request_def)
        with e1 e2 e4 src tst Inl show ?thesis by (intro ask_failed[of e s t]) simp_all
      next
        case resp: (Inr response)
        let ?w5 = "w4\<lparr>messages := messages w4 @ [\<lparr>Role = ''system'', Content = response\<rparr>]\<rparr>"
        obtain werr w6 where wr: "os_WriteFile E ?p response ?w5 = (werr, w6)" by (metis prod.exhaust)
        note e6 = os_WriteFile_effect[OF wr]
        show ?thesis
        proof (cases werr)
          case (Some e)
          with run r1 r2 src tst ask resp wr have "r = Some e" "w' = w6"
            by (simp_all add: harness_for_contract_def Let_def generation_request_def)
          with e1 e2 e4 e6 src tst resp Some show ?thesis
            by (intro write_failed[of e s t response]) (simp_all add: response_message_def)
        next
          case None
          with run r1 r2 src tst ask resp wr have "validate_loop E c ?p w6 = Some (r, w')"
            by (simp add: harness_for_contract_def Let_def generation_request_def)
          with e1 e2 e4 e6 src tst resp None show ?thesis
            by (intro generated[of w6 response s t]) (simp_all add: response_message_def)
        qed
      qed
    qed
  qed
qed

section \<open>Where a run ends\<close>

lemma new_events_append [simp]: "trace w' = trace w @ evs \<Longrightarrow> new_events w w' = evs"
  by (simp add: new_events_def)

lemma createTestFiles_events:
  "createTestFiles E cs w = (r, w') \<Longrightarrow>
     \<exists>evs. trace w' = trace w @ evs \<and> messages w' = messages w \<and>
       (\<forall>ev \<in> set evs. kind_of ev = KStat \<or> kind_of ev = KCreate) \<and>
       (\<forall>e. r = Some e \<longrightarrow> evs \<noteq> [] \<and> fatal_origin e (last evs))"
proof (induction cs arbitrary: w)
  case Nil
  then show ?case by simp
next
  case (Cons c cs)
  let ?p = "generateTestFilePath (SourcePath c)"
  obtain err w1 where st: "os_Stat E ?p w = (err, w1)" by (metis prod.exhaust)
  note e1 = os_Stat_effect[OF st]
  show ?case
  proof (cases "os_IsNotExist err")
    case False
    with Cons.prems st have "createTestFiles E cs w1 = (r, w')" by (simp add: Let_def)
    from Cons.IH[OF this] obtain evs where evs: "trace w' = trace w1 @ evs" "messages w' = messages w1"
      "\<forall>ev \<in> set evs. kind_of ev = KStat \<or> kind_of ev = KCreate"
      "\<forall>e. r = Some e \<longrightarrow> evs \<noteq> [] \<and> fatal_origin e (last evs)" by blast
    show ?thesis
      by (rule exI[of _ "EvStat ?p err # evs"]) (use evs e1 in auto)
  next
    case True
    obtain err' w2 where cr: "os_Create E ?p w1 = (err', w2)" by (metis prod.exhaust)
    note e2 = os_Create_effect[OF cr]
    show ?thesis
    proof (cases err')
      case None
      with Cons.prems st True cr have "createTestFiles E cs w2 = (r, w')" by (simp add: Let_def)
      from Cons.IH[OF this] obtain evs where evs: "trace w' = trace w2 @ evs" "messages w' = messages w2"
        "\<forall>ev \<in> set evs. kind_of ev = KStat \<or> kind_of ev = KCreate"
        "\<forall>e. r = Some e \<longrightarrow> evs \<noteq> [] \<and> fatal_origin e (last evs)" by blast
      show ?thesis
        by (rule exI[of _ "EvStat ?p err # EvCreate ?p err' # evs"]) (use evs e1 e2 in auto)
    next
      case (Some e')
      with Cons.prems st True cr have "r = Some e'" "w' = w2" by (simp_all add: Let_def)
      with e1 e2 Some show ?thesis
        by (intro exI[of _ "[EvStat ?p err, EvCreate ?p err']"]) (simp add: fatal_origin_def)
    qed
  qed
qed

lemma validate_loop_events:
  assumes "validate_loop E c p w = Some (r, w')"
  shows "\<exists>evs. trace w' = trace w @ evs \<and> evs \<noteq> [] \<and> exit_event r (last evs)"
  using assms
proof (induction rule: validate_loop_effect_induct)
  case (repaired w stdErr verr response w3 r w')
  then obtain evs where "trace w' = trace w3 @ evs" "evs \<noteq> []" "exit_event r (last evs)" by blast
  with repaired(3) show ?case by simp
qed (simp_all add: exit_event_def fatal_origin_def)

lemma harness_for_contract_events:
  assumes "harness_for_contract E c w = Some (r, w')"
  shows "\<exists>evs. trace w' = trace w @ evs \<and> evs \<noteq> [] \<and> exit_event r (last evs)"
  using assms
proof (cases rule: harness_for_contract_cases)
  case (generated s t response w6)
  from validate_loop_events[OF generated(4)] obtain evs where
    "trace w' = trace w6 @ evs" "evs \<noteq> []" "exit_event r (last evs)" by blast
  with generated(3) show ?thesis by simp
qed (simp_all add: exit_event_def fatal_origin_def)

lemma generateFuzzingHarness_events:
  "generateFuzzingHarness E cs w = Some (r, w') \<Longrightarrow>
     \<exists>evs. trace w' = trace w @ evs \<and> (\<forall>e. r = Some e \<longrightarrow> evs \<noteq> [] \<and> fatal_origin e (last evs))"
proof (induction cs arbitrary: w)
  case Nil
  then show ?case by simp
next
  case (Cons c cs)
  from Cons.prems obtain r1 w1 where h: "harness_for_contract E c w = Some (r1, w1)"
    by (auto split: option.splits)
  from harness_for_contract_events[OF h] obtain evs1 where
    evs1: "trace w1 = trace w @ evs1" "evs1 \<noteq> []" "exit_event r1 (last evs1)" by blast
  show ?case
  proof (cases r1)
    case (Some e)
    with Cons.prems h have "r = Some e" "w' = w1" by simp_all
    with evs1 Some show ?thesis by (simp add: exit_event_def)
  next
    case None
    with Cons.prems h have "generateFuzzingHarness E cs w1 = Some (r, w')" by simp
    from Cons.IH[OF this] obtain evs where
      "trace w' = trace w1 @ evs" "\<forall>e. r = Some e \<longrightarrow> evs \<noteq> [] \<and> fatal_origin e (last evs)" by blast
    with evs1 show ?thesis by simp
  qed
qed

lemma GenerateFuzzingHarness_events:
  assumes "GenerateFuzzingHarness E cs w = Some (r, w')"
  shows "\<exists>evs. trace w' = trace w @ evs \<and> (\<forall>e. r = Some e \<longrightarrow> evs \<noteq> [] \<and> fatal_origin e (last evs))"
proof -
  obtain r0 w0 where c: "createTestFiles E cs w = (r0, w0)" by (metis prod.exhaust)
  from createTestFiles_events[OF c] obtain evs0 where
    evs0: "trace w0 = trace w @ evs0" "\<forall>e. r0 = Some e \<longrightarrow> evs0 \<noteq> [] \<and> fatal_origin e (last evs0)" by blast
  show ?thesis
  proof (cases r0)
    case (Some e)
    with assms c have "r = Some e" "w' = w0" by (simp_all add: GenerateFuzzingHarness_def)
    with evs0 Some show ?thesis by simp
  next
    case None
    with assms c have "generateFuzzingHarness E cs w0 = Some (r, w')" by (simp add: GenerateFuzzingHarness_def)
    from generateFuzzingHarness_events[OF this] obtain evs where
      "trace w' = trace w0 @ evs" "\<forall>e. r = Some e \<longrightarrow> evs \<noteq> [] \<and> fatal_origin e (last evs)" by blast
    with evs0 show ?thesis by simp
  qed
qed

section \<open>Validator errors are answered by repair requests\<close>

lemma repairs_follow_append:
  "repairs_follow xs \<Longrightarrow> repairs_follow ys \<Longrightarrow> repairs_follow (xs @ ys)"
proof (induction xs rule: repairs_follow.induct)
  case 1
  then show ?case by simp
next
  case (2 ev)
  then show ?case by (cases ys) auto
next
  case (3 ev ev' evs)
  then show ?case by simp
qed


lemma validate_loop_repairs_follow:
  assumes "validate_loop E c p w = Some (r, w')"
  shows "\<exists>evs. trace w' = trace w @ evs \<and> repairs_follow evs"
  using assms
proof (induction rule: validate_loop_effect_induct)
  case (repaired w stdErr verr response w3 r w')
  then obtain evs where evs: "trace w' = trace w3 @ evs" "repairs_follow evs" by blast
  let ?pre = "[EvRunCommand (validate_command p) stdErr (Some verr),
          EvAskGPT4Turbo (messages w @ [repair_request stdErr]) (Inr response),
          EvWriteFile (generateTestFilePath (SourcePath c)) response None]"
  have "repairs_follow ?pre" by simp
  from repairs_follow_append[OF this evs(2)] evs(1) repaired(3) show ?case by simp
qed simp_all

lemma harness_for_contract_repairs_follow:
  assumes "harness_for_contract E c w = Some (r, w')"
  shows "\<exists>evs. trace w' = trace w @ evs \<and> repairs_follow evs"
  using assms
proof (cases rule: harness_for_contract_cases)
  case (generated s t response w6)
  from validate_loop_repairs_follow[OF generated(4)] obtain evs where
    evs: "trace w' = trace w6 @ evs" "repairs_follow evs" by blast
  let ?pre = "[EvReadFile (SourcePath c) (Inr s),
         EvReadFile (generateTestFilePath (SourcePath c)) (Inr t),
         EvAskGPT4Turbo (messages w @ [generation_request c s t]) (Inr response),
         EvWriteFile (generateTestFilePath (SourcePath c)) response None]"
  have "repairs_follow ?pre" by simp
  from repairs_follow_append[OF this evs(2)] evs(1) generated(3) show ?thesis by simp
qed simp_all



section \<open>What is written to the test file\<close>

lemma writes_verbatim_weaken:
  assumes "writes_verbatim None evs"
  shows "writes_verbatim prev evs"
proof (cases evs)
  case (Cons ev evs')
  with assms show ?thesis by (cases ev) simp_all
qed simp

lemma writes_verbatim_append:
  "writes_verbatim prev xs \<Longrightarrow> writes_verbatim None ys \<Longrightarrow> writes_verbatim prev (xs @ ys)"
  by (induction prev xs rule: writes_verbatim.induct) (simp_all add: writes_verbatim_weaken)

lemma written_paths_append: "written_paths (xs @ ys) = written_paths xs @ written_paths ys"
  by (induction xs rule: written_paths.induct) simp_all

lemma validate_loop_writes:
  assumes "validate_loop E c p w = Some (r, w')"
  shows "\<exists>evs. trace w' = trace w @ evs \<and> writes_verbatim None evs \<and>
           set (written_paths evs) \<subseteq> {generateTestFilePath (SourcePath c)}"
  using assms
proof (induction rule: validate_loop_effect_induct)
  case (repaired w stdErr verr response w3 r w')
  then obtain evs where evs: "trace w' = trace w3 @ evs" "writes_verbatim None evs"
    "set (written_paths evs) \<subseteq> {generateTestFilePath (SourcePath c)}" by blast
  let ?pre = "[EvRunCommand (validate_command p) stdErr (Some verr),
          EvAskGPT4Turbo (messages w @ [repair_request stdErr]) (Inr response),
          EvWriteFile (generateTestFilePath (SourcePath c)) response None]"
  have "writes_verbatim None ?pre" by simp
  from writes_verbatim_append[OF this evs(2)] evs(1,3) repaired(3)
  show ?case by (simp add: written_paths_append)
qed simp_all

lemma harness_for_contract_writes:
  assumes "harness_for_contract E c w = Some (r, w')"
  shows "\<exists>evs. trace w' = trace w @ evs \<and> writes_verbatim None evs \<and>
           set (written_paths evs) \<subseteq> {generateTestFilePath (SourcePath c)}"
  using assms
proof (cases rule: harness_for_contract_cases)
  case (generated s t response w6)
  from validate_loop_writes[OF generated(4)] obtain evs where
    evs: "trace w' = trace w6 @ evs" "writes_verbatim None evs"
    "set (written_paths evs) \<subseteq> {generateTestFilePath (SourcePath c)}" by blast
  let ?pre = "[EvReadFile (SourcePath c) (Inr s),
         EvReadFile (generateTestFilePath (SourcePath c)) (Inr t),
         EvAskGPT4Turbo (messages w @ [generation_request c s t]) (Inr response),
         EvWriteFile (generateTestFilePath (SourcePath c)) response None]"
  have "writes_verbatim None ?pre" by simp
  from writes_verbatim_append[OF this evs(2)] evs(1,3) generated(3)
  show ?thesis by (simp add: written_paths_append)
qed simp_all

text \<open>Only the test file of the contract changes; after a completed unit it holds the last response.\<close>

lemma validate_loop_frame:
  assumes "validate_loop E c p w = Some (r, w')"
  shows "q \<noteq> generateTestFilePath (SourcePath c) \<Longrightarrow> files w' q = files w q"
  using assms
  by (induction rule: validate_loop_effect_induct) simp_all

lemma harness_for_contract_frame:
  assumes "harness_for_contract E c w = Some (r, w')"
  shows "q \<noteq> generateTestFilePath (SourcePath c) \<Longrightarrow> files w' q = files w q"
  using assms
proof (cases rule: harness_for_contract_cases)
  case (generated s t response w6)
  assume "q \<noteq> generateTestFilePath (SourcePath c)"
  with validate_loop_frame[OF generated(4), of q] generated(1) show ?thesis by simp
qed simp_all

lemma validate_loop_artifact:
  assumes "validate_loop E c p w = Some (r, w')"
  shows "r = None \<Longrightarrow> holds_last_response (generateTestFilePath (SourcePath c)) w \<Longrightarrow>
         holds_last_response (generateTestFilePath (SourcePath c)) w'"
  using assms
proof (induction rule: validate_loop_effect_induct)
  case (repaired w stdErr verr response w3 r w')
  have "holds_last_response (generateTestFilePath (SourcePath c)) w3"
    using repaired(1,2) by (simp add: holds_last_response_def response_message_def)
  with repaired show ?case by simp
qed (simp_all add: holds_last_response_def)

lemma harness_for_contract_artifact:
  assumes "harness_for_contract E c w = Some (None, w')"
  shows "holds_last_response (generateTestFilePath (SourcePath c)) w'"
  using assms
proof (cases rule: harness_for_contract_cases)
  case (generated s t response w6)
  have "holds_last_response (generateTestFilePath (SourcePath c)) w6"
    using generated(1,2) by (simp add: holds_last_response_def response_message_def)
  with validate_loop_artifact[OF generated(4)] show ?thesis by simp
qed simp_all

section \<open>The history\<close>

lemma repair_cycles_append [simp]:
  "repair_cycles (xs @ ys) = repair_cycles xs + repair_cycles ys"
  by (simp add: repair_cycles_def)

lemma count_kind_append [simp]: "count_kind k (xs @ ys) = count_kind k xs + count_kind k ys"
  by (simp add: count_kind_def)

lemma validate_loop_history:
  assumes "validate_loop E c p w = Some (r, w')"
  shows "(\<exists>ms. messages w' = messages w @ ms) \<and>
    (r = None \<longrightarrow>
      length (messages w') + 2 * repair_cycles (trace w) =
      length (messages w) + 2 * repair_cycles (trace w'))"
  using assms
proof (induction rule: validate_loop_effect_induct)
  case (repaired w stdErr verr response w3 r w')
  then obtain ms where ms: "messages w' = messages w3 @ ms" by blast
  from repaired(2) ms have "\<exists>ms. messages w' = messages w @ ms" by simp
  moreover have "length (messages w') + 2 * repair_cycles (trace w) =
      length (messages w) + 2 * repair_cycles (trace w')" if "r = None"
  proof -
    from that repaired(4) have "length (messages w') + 2 * repair_cycles (trace w3) =
      length (messages w3) + 2 * repair_cycles (trace w')" by simp
    with repaired(2,3) show ?thesis by (simp add: repair_cycles_def)
  qed
  ultimately show ?case by blast
qed (simp_all add: repair_cycles_def)

lemma harness_for_contract_history:
  assumes "harness_for_contract E c w = Some (r, w')"
  shows "(\<exists>ms. messages w' = messages w @ ms) \<and>
    (r = None \<longrightarrow>
      length (messages w') + 2 * repair_cycles (trace w) =
      length (messages w) + 2 + 2 * repair_cycles (trace w'))"
  using assms
proof (cases rule: harness_for_contract_cases)
  case (generated s t response w6)
  from validate_loop_history[OF generated(4)] obtain ms where ms: "messages w' = messages w6 @ ms"
    and len: "r = None \<longrightarrow> length (messages w') + 2 * repair_cycles (trace w6) =
      length (messages w6) + 2 * repair_cycles (trace w')" by blast
  from generated(2) ms have "\<exists>ms. messages w' = messages w @ ms" by simp
  moreover from len generated(2,3) have "r = None \<longrightarrow>
      length (messages w') + 2 * repair_cycles (trace w) =
      length (messages w) + 2 + 2 * repair_cycles (trace w')"
    by (simp add: repair_cycles_def)
  ultimately show ?thesis by blast
qed simp_all

section \<open>The example runs, evaluated\<close>

lemma ex_paths:
  "generateTestFilePath ''contracts/Foo.sol'' = ''contracts/Foo_fuzz.sol''"
  "generateTestFilePath ''A.sol'' = ''A_fuzz.sol''"
  "generateTestFilePath ''B.sol'' = ''B_fuzz.sol''"
  "generateTestFilePath ''C.sol'' = ''C_fuzz.sol''"
  by code_simp+

text \<open>
  The definitions that evaluate one step of a run. The equation of the validation loop
  is not among them: it is unfolded by hand, once for each turn of the loop.
\<close>

lemmas run_defs =
  GenerateFuzzingHarness_def harness_for_contract_def
  os_Stat_def os_Create_def os_ReadFile_def os_WriteFile_def call_AskGPT4Turbo_def
  validateTestFile_def processMessageWithGPT4Turbo_def log_def os_IsNotExist_def
  count_kind_def Let_def generation_request_def repair_request_def response_message_def
  validate_command_def nth_response_def ex_paths

lemmas ex_defs =
  ex_contract_def ex_world_def ex_created_def ex_generated_def
  ex_history_1_def ex_history_2_def ex_history_3_def
  unit_A_def unit_B_def unit_C_def ex_units_world_def ex_units_created_def
  ex_units_history_A_def ex_units_history_B_def ex_units_done_A_def ex_two_world_def

lemma ex_repair_run:
  "GenerateFuzzingHarness ex_repair_env [ex_contract] ex_world = Some (None, ex_repair_final)"
  apply (simp add: run_defs ex_defs ex_repair_env_def ex_repair_final_def)
  apply (subst validate_loop.simps, simp add: run_defs)
  apply (subst validate_loop.simps, simp add: run_defs)
  apply (subst validate_loop.simps, simp add: run_defs)
  done

lemma ex_repair_unit:
  "harness_for_contract ex_repair_env ex_contract ex_created = Some (None, ex_repair_final)"
  apply (simp add: run_defs ex_defs ex_repair_env_def ex_repair_final_def)
  apply (subst validate_loop.simps, simp add: run_defs)
  apply (subst validate_loop.simps, simp add: run_defs)
  apply (subst validate_loop.simps, simp add: run_defs)
  done

lemma ex_repair_loop:
  "validate_loop ex_repair_env ex_contract ''contracts/Foo_fuzz.sol'' ex_generated =
     Some (None, ex_repair_final)"
  apply (subst validate_loop.simps, simp add: run_defs ex_defs ex_repair_env_def ex_repair_final_def)
  apply (subst validate_loop.simps, simp add: run_defs)
  apply (subst validate_loop.simps, simp add: run_defs)
  done

lemma ex_ok_unit:
  "harness_for_contract ex_ok_env ex_contract ex_created = Some (None, ex_ok_final)"
  apply (simp add: run_defs ex_defs ex_ok_env_def ex_ok_final_def)
  apply (subst validate_loop.simps, simp add: run_defs)
  done


lemma ex_repair_abort_loop:
  "validate_loop ex_repair_abort_env ex_contract ''contracts/Foo_fuzz.sol'' ex_generated =
     Some (Some ErrService, ex_repair_abort_final)"
  apply (subst validate_loop.simps)
  apply (simp add: run_defs ex_defs ex_repair_abort_env_def ex_repair_abort_final_def)
  done

lemma ex_abort_steps:
  "createTestFiles ex_abort_env [unit_A, unit_B, unit_C] ex_units_world = (None, ex_units_created)"
  "harness_for_contract ex_abort_env unit_A ex_units_created = Some (None, ex_units_done_A)"
  "harness_for_contract ex_abort_env unit_B ex_units_done_A = Some (Some ErrService, ex_abort_final)"
    apply (simp add: run_defs ex_defs ex_abort_env_def)
   apply (simp add: run_defs ex_defs ex_abort_env_def)
   apply (subst validate_loop.simps, simp add: run_defs)
  apply (simp add: run_defs ex_defs ex_abort_env_def ex_abort_final_def)
  done

lemma ex_abort_run:
  "GenerateFuzzingHarness ex_abort_env [unit_A, unit_B, unit_C] ex_units_world =
     Some (Some ErrService, ex_abort_final)"
  by (simp add: GenerateFuzzingHarness_def ex_abort_steps del: createTestFiles.simps)

lemma ex_two_run:
  "GenerateFuzzingHarness ex_ok_env [unit_A, unit_B] ex_two_world = Some (None, ex_two_final)"
  apply (simp add: run_defs ex_defs ex_ok_env_def ex_two_final_def)
  apply (subst validate_loop.simps, simp add: run_defs)
  apply (subst validate_loop.simps, simp add: run_defs)
  done

section \<open>Whole runs\<close>

lemma generateFuzzingHarness_writes:
  "generateFuzzingHarness E cs w = Some (r, w') \<Longrightarrow>
     \<exists>evs. trace w' = trace w @ evs \<and> writes_verbatim None evs \<and>
       set (written_paths evs) \<subseteq> (\<lambda>c. generateTestFilePath (SourcePath c)) ` set cs"
proof (induction cs arbitrary: w)
  case Nil
  then show ?case by simp
next
  case (Cons c cs)
  from Cons.prems obtain r1 w1 where h: "harness_for_contract E c w = Some (r1, w1)"
    by (auto split: option.splits)
  from harness_for_contract_writes[OF h] obtain evs1 where
    evs1: "trace w1 = trace w @ evs1" "writes_verbatim None evs1"
      "set (written_paths evs1) \<subseteq> {generateTestFilePath (SourcePath c)}" by blast
  show ?case
  proof (cases r1)
    case (Some e)
    with Cons.prems h have "w' = w1" by simp
    with evs1 show ?thesis by auto
  next
    case None
    with Cons.prems h have "generateFuzzingHarness E cs w1 = Some (r, w')" by simp
    from Cons.IH[OF this] obtain evs where
      evs: "trace w' = trace w1 @ evs" "writes_verbatim None evs"
        "set (written_paths evs) \<subseteq> (\<lambda>c. generateTestFilePath (SourcePath c)) ` set cs" by blast
    have "trace w' = trace w @ (evs1 @ evs)" using evs1(1) evs(1) by simp
    moreover have "writes_verbatim None (evs1 @ evs)"
      by (rule writes_verbatim_append[OF evs1(2) evs(2)])
    moreover have "set (written_paths (evs1 @ evs)) \<subseteq>
        (\<lambda>c. generateTestFilePath (SourcePath c)) ` set (c # cs)"
      using evs1(3) evs(3) by (auto simp: written_paths_append)
    ultimately show ?thesis by blast
  qed
qed

lemma no_writes:
  "\<forall>ev \<in> set evs. kind_of ev = KStat \<or> kind_of ev = KCreate \<Longrightarrow>
     writes_verbatim None evs \<and> written_paths evs = []"
  by (induction evs rule: written_paths.induct) simp_all

lemma GenerateFuzzingHarness_writes:
  assumes "GenerateFuzzingHarness E cs w = Some (r, w')"
  shows "\<exists>evs. trace w' = trace w @ evs \<and> writes_verbatim None evs \<and>
       set (written_paths evs) \<subseteq> (\<lambda>c. generateTestFilePath (SourcePath c)) ` set cs"
proof -
  obtain r0 w0 where c: "createTestFiles E cs w = (r0, w0)" by (metis prod.exhaust)
  from createTestFiles_events[OF c] obtain evs0 where
    evs0: "trace w0 = trace w @ evs0" "\<forall>ev \<in> set evs0. kind_of ev = KStat \<or> kind_of ev = KCreate"
    by blast
  note nw = no_writes[OF evs0(2)]
  show ?thesis
  proof (cases r0)
    case (Some e)
    with assms c have "w' = w0" by (simp add: GenerateFuzzingHarness_def)
    with evs0 nw show ?thesis by simp
  next
    case None
    with assms c have "generateFuzzingHarness E cs w0 = Some (r, w')"
      by (simp add: GenerateFuzzingHarness_def)
    from generateFuzzingHarness_writes[OF this] obtain evs where
      evs: "trace w' = trace w0 @ evs" "writes_verbatim None evs"
        "set (written_paths evs) \<subseteq> (\<lambda>c. generateTestFilePath (SourcePath c)) ` set cs" by blast
    have "trace w' = trace w @ (evs0 @ evs)" using evs0(1) evs(1) by simp
    moreover have "writes_verbatim None (evs0 @ evs)"
      using nw evs(2) by (intro writes_verbatim_append) simp_all
    moreover have "set (written_paths (evs0 @ evs)) \<subseteq>
        (\<lambda>c. generateTestFilePath (SourcePath c)) ` set cs"
      using nw evs(3) by (simp add: written_paths_append)
    ultimately show ?thesis by blast
  qed
qed

lemma validate_loop_failed_request:
  assumes "validate_loop E c p w = Some (r, w')"
  shows "\<forall>e. r = Some e \<and> kind_of (last (trace w')) = KAsk \<longrightarrow>
    (\<exists>stdErr ms. messages w' = messages w @ ms @ [repair_request stdErr] \<and>
       last (trace w') = EvAskGPT4Turbo (messages w') (Inl e))"
  using assms
proof (induction rule: validate_loop_effect_induct)
  case (ask_failed w stdErr verr err w2)
  have "messages w2 = messages w @ [] @ [repair_request stdErr]" using ask_failed(2) by simp
  with ask_failed(2,3) show ?case by auto
next
  case (repaired w stdErr verr response w3 r w')
  show ?case
  proof (intro allI impI)
    fix e assume "r = Some e \<and> kind_of (last (trace w')) = KAsk"
    with repaired(4) obtain stdErr' ms where
      m: "messages w' = messages w3 @ ms @ [repair_request stdErr']"
      and l: "last (trace w') = EvAskGPT4Turbo (messages w') (Inl e)" by blast
    from m repaired(2) have "messages w' =
      messages w @ ([repair_request stdErr, response_message response] @ ms) @ [repair_request stdErr']"
      by simp
    with l show "\<exists>stdErr ms. messages w' = messages w @ ms @ [repair_request stdErr] \<and>
       last (trace w') = EvAskGPT4Turbo (messages w') (Inl e)" by blast
  qed
qed simp_all

section \<open>Errors, repair requests and writes\<close>

text \<open>
  C8. A validation diagnostic is never returned to the caller. When
  \<^verbatim>\<open>GenerateFuzzingHarness\<close> returns an error, the last call the run made is a
  file-system call or a call of the chat client, and it is the call that ended with
  that error. The validation loop is left only after a validation without error, or at
  such a failed call.
\<close>

theorem fatal_error_origin:
  "(GenerateFuzzingHarness E cs w = Some (Some e, w') \<longrightarrow>
      new_events w w' \<noteq> [] \<and> fatal_origin e (last (new_events w w'))) \<and>
   (validate_loop E' c p v = Some (r, v') \<longrightarrow>
      new_events v v' \<noteq> [] \<and> exit_event r (last (new_events v v')))"
proof (intro conjI impI)
  assume "GenerateFuzzingHarness E cs w = Some (Some e, w')"
  from GenerateFuzzingHarness_events[OF this] obtain evs where
    "trace w' = trace w @ evs" "evs \<noteq> []" "fatal_origin e (last evs)" by blast
  then show "new_events w w' \<noteq> []" "fatal_origin e (last (new_events w w'))" by simp_all
next
  assume "validate_loop E' c p v = Some (r, v')"
  from validate_loop_events[OF this] obtain evs where
    "trace v' = trace v @ evs" "evs \<noteq> []" "exit_event r (last evs)" by blast
  then show "new_events v v' \<noteq> []" "exit_event r (last (new_events v v'))" by simp_all
qed

theorem fatal_error_origin_witness:
  "GenerateFuzzingHarness ex_abort_env [unit_A, unit_B, unit_C] ex_units_world =
     Some (Some ErrService, ex_abort_final) \<and>
   fatal_origin ErrService (last (new_events ex_units_world ex_abort_final)) \<and>
   validate_loop ex_repair_env ex_contract ''contracts/Foo_fuzz.sol'' ex_generated =
     Some (None, ex_repair_final) \<and>
   exit_event None (last (new_events ex_generated ex_repair_final))"
  using fatal_error_origin[of ex_abort_env "[unit_A, unit_B, unit_C]" ex_units_world ErrService
      ex_abort_final ex_repair_env ex_contract "''contracts/Foo_fuzz.sol''" ex_generated None
      ex_repair_final]
    ex_abort_run ex_repair_loop
  by simp




text \<open>
  C9. When the chat client fails in a repair cycle, the repair request that was
  appended before the call is still the last message of the history: the history sent
  with the failed call is the final history, and it ends with a request without
  response.
\<close>

theorem failed_repair_request_stays:
  assumes "validate_loop E c p w = Some (Some e, w')"
    and "kind_of (last (trace w')) = KAsk"
  shows "\<exists>stdErr ms. messages w' = messages w @ ms @ [repair_request stdErr] \<and>
    last (trace w') = EvAskGPT4Turbo (messages w') (Inl e)"
  using validate_loop_failed_request[OF assms(1)] assms(2) by blast

theorem failed_repair_request_stays_witness:
  "validate_loop ex_repair_abort_env ex_contract ''contracts/Foo_fuzz.sol'' ex_generated =
     Some (Some ErrService, ex_repair_abort_final) \<and>
   kind_of (last (trace ex_repair_abort_final)) = KAsk \<and>
   (\<exists>stdErr ms. messages ex_repair_abort_final = messages ex_generated @ ms @ [repair_request stdErr] \<and>
      last (trace ex_repair_abort_final) = EvAskGPT4Turbo (messages ex_repair_abort_final) (Inl ErrService))"
proof -
  have k: "kind_of (last (trace ex_repair_abort_final)) = KAsk"
    by (simp add: ex_repair_abort_final_def)
  from failed_repair_request_stays[OF ex_repair_abort_loop k] ex_repair_abort_loop k
  show ?thesis by blast
qed

text \<open>
  C7. Every write of a run comes directly after a successful call of the chat client
  and writes exactly the response of that call, to the test file of one of the
  contracts. When a contract is done, its test file holds the text of the last
  response, and no other file has changed.
\<close>

theorem persist_is_verbatim:
  "(GenerateFuzzingHarness E cs w = Some (r, w') \<longrightarrow>
      writes_verbatim None (new_events w w') \<and>
      set (written_paths (new_events w w')) \<subseteq> (\<lambda>c. generateTestFilePath (SourcePath c)) ` set cs) \<and>
   (harness_for_contract E' c v = Some (None, v') \<longrightarrow>
      holds_last_response (generateTestFilePath (SourcePath c)) v' \<and>
      (\<forall>q. q \<noteq> generateTestFilePath (SourcePath c) \<longrightarrow> files v' q = files v q))"
proof (intro conjI impI allI)
  assume "GenerateFuzzingHarness E cs w = Some (r, w')"
  from GenerateFuzzingHarness_writes[OF this] obtain evs where
    "trace w' = trace w @ evs" "writes_verbatim None evs"
    "set (written_paths evs) \<subseteq> (\<lambda>c. generateTestFilePath (SourcePath c)) ` set cs" by blast
  then show "writes_verbatim None (new_events w w')"
    "set (written_paths (new_events w w')) \<subseteq> (\<lambda>c. generateTestFilePath (SourcePath c)) ` set cs"
    by simp_all
next
  assume h: "harness_for_contract E' c v = Some (None, v')"
  then show "holds_last_response (generateTestFilePath (SourcePath c)) v'"
    by (rule harness_for_contract_artifact)
  fix q assume "q \<noteq> generateTestFilePath (SourcePath c)"
  with harness_for_contract_frame[OF h] show "files v' q = files v q" by simp
qed

theorem persist_is_verbatim_witness:
  "GenerateFuzzingHarness ex_repair_env [ex_contract] ex_world = Some (None, ex_repair_final) \<and>
   writes_verbatim None (new_events ex_world ex_repair_final) \<and>
   harness_for_contract ex_repair_env ex_contract ex_created = Some (None, ex_repair_final) \<and>
   holds_last_response (generateTestFilePath (SourcePath ex_contract)) ex_repair_final"
  using persist_is_verbatim[of ex_repair_env "[ex_contract]" ex_world None ex_repair_final
      ex_repair_env ex_contract ex_created ex_repair_final]
    ex_repair_run ex_repair_unit
  by simp

section \<open>The history of a whole run\<close>

lemma repair_cycles_no_validation:
  "\<forall>ev \<in> set evs. kind_of ev = KStat \<or> kind_of ev = KCreate \<Longrightarrow> repair_cycles evs = 0"
  by (induction evs) (auto simp: repair_cycles_def)


lemma generateFuzzingHarness_history:
  "generateFuzzingHarness E cs w = Some (r, w') \<Longrightarrow>
     (\<exists>ms. messages w' = messages w @ ms) \<and>
     (r = None \<longrightarrow>
        length (messages w') + 2 * repair_cycles (trace w) =
        length (messages w) + 2 * length cs + 2 * repair_cycles (trace w'))"
proof (induction cs arbitrary: w)
  case Nil
  then show ?case by simp
next
  case (Cons c cs)
  from Cons.prems obtain r1 w1 where h: "harness_for_contract E c w = Some (r1, w1)"
    by (auto split: option.splits)
  from harness_for_contract_history[OF h] obtain ms1 where
    ms1: "messages w1 = messages w @ ms1"
    and len1: "r1 = None \<longrightarrow> length (messages w1) + 2 * repair_cycles (trace w) =
      length (messages w) + 2 + 2 * repair_cycles (trace w1)" by blast
  show ?case
  proof (cases r1)
    case (Some e)
    with Cons.prems h have "r = Some e" "w' = w1" by simp_all
    with ms1 show ?thesis by simp
  next
    case None
    with Cons.prems h have "generateFuzzingHarness E cs w1 = Some (r, w')" by simp
    from Cons.IH[OF this] obtain ms where ms: "messages w' = messages w1 @ ms"
      and len: "r = None \<longrightarrow> length (messages w') + 2 * repair_cycles (trace w1) =
        length (messages w1) + 2 * length cs + 2 * repair_cycles (trace w')" by blast
    from ms1 ms have "\<exists>ms. messages w' = messages w @ ms" by simp
    moreover from len1 len None have "r = None \<longrightarrow>
        length (messages w') + 2 * repair_cycles (trace w) =
        length (messages w) + 2 * length (c # cs) + 2 * repair_cycles (trace w')" by auto
    ultimately show ?thesis by blast
  qed
qed

lemma GenerateFuzzingHarness_history:
  assumes "GenerateFuzzingHarness E cs w = Some (r, w')"
  shows "(\<exists>ms. messages w' = messages w @ ms) \<and>
     (r = None \<longrightarrow>
        length (messages w') + 2 * repair_cycles (trace w) =
        length (messages w) + 2 * length cs + 2 * repair_cycles (trace w'))"
proof -
  obtain r0 w0 where c: "createTestFiles E cs w = (r0, w0)" by (metis prod.exhaust)
  from createTestFiles_events[OF c] obtain evs0 where
    evs0: "trace w0 = trace w @ evs0" "messages w0 = messages w"
      "\<forall>ev \<in> set evs0. kind_of ev = KStat \<or> kind_of ev = KCreate" by blast
  from evs0(1) repair_cycles_no_validation[OF evs0(3)]
  have rc: "repair_cycles (trace w0) = repair_cycles (trace w)" by simp
  show ?thesis
  proof (cases r0)
    case (Some e)
    with assms c have "r = Some e" "w' = w0" by (simp_all add: GenerateFuzzingHarness_def)
    with evs0(2) show ?thesis by simp
  next
    case None
    with assms c have "generateFuzzingHarness E cs w0 = Some (r, w')"
      by (simp add: GenerateFuzzingHarness_def)
    from generateFuzzingHarness_history[OF this] rc evs0(2) show ?thesis by simp
  qed
qed

text \<open>
  C3, as stated, fails for a run of two contracts without any repair cycle: the history
  has grown by four messages, not by \<open>2 * (1 + 0)\<close>.
\<close>

theorem history_length_two_units:
  "GenerateFuzzingHarness ex_ok_env [unit_A, unit_B] ex_two_world = Some (None, ex_two_final) \<and>
   messages ex_two_world = TrainingPrompts \<and>
   repair_cycles (new_events ex_two_world ex_two_final) = 0 \<and>
   length (messages ex_two_final) = length TrainingPrompts + 4 \<and>
   length (messages ex_two_final) \<noteq>
     length TrainingPrompts + 2 * (1 + repair_cycles (new_events ex_two_world ex_two_final))"
proof (intro conjI)
  show "GenerateFuzzingHarness ex_ok_env [unit_A, unit_B] ex_two_world = Some (None, ex_two_final)"
    by (rule ex_two_run)
  show "messages ex_two_world = TrainingPrompts" by (simp add: ex_two_world_def)
  show rc: "repair_cycles (new_events ex_two_world ex_two_final) = 0"
    by (simp add: new_events_def ex_two_world_def ex_two_final_def repair_cycles_def)
  show len: "length (messages ex_two_final) = length TrainingPrompts + 4"
    by (simp add: ex_two_final_def ex_units_history_B_def ex_units_history_A_def)
  show "length (messages ex_two_final) \<noteq>
     length TrainingPrompts + 2 * (1 + repair_cycles (new_events ex_two_world ex_two_final))"
    by (simp add: rc len)
qed

text \<open>
  C3, amended. A run over \<open>N\<close> contracts that returns without error leaves a history of
  the initial length plus \<open>2 * (N + k)\<close>, where \<open>k\<close> is the number of repair cycles of
  the whole run: one request and one response for each contract, and one request and
  one response for each repair cycle. In every run that returns, the initial history is
  a prefix of the final one; it starts as the five training prompts.
\<close>

theorem history_length:
  assumes "GenerateFuzzingHarness E cs w = Some (r, w')"
  shows "(\<exists>ms. messages w' = messages w @ ms) \<and>
    (r = None \<longrightarrow>
       length (messages w') =
       length (messages w) + 2 * (length cs + repair_cycles (new_events w w'))) \<and>
    length TrainingPrompts = 5"
proof -
  from GenerateFuzzingHarness_events[OF assms] obtain evs where evs: "trace w' = trace w @ evs"
    by blast
  from GenerateFuzzingHarness_history[OF assms] evs
  have "(\<exists>ms. messages w' = messages w @ ms) \<and>
    (r = None \<longrightarrow>
       length (messages w') =
       length (messages w) + 2 * (length cs + repair_cycles (new_events w w')))"
    by auto
  moreover have "length TrainingPrompts = 5" by (simp add: TrainingPrompts_def)
  ultimately show ?thesis by blast
qed

theorem history_length_witness:
  "GenerateFuzzingHarness ex_repair_env [ex_contract] ex_world = Some (None, ex_repair_final) \<and>
   repair_cycles (new_events ex_world ex_repair_final) = 2 \<and>
   length (messages ex_repair_final) =
     length (messages ex_world) + 2 * (length [ex_contract] + repair_cycles (new_events ex_world ex_repair_final))"
proof -
  have "repair_cycles (new_events ex_world ex_repair_final) = 2"
    by (simp add: new_events_def ex_world_def ex_repair_final_def ex_generated_def ex_created_def
        repair_cycles_def)
  with history_length[OF ex_repair_run] ex_repair_run show ?thesis by simp
qed

section \<open>Test files are created before any harness is generated\<close>

lemma createTestFiles_stats:
  "createTestFiles E cs w = (None, w') \<Longrightarrow>
     \<exists>evs. trace w' = trace w @ evs \<and>
       (\<forall>c \<in> set cs. \<exists>err. EvStat (generateTestFilePath (SourcePath c)) err \<in> set evs)"
proof (induction cs arbitrary: w)
  case Nil
  then show ?case by simp
next
  case (Cons c cs)
  let ?p = "generateTestFilePath (SourcePath c)"
  obtain err w1 where st: "os_Stat E ?p w = (err, w1)" by (metis prod.exhaust)
  note e1 = os_Stat_effect[OF st]
  obtain err' w2 where cr: "os_Create E ?p w1 = (err', w2)" by (metis prod.exhaust)
  note e2 = os_Create_effect[OF cr]
  define wn where "wn = (if os_IsNotExist err then w2 else w1)"
  have rest: "createTestFiles E cs wn = (None, w')"
    using Cons.prems st cr by (auto simp: Let_def wn_def split: if_splits option.splits)
  have tr: "\<exists>pre. trace wn = trace w @ EvStat ?p err # pre"
    using e1 e2 by (auto simp: wn_def)
  then obtain pre where pre: "trace wn = trace w @ EvStat ?p err # pre" by blast
  from Cons.IH[OF rest] obtain evs where evs: "trace w' = trace wn @ evs"
    "\<forall>c \<in> set cs. \<exists>err. EvStat (generateTestFilePath (SourcePath c)) err \<in> set evs" by blast
  have a: "trace w' = trace w @ (EvStat ?p err # pre @ evs)" using pre evs(1) by simp
  have b: "\<forall>c' \<in> set (c # cs). \<exists>err'. EvStat (generateTestFilePath (SourcePath c')) err'
      \<in> set (EvStat ?p err # pre @ evs)"
    using evs(2) by auto
  show ?case
  proof (intro exI conjI)
    show "trace w' = trace w @ (EvStat ?p err # pre @ evs)" by (rule a)
    show "\<forall>c' \<in> set (c # cs). \<exists>err'. EvStat (generateTestFilePath (SourcePath c')) err'
      \<in> set (EvStat ?p err # pre @ evs)" by (rule b)
  qed
qed

lemma harness_for_contract_no_write:
  assumes "harness_for_contract E c w = Some (r, w')"
  shows "written_paths (new_events w w') = [] \<Longrightarrow> files w' = files w"
  using assms
proof (cases rule: harness_for_contract_cases)
  case (generated s t response w6)
  assume nw: "written_paths (new_events w w') = []"
  from validate_loop_events[OF generated(4)] obtain evs where "trace w' = trace w6 @ evs" by blast
  with generated(3) nw show ?thesis by (simp add: written_paths_append)
qed simp_all

text \<open>
  C2, as stated, fails: \<^verbatim>\<open>GenerateFuzzingHarness\<close> calls \<^verbatim>\<open>createTestFiles\<close> for all
  contracts before the first harness is generated. In the example the chat client
  fails at the second contract \<^verbatim>\<open>B\<close>, and the test file of the third contract \<^verbatim>\<open>C\<close>,
  which did not exist, has been looked up and created.
\<close>

theorem later_unit_file_created_before_abort:
  "GenerateFuzzingHarness ex_abort_env [unit_A, unit_B, unit_C] ex_units_world =
     Some (Some ErrService, ex_abort_final) \<and>
   generateTestFilePath (SourcePath unit_C) = ''C_fuzz.sol'' \<and>
   files ex_units_world ''C_fuzz.sol'' = None \<and>
   files ex_abort_final ''C_fuzz.sol'' = Some [] \<and>
   EvCreate ''C_fuzz.sol'' None \<in> set (new_events ex_units_world ex_abort_final)"
proof (intro conjI)
  show "GenerateFuzzingHarness ex_abort_env [unit_A, unit_B, unit_C] ex_units_world =
     Some (Some ErrService, ex_abort_final)" by (rule ex_abort_run)
  show "generateTestFilePath (SourcePath unit_C) = ''C_fuzz.sol''"
    by (simp add: unit_C_def ex_paths)
  show "files ex_units_world ''C_fuzz.sol'' = None" by (simp add: ex_units_world_def)
  show "files ex_abort_final ''C_fuzz.sol'' = Some []"
    by (simp add: ex_abort_final_def ex_units_done_A_def ex_units_created_def)
  show "EvCreate ''C_fuzz.sol'' None \<in> set (new_events ex_units_world ex_abort_final)"
    by (simp add: new_events_def ex_units_world_def ex_abort_final_def ex_units_done_A_def
        ex_units_created_def)
qed

text \<open>
  C2, amended. When the chat client fails while the second contract is processed, the
  run returns that error and the failed call is the last call of the run: nothing is
  read, asked, written or validated for a later contract. The files changed since the
  first contract was done are at most the test file of the second contract, so the test
  file of the first contract, if it is another file, still holds the last response
  generated for it. The test files of all contracts, the later ones too, have been
  looked up (and created when missing) before the first harness was generated.
\<close>

theorem client_failure_at_second_unit:
  assumes "createTestFiles E (c1 # c2 # rest) w = (None, w0)"
    and "harness_for_contract E c1 w0 = Some (None, w1)"
    and "harness_for_contract E c2 w1 = Some (Some e, w2)"
    and "kind_of (last (trace w2)) = KAsk"
  shows "GenerateFuzzingHarness E (c1 # c2 # rest) w = Some (Some e, w2) \<and>
    error_of (last (trace w2)) = Some e \<and>
    holds_last_response (generateTestFilePath (SourcePath c1)) w1 \<and>
    (generateTestFilePath (SourcePath c2) \<noteq> generateTestFilePath (SourcePath c1) \<or>
     written_paths (new_events w1 w2) = [] \<longrightarrow>
       files w2 (generateTestFilePath (SourcePath c1)) =
       files w1 (generateTestFilePath (SourcePath c1))) \<and>
    (\<forall>q. q \<noteq> generateTestFilePath (SourcePath c2) \<longrightarrow> files w2 q = files w1 q) \<and>
    (\<forall>c \<in> set (c1 # c2 # rest).
       \<exists>err. EvStat (generateTestFilePath (SourcePath c)) err \<in> set (new_events w w0))"
proof (intro conjI)
  show "GenerateFuzzingHarness E (c1 # c2 # rest) w = Some (Some e, w2)"
    using assms(1-3) by (simp add: GenerateFuzzingHarness_def del: createTestFiles.simps)
  from harness_for_contract_events[OF assms(3)] obtain evs where
    "trace w2 = trace w1 @ evs" "evs \<noteq> []" "exit_event (Some e) (last evs)" by blast
  then show "error_of (last (trace w2)) = Some e"
    by (simp add: exit_event_def fatal_origin_def)
  show "holds_last_response (generateTestFilePath (SourcePath c1)) w1"
    by (rule harness_for_contract_artifact[OF assms(2)])
  show "generateTestFilePath (SourcePath c2) \<noteq> generateTestFilePath (SourcePath c1) \<or>
     written_paths (new_events w1 w2) = [] \<longrightarrow>
       files w2 (generateTestFilePath (SourcePath c1)) =
       files w1 (generateTestFilePath (SourcePath c1))"
    using harness_for_contract_frame[OF assms(3), of "generateTestFilePath (SourcePath c1)"]
      harness_for_contract_no_write[OF assms(3)] by auto
  show "\<forall>q. q \<noteq> generateTestFilePath (SourcePath c2) \<longrightarrow> files w2 q = files w1 q"
    using harness_for_contract_frame[OF assms(3)] by simp
  from createTestFiles_stats[OF assms(1)] obtain evs0 where
    "trace w0 = trace w @ evs0"
    "\<forall>c \<in> set (c1 # c2 # rest). \<exists>err. EvStat (generateTestFilePath (SourcePath c)) err \<in> set evs0"
    by blast
  then show "\<forall>c \<in> set (c1 # c2 # rest).
       \<exists>err. EvStat (generateTestFilePath (SourcePath c)) err \<in> set (new_events w w0)"
    by simp
qed

theorem client_failure_at_second_unit_witness:
  "createTestFiles ex_abort_env [unit_A, unit_B, unit_C] ex_units_world = (None, ex_units_created) \<and>
   harness_for_contract ex_abort_env unit_A ex_units_created = Some (None, ex_units_done_A) \<and>
   harness_for_contract ex_abort_env unit_B ex_units_done_A = Some (Some ErrService, ex_abort_final) \<and>
   kind_of (last (trace ex_abort_final)) = KAsk \<and>
   GenerateFuzzingHarness ex_abort_env [unit_A, unit_B, unit_C] ex_units_world =
     Some (Some ErrService, ex_abort_final) \<and>
   files ex_abort_final (generateTestFilePath (SourcePath unit_A)) =
     files ex_units_done_A (generateTestFilePath (SourcePath unit_A))"
proof -
  have k: "kind_of (last (trace ex_abort_final)) = KAsk" by (simp add: ex_abort_final_def)
  have p: "generateTestFilePath (SourcePath unit_B) \<noteq> generateTestFilePath (SourcePath unit_A)"
    by (simp add: unit_A_def unit_B_def ex_paths)
  from client_failure_at_second_unit[OF ex_abort_steps k] ex_abort_steps k p
  show ?thesis by blast
qed

text \<open>
  C5, as stated, fails: \<^verbatim>\<open>createTestFiles\<close> creates the file only when \<^verbatim>\<open>os.Stat\<close>
  reports that it does not exist, and drops every other error of \<^verbatim>\<open>os.Stat\<close>. In the
  example no test file exists and \<^verbatim>\<open>os.Stat\<close> fails for another reason: the call
  returns no error and no file has been created.
\<close>

theorem stat_failure_creates_nothing:
  "createTestFiles ex_stat_fault_env [ex_contract] ex_world = (None, ex_stat_fault_final) \<and>
   generateTestFilePath (SourcePath ex_contract) = ''contracts/Foo_fuzz.sol'' \<and>
   files ex_world ''contracts/Foo_fuzz.sol'' = None \<and>
   files ex_stat_fault_final ''contracts/Foo_fuzz.sol'' = None"
proof (intro conjI)
  show "createTestFiles ex_stat_fault_env [ex_contract] ex_world = (None, ex_stat_fault_final)"
    by (simp add: run_defs ex_defs ex_stat_fault_env_def ex_stat_fault_final_def)
  show "generateTestFilePath (SourcePath ex_contract) = ''contracts/Foo_fuzz.sol''"
    by (simp add: ex_contract_def ex_paths)
  show "files ex_world ''contracts/Foo_fuzz.sol'' = None" by (simp add: ex_world_def)
  show "files ex_stat_fault_final ''contracts/Foo_fuzz.sol'' = None"
    by (simp add: ex_stat_fault_final_def)
qed

text \<open>
  C5, amended. \<^verbatim>\<open>createTestFiles\<close> for one contract never changes a file that exists:
  when the test file exists, all files are as before and no error is returned, whether
  file-system calls fail or not. When the test file does not exist, it is created empty
  if neither \<^verbatim>\<open>os.Stat\<close> nor \<^verbatim>\<open>os.Create\<close> fails; if \<^verbatim>\<open>os.Create\<close> fails, its error is
  returned and no file is created; if \<^verbatim>\<open>os.Stat\<close> fails for a reason other than the
  missing file, nothing is created and no error is returned. No other file changes in
  any case.
\<close>

theorem createTestFiles_ensures_file:
  assumes "createTestFiles E [c] w = (r, w')"
  shows "(files w (generateTestFilePath (SourcePath c)) \<noteq> None \<longrightarrow>
       r = None \<and> files w' = files w) \<and>
    (files w (generateTestFilePath (SourcePath c)) = None \<and>
     \<not> io_fault E (trace w) (generateTestFilePath (SourcePath c)) \<and>
     \<not> io_fault E (trace w @ [EvStat (generateTestFilePath (SourcePath c)) (Some ErrNotExist)])
         (generateTestFilePath (SourcePath c)) \<longrightarrow>
       r = None \<and> files w' = (files w)(generateTestFilePath (SourcePath c) \<mapsto> [])) \<and>
    (files w (generateTestFilePath (SourcePath c)) = None \<and>
     \<not> io_fault E (trace w) (generateTestFilePath (SourcePath c)) \<and>
     io_fault E (trace w @ [EvStat (generateTestFilePath (SourcePath c)) (Some ErrNotExist)])
         (generateTestFilePath (SourcePath c)) \<longrightarrow>
       r = Some ErrIO \<and> files w' = files w) \<and>
    (files w (generateTestFilePath (SourcePath c)) = None \<and>
     io_fault E (trace w) (generateTestFilePath (SourcePath c)) \<longrightarrow>
       r = None \<and> files w' = files w) \<and>
    ((\<forall>tr. \<not> io_fault E tr (generateTestFilePath (SourcePath c))) \<longrightarrow>
       r = None \<and>
       files w' = (if files w (generateTestFilePath (SourcePath c)) = None
                   then (files w)(generateTestFilePath (SourcePath c) \<mapsto> [])
                   else files w)) \<and>
    (\<forall>q. q \<noteq> generateTestFilePath (SourcePath c) \<longrightarrow> files w' q = files w q)"
proof -
  let ?p = "generateTestFilePath (SourcePath c)"
  obtain err w1 where st: "os_Stat E ?p w = (err, w1)" by (metis prod.exhaust)
  note e1 = os_Stat_effect[OF st] and r1 = os_Stat_result[OF st]
  obtain err' w2 where cr: "os_Create E ?p w1 = (err', w2)" by (metis prod.exhaust)
  note e2 = os_Create_effect[OF cr] and r2 = os_Create_result[OF cr]
  show ?thesis
  proof (cases "os_IsNotExist err")
    case False
    with assms st have "r = None" "w' = w1" by (simp_all add: Let_def)
    with e1 r1 False show ?thesis by (auto simp: os_IsNotExist_def split: if_splits)
  next
    case True
    with assms st cr have rw: "r = err'" "w' = w2" by (auto simp: Let_def split: option.splits)
    from True r1 have err: "err = Some ErrNotExist" "files w ?p = None" "\<not> io_fault E (trace w) ?p"
      by (auto simp: os_IsNotExist_def split: if_splits)
    from e1(3) err(1) have tr1: "trace w1 = trace w @ [EvStat ?p (Some ErrNotExist)]" by simp
    from r2 tr1 have err': "err' = (if io_fault E (trace w @ [EvStat ?p (Some ErrNotExist)]) ?p
        then Some ErrIO else None)" by simp
    from rw e1(1) e2(3) err err' show ?thesis by auto
  qed
qed

theorem createTestFiles_ensures_file_witness:
  "createTestFiles ex_ok_env [ex_contract] ex_world = (None, ex_created) \<and>
   files ex_world (generateTestFilePath (SourcePath ex_contract)) = None \<and>
   files ex_created = (files ex_world)(generateTestFilePath (SourcePath ex_contract) \<mapsto> []) \<and>
   createTestFiles ex_ok_env [ex_contract] ex_generated = (None, ex_checked) \<and>
   files ex_generated (generateTestFilePath (SourcePath ex_contract)) = Some ''v1'' \<and>
   files ex_checked = files ex_generated \<and>
   createTestFiles ex_stat_fault_env [ex_contract] ex_world = (None, ex_stat_fault_final) \<and>
   io_fault ex_stat_fault_env (trace ex_world) (generateTestFilePath (SourcePath ex_contract)) \<and>
   files ex_stat_fault_final = files ex_world"
proof -
  have a: "createTestFiles ex_ok_env [ex_contract] ex_world = (None, ex_created)"
    by (simp add: run_defs ex_defs ex_ok_env_def)
  have b: "createTestFiles ex_ok_env [ex_contract] ex_generated = (None, ex_checked)"
    by (simp add: run_defs ex_defs ex_ok_env_def ex_checked_def)
  have c: "createTestFiles ex_stat_fault_env [ex_contract] ex_world = (None, ex_stat_fault_final)"
    by (simp add: run_defs ex_defs ex_stat_fault_env_def ex_stat_fault_final_def)
  have nf: "\<not> io_fault ex_ok_env (trace ex_world) (generateTestFilePath (SourcePath ex_contract))"
    "\<not> io_fault ex_ok_env
        (trace ex_world @ [EvStat (generateTestFilePath (SourcePath ex_contract)) (Some ErrNotExist)])
        (generateTestFilePath (SourcePath ex_contract))"
    by (simp_all add: ex_ok_env_def)
  have sf: "io_fault ex_stat_fault_env (trace ex_world)
      (generateTestFilePath (SourcePath ex_contract))"
    by (simp add: ex_stat_fault_env_def ex_world_def)
  have f0: "files ex_world (generateTestFilePath (SourcePath ex_contract)) = None"
    by (simp add: ex_world_def ex_contract_def ex_paths)
  have f1: "files ex_generated (generateTestFilePath (SourcePath ex_contract)) = Some ''v1''"
    by (simp add: ex_generated_def ex_contract_def ex_paths)
  from createTestFiles_ensures_file[OF a] createTestFiles_ensures_file[OF b]
    createTestFiles_ensures_file[OF c] a b c nf sf f0 f1
  show ?thesis by simp
qed

text \<open>
  C10. The name of the test contract is the name of the contract followed by
  \<^verbatim>\<open>Test\<close>, and this is the name that the generation prompt of the contract is built
  with: whenever the processing of a contract has added to the history, the first
  message added is the generation prompt for the contract's name and that name
  followed by \<^verbatim>\<open>Test\<close>.
\<close>

theorem test_contract_name:
  "generateTestContractName n = n @ ''Test'' \<and>
   (harness_for_contract E c w = Some (r, w') \<and> messages w' \<noteq> messages w \<longrightarrow>
      (\<exists>s t. messages w' ! length (messages w) =
         \<lparr>Role = ''user'',
          Content = GenerateFuzzHarnessPrompt (SourcePath c) (generateTestFilePath (SourcePath c))
            s t (Name c) (Name c @ ''Test'')\<rparr>))"
proof (intro conjI impI)
  show "generateTestContractName n = n @ ''Test''" by (simp add: generateTestContractName_def)
next
  assume a: "harness_for_contract E c w = Some (r, w') \<and> messages w' \<noteq> messages w"
  then have h: "harness_for_contract E c w = Some (r, w')" and ne: "messages w' \<noteq> messages w"
    by simp_all
  have "\<exists>s t ms. messages w' = messages w @ generation_request c s t # ms"
    using h
  proof (cases rule: harness_for_contract_cases)
    case (generated s t response w6)
    from validate_loop_history[OF generated(4)] obtain ms where "messages w' = messages w6 @ ms"
      by blast
    with generated(2) show ?thesis by auto
  qed (use ne in auto)
  then obtain s t ms where "messages w' = messages w @ generation_request c s t # ms" by blast
  then have "messages w' ! length (messages w) = generation_request c s t" by simp
  then show "\<exists>s t. messages w' ! length (messages w) =
         \<lparr>Role = ''user'',
          Content = GenerateFuzzHarnessPrompt (SourcePath c) (generateTestFilePath (SourcePath c))
            s t (Name c) (Name c @ ''Test'')\<rparr>"
    by (auto simp: generation_request_def generateTestContractName_def)
qed

theorem test_contract_name_witness:
  "generateTestContractName ''Foo'' = ''FooTest'' \<and>
   harness_for_contract ex_repair_env ex_contract ex_created = Some (None, ex_repair_final) \<and>
   messages ex_repair_final \<noteq> messages ex_created \<and>
   (\<exists>s t. messages ex_repair_final ! length (messages ex_created) =
      \<lparr>Role = ''user'',
       Content = GenerateFuzzHarnessPrompt (SourcePath ex_contract)
         (generateTestFilePath (SourcePath ex_contract)) s t (Name ex_contract)
         (Name ex_contract @ ''Test'')\<rparr>)"
proof -
  have ne: "messages ex_repair_final \<noteq> messages ex_created"
    by (simp add: ex_repair_final_def ex_created_def ex_history_3_def ex_history_2_def
        ex_history_1_def)
  from test_contract_name[of "''Foo''" ex_repair_env ex_contract ex_created None ex_repair_final]
    ex_repair_unit ne
  show ?thesis by simp
qed

section \<open>Runs that are known to end\<close>

lemma validateTestFile_result:
  assumes "validateTestFile E path w = ((stdErr, err), w')"
  shows "validation_error E (trace w) (files w) path = err"
  using assms
  by (auto simp: validateTestFile_def validation_error_def validate_command_def Let_def
      split: prod.splits)

lemma processMessageWithGPT4Turbo_result:
  assumes "processMessageWithGPT4Turbo E message w = (r, w')"
  shows "AskGPT4Turbo E (trace w) (messages w @ [message]) = r"
  using assms
  by (auto simp: processMessageWithGPT4Turbo_def call_AskGPT4Turbo_def log_def Let_def
      split: sum.splits)

lemma call_AskGPT4Turbo_result:
  assumes "call_AskGPT4Turbo E msgs w = (r, w')"
  shows "AskGPT4Turbo E (trace w) msgs = r"
  using assms by (auto simp: call_AskGPT4Turbo_def Let_def)

lemma os_WriteFile_result:
  assumes "os_WriteFile E name data w = (err, w')"
  shows "err = (if io_fault E (trace w) name then Some ErrIO else None)"
  using assms by (auto simp: os_WriteFile_def split: if_splits)

lemma os_ReadFile_result:
  assumes "os_ReadFile E name w = (r, w')"
  shows "r = (if io_fault E (trace w) name then Inl ErrIO
              else case files w name of None \<Rightarrow> Inl ErrNotExist | Some data \<Rightarrow> Inr data)"
  using assms by (auto simp: os_ReadFile_def Let_def)

text \<open>One turn of the loop when the validation fails and the client and the write do not.\<close>

lemma validate_loop_repair_step:
  assumes faults: "\<forall>tr name. \<not> io_fault E tr name"
    and ask: "\<forall>tr msgs. \<exists>response. AskGPT4Turbo E tr msgs = Inr response"
    and fails: "validation_error E (trace w) (files w) p \<noteq> None"
  shows "\<exists>w3 stdErr verr response.
    validate_loop E c p w = validate_loop E c p w3 \<and>
    trace w3 = trace w @ [EvRunCommand (validate_command p) stdErr (Some verr),
      EvAskGPT4Turbo (messages w @ [repair_request stdErr]) (Inr response),
      EvWriteFile (generateTestFilePath (SourcePath c)) response None]"
proof -
  obtain stdErr err w1 where v: "validateTestFile E p w = ((stdErr, err), w1)"
    by (metis prod.exhaust)
  from validateTestFile_result[OF v] fails obtain verr where verr: "err = Some verr" by auto
  let ?m = "\<lparr>Role = ''user'', Content = RegenerateFuzzHarnessPrompt stdErr\<rparr>"
  obtain a w2 where pm: "processMessageWithGPT4Turbo E ?m w1 = (a, w2)" by (metis prod.exhaust)
  from processMessageWithGPT4Turbo_result[OF pm] ask obtain response where a: "a = Inr response"
    by metis
  obtain werr w3 where wr: "os_WriteFile E (generateTestFilePath (SourcePath c)) response w2 = (werr, w3)"
    by (metis prod.exhaust)
  from os_WriteFile_result[OF wr] faults have werr: "werr = None" by simp
  have "validate_loop E c p w = validate_loop E c p w3"
    by (subst validate_loop.simps) (simp add: v verr pm a wr werr)
  moreover have "trace w3 = trace w @ [EvRunCommand (validate_command p) stdErr (Some verr),
      EvAskGPT4Turbo (messages w @ [repair_request stdErr]) (Inr response),
      EvWriteFile (generateTestFilePath (SourcePath c)) response None]"
    using validateTestFile_effect[OF v] processMessageWithGPT4Turbo_effect[OF pm]
      os_WriteFile_effect[OF wr]
    by (simp add: verr a werr validate_command_def repair_request_def)
  ultimately show ?thesis by blast
qed

lemma validate_loop_valid_step:
  assumes "validation_error E (trace w) (files w) p = None"
  shows "\<exists>w1 stdErr. validate_loop E c p w = Some (None, w1) \<and>
    trace w1 = trace w @ [EvRunCommand (validate_command p) stdErr None]"
proof -
  obtain stdErr err w1 where v: "validateTestFile E p w = ((stdErr, err), w1)"
    by (metis prod.exhaust)
  from validateTestFile_result[OF v] assms have err: "err = None" by simp
  have "validate_loop E c p w = Some (None, w1)"
    by (subst validate_loop.simps) (simp add: v err)
  with validateTestFile_effect(3)[OF v] err show ?thesis
    by (auto simp: validate_command_def)
qed

lemma validate_loop_after_failures:
  assumes faults: "\<forall>tr name. \<not> io_fault E tr name"
    and ask: "\<forall>tr msgs. \<exists>response. AskGPT4Turbo E tr msgs = Inr response"
    and val: "\<forall>tr fs. m \<le> count_kind KValidate tr \<longrightarrow>
      (validation_error E tr fs p = None) = (n \<le> count_kind KValidate tr)"
  shows "m \<le> count_kind KValidate (trace w) \<Longrightarrow> count_kind KValidate (trace w) + k = n \<Longrightarrow>
    \<exists>w'. validate_loop E c p w = Some (None, w') \<and>
      (\<exists>evs. trace w' = trace w @ evs \<and> map kind_of evs = repair_outline k \<and>
         repair_cycles evs = k)"
proof (induction k arbitrary: w)
  case 0
  with val have "validation_error E (trace w) (files w) p = None" by simp
  from validate_loop_valid_step[OF this, of c] show ?case
    by (auto simp: repair_cycles_def)
next
  case (Suc k)
  with val have "validation_error E (trace w) (files w) p \<noteq> None" by simp
  from validate_loop_repair_step[OF faults ask this, of c] obtain w3 stdErr verr response where
    step: "validate_loop E c p w = validate_loop E c p w3"
    and tr: "trace w3 = trace w @ [EvRunCommand (validate_command p) stdErr (Some verr),
      EvAskGPT4Turbo (messages w @ [repair_request stdErr]) (Inr response),
      EvWriteFile (generateTestFilePath (SourcePath c)) response None]" by blast
  from tr have cnt: "count_kind KValidate (trace w3) = Suc (count_kind KValidate (trace w))"
    by (simp add: count_kind_def)
  with Suc.prems have "m \<le> count_kind KValidate (trace w3)" "count_kind KValidate (trace w3) + k = n"
    by simp_all
  from Suc.IH[OF this] obtain w' evs where
    w': "validate_loop E c p w3 = Some (None, w')" "trace w' = trace w3 @ evs"
      "map kind_of evs = repair_outline k" "repair_cycles evs = k" by blast
  let ?pre = "[EvRunCommand (validate_command p) stdErr (Some verr),
      EvAskGPT4Turbo (messages w @ [repair_request stdErr]) (Inr response),
      EvWriteFile (generateTestFilePath (SourcePath c)) response None]"
  have "validate_loop E c p w = Some (None, w')" using step w'(1) by simp
  moreover have "trace w' = trace w @ (?pre @ evs)" using tr w'(2) by simp
  moreover have "map kind_of (?pre @ evs) = repair_outline (Suc k)" using w'(3) by simp
  moreover have "repair_cycles (?pre @ evs) = Suc k" using w'(4)
    by (simp add: repair_cycles_def)
  ultimately show ?case by blast
qed

text \<open>The part of \<^verbatim>\<open>generateFuzzingHarness\<close> before the loop, when nothing fails.\<close>

lemma harness_for_contract_generation:
  assumes faults: "\<forall>tr name. \<not> io_fault E tr name"
    and ask: "\<forall>tr msgs. \<exists>response. AskGPT4Turbo E tr msgs = Inr response"
    and src: "files w (SourcePath c) = Some s"
    and tst: "files w (generateTestFilePath (SourcePath c)) = Some t"
  shows "\<exists>w6 response.
    harness_for_contract E c w = validate_loop E c (generateTestFilePath (SourcePath c)) w6 \<and>
    trace w6 = trace w @ [EvReadFile (SourcePath c) (Inr s),
      EvReadFile (generateTestFilePath (SourcePath c)) (Inr t),
      EvAskGPT4Turbo (messages w @ [generation_request c s t]) (Inr response),
      EvWriteFile (generateTestFilePath (SourcePath c)) response None]"
proof -
  let ?p = "generateTestFilePath (SourcePath c)"
  obtain r1 w1 where r1: "os_ReadFile E (SourcePath c) w = (r1, w1)" by (metis prod.exhaust)
  note e1 = os_ReadFile_effect[OF r1]
  from os_ReadFile_result[OF r1] faults src have s: "r1 = Inr s" by simp
  obtain r2 w2 where r2: "os_ReadFile E ?p w1 = (r2, w2)" by (metis prod.exhaust)
  note e2 = os_ReadFile_effect[OF r2]
  from os_ReadFile_result[OF r2] faults tst e1 have t: "r2 = Inr t" by simp
  let ?m = "generation_request c s t"
  let ?w3 = "w2\<lparr>messages := messages w2 @ [?m]\<rparr>"
  obtain a w4 where ak: "call_AskGPT4Turbo E (messages ?w3) ?w3 = (a, w4)" by (metis prod.exhaust)
  note e4 = call_AskGPT4Turbo_effect[OF ak]
  from call_AskGPT4Turbo_result[OF ak] ask obtain response where a: "a = Inr response" by metis
  let ?w5 = "w4\<lparr>messages := messages w4 @ [\<lparr>Role = ''system'', Content = response\<rparr>]\<rparr>"
  obtain werr w6 where wr: "os_WriteFile E ?p response ?w5 = (werr, w6)" by (metis prod.exhaust)
  note e6 = os_WriteFile_effect[OF wr]
  from os_WriteFile_result[OF wr] faults have werr: "werr = None" by simp
  have "harness_for_contract E c w = validate_loop E c ?p w6"
    using r1 s r2 t ak a wr werr
    by (simp add: harness_for_contract_def Let_def generation_request_def)
  moreover have "trace w6 = trace w @ [EvReadFile (SourcePath c) (Inr s),
      EvReadFile ?p (Inr t),
      EvAskGPT4Turbo (messages w @ [generation_request c s t]) (Inr response),
      EvWriteFile ?p response None]"
    using e1 e2 e4 e6 by (simp add: s t a werr)
  ultimately show ?thesis by blast
qed

text \<open>
  C4. Let nothing but the validator fail, and let the validator fail on exactly the
  first \<open>k\<close> validations from the start of the contract on and succeed afterwards. Then
  the processing of the contract returns without error after the two reads, one
  generation request with its write, \<open>k\<close> repair cycles (validation, repair request,
  write) and a last validation: \<open>1 + k\<close> calls of the chat client and \<open>k + 1\<close> calls of
  the validator. For \<open>k = 2\<close> these are 1 generation request, 2 repair requests and 3
  validations; for \<open>k = 0\<close>, a validator that succeeds at once, one of each.
\<close>

theorem repair_convergence:
  assumes faults: "\<forall>tr name. \<not> io_fault E tr name"
    and ask: "\<forall>tr msgs. \<exists>response. AskGPT4Turbo E tr msgs = Inr response"
    and src: "files w (SourcePath c) = Some s"
    and tst: "files w (generateTestFilePath (SourcePath c)) = Some t"
    and val: "\<forall>tr fs. count_kind KValidate (trace w) \<le> count_kind KValidate tr \<longrightarrow>
      (validation_error E tr fs (generateTestFilePath (SourcePath c)) = None) =
      (count_kind KValidate (trace w) + k \<le> count_kind KValidate tr)"
  shows "\<exists>w'. harness_for_contract E c w = Some (None, w') \<and>
    map kind_of (new_events w w') =
      [KReadFile, KReadFile, KAsk, KWriteFile] @ repair_outline k \<and>
    count_kind KAsk (new_events w w') = 1 + k \<and>
    count_kind KValidate (new_events w w') = k + 1 \<and>
    repair_cycles (new_events w w') = k \<and>
    repairs_follow (new_events w w') \<and>
    (\<exists>res. new_events w w' ! 2 = EvAskGPT4Turbo (messages w @ [generation_request c s t]) res)"
proof -
  let ?p = "generateTestFilePath (SourcePath c)"
  from harness_for_contract_generation[OF faults ask src tst] obtain w6 response where
    gen: "harness_for_contract E c w = validate_loop E c ?p w6"
    and tr6: "trace w6 = trace w @ [EvReadFile (SourcePath c) (Inr s),
      EvReadFile ?p (Inr t),
      EvAskGPT4Turbo (messages w @ [generation_request c s t]) (Inr response),
      EvWriteFile ?p response None]" by blast
  from tr6 have cnt: "count_kind KValidate (trace w6) = count_kind KValidate (trace w)"
    by (simp add: count_kind_def)
  from validate_loop_after_failures[OF faults ask val, of w6 k c] cnt obtain w' evs where
    w': "validate_loop E c ?p w6 = Some (None, w')" "trace w' = trace w6 @ evs"
      "map kind_of evs = repair_outline k" "repair_cycles evs = k" by auto
  let ?pre = "[EvReadFile (SourcePath c) (Inr s),
      EvReadFile ?p (Inr t),
      EvAskGPT4Turbo (messages w @ [generation_request c s t]) (Inr response),
      EvWriteFile ?p response None]"
  have h: "harness_for_contract E c w = Some (None, w')" using gen w'(1) by simp
  have ne: "new_events w w' = ?pre @ evs" using tr6 w'(2) by simp
  have outl: "map kind_of (new_events w w') = [KReadFile, KReadFile, KAsk, KWriteFile] @ repair_outline k"
    using ne w'(3) by simp
  have ck: "count_kind K evs = length (filter (\<lambda>x. x = K) (repair_outline k))" for K
    unfolding count_kind_def w'(3)[symmetric] by (simp add: filter_map comp_def)
  have ro: "length (filter (\<lambda>x. x = KAsk) (repair_outline k)) = k"
    "length (filter (\<lambda>x. x = KValidate) (repair_outline k)) = k + 1"
    by (induction k) simp_all
  have asks: "count_kind KAsk (new_events w w') = 1 + k"
    and vals: "count_kind KValidate (new_events w w') = k + 1"
    unfolding ne count_kind_append ck ro by (simp_all add: count_kind_def)
  from harness_for_contract_repairs_follow[OF h] have rf: "repairs_follow (new_events w w')"
    by auto
  have rc: "repair_cycles (new_events w w') = k"
    unfolding ne repair_cycles_append w'(4) by (simp add: repair_cycles_def)
  from h outl asks vals rc rf ne show ?thesis by auto
qed

theorem repair_convergence_witness:
  "(\<exists>w'. harness_for_contract ex_repair_env ex_contract ex_created = Some (None, w') \<and>
      map kind_of (new_events ex_created w') =
        [KReadFile, KReadFile, KAsk, KWriteFile, KValidate, KAsk, KWriteFile, KValidate,
         KAsk, KWriteFile, KValidate] \<and>
      count_kind KAsk (new_events ex_created w') = 3 \<and>
      count_kind KValidate (new_events ex_created w') = 3) \<and>
   (\<exists>w'. harness_for_contract ex_ok_env ex_contract ex_created = Some (None, w') \<and>
      map kind_of (new_events ex_created w') =
        [KReadFile, KReadFile, KAsk, KWriteFile, KValidate] \<and>
      count_kind KAsk (new_events ex_created w') = 1 \<and>
      count_kind KValidate (new_events ex_created w') = 1)"
proof -
  have c0: "count_kind KValidate (trace ex_created) = 0"
    by (simp add: ex_created_def count_kind_def)
  have src: "files ex_created (SourcePath ex_contract) = Some ''contract Foo {}''"
    and tst: "files ex_created (generateTestFilePath (SourcePath ex_contract)) = Some []"
    by (simp_all add: ex_created_def ex_contract_def ex_paths)
  have f2: "\<forall>tr name. \<not> io_fault ex_repair_env tr name"
    and a2: "\<forall>tr msgs. \<exists>response. AskGPT4Turbo ex_repair_env tr msgs = Inr response"
    and v2: "\<forall>tr fs. count_kind KValidate (trace ex_created) \<le> count_kind KValidate tr \<longrightarrow>
      (validation_error ex_repair_env tr fs (generateTestFilePath (SourcePath ex_contract)) = None) =
      (count_kind KValidate (trace ex_created) + 2 \<le> count_kind KValidate tr)"
    by (auto simp: ex_repair_env_def validation_error_def c0)
  have f0: "\<forall>tr name. \<not> io_fault ex_ok_env tr name"
    and a0: "\<forall>tr msgs. \<exists>response. AskGPT4Turbo ex_ok_env tr msgs = Inr response"
    and v0: "\<forall>tr fs. count_kind KValidate (trace ex_created) \<le> count_kind KValidate tr \<longrightarrow>
      (validation_error ex_ok_env tr fs (generateTestFilePath (SourcePath ex_contract)) = None) =
      (count_kind KValidate (trace ex_created) + 0 \<le> count_kind KValidate tr)"
    by (auto simp: ex_ok_env_def validation_error_def c0)
  have o2: "repair_outline 2 = [KValidate, KAsk, KWriteFile, KValidate, KAsk, KWriteFile, KValidate]"
    by (simp add: numeral_2_eq_2)
  from repair_convergence[OF f2 a2 src tst v2] repair_convergence[OF f0 a0 src tst v0] o2
  show ?thesis by auto
qed

section \<open>Paths\<close>




































end
